theory Spec2Isabelle
  imports Main "HOL-Library.Finite_Map"
begin

section \<open>JavaScript values\<close>

text \<open>
  Configuration values are JSON-like JavaScript values. An object is a finite map from
  property names to values, so that HOL equality on \<open>jsval\<close> is deep structural
  equality that ignores the order of object keys and respects the order of array elements:
  this is what lodash's \<open>_.isEqual\<close> decides on such values. A property that is absent
  (\<open>undefined\<close>) is \<open>None\<close> of an option type.
\<close>

datatype jsval =
    JNull
  | JBool bool
  | JNum int
  | JStr string
  | JArr "jsval list"
  | JObj "(string, jsval) fmap"

text \<open>JavaScript truthiness, as tested by \<open>!x\<close>, \<open>x && y\<close> and \<open>x || y\<close>.\<close>

fun truthy :: "jsval \<Rightarrow> bool" where
  "truthy JNull = False"
| "truthy (JBool b) = b"
| "truthy (JNum n) = (n \<noteq> 0)"
| "truthy (JStr s) = (s \<noteq> [])"
| "truthy (JArr xs) = True"
| "truthy (JObj m) = True"

definition truthy_opt :: "jsval option \<Rightarrow> bool" where
  "truthy_opt v = (case v of None \<Rightarrow> False | Some x \<Rightarrow> truthy x)"

definition isEqual :: "jsval option \<Rightarrow> jsval option \<Rightarrow> bool" where
  "isEqual a b = (a = b)"

section \<open>Node's \<open>path\<close> module (POSIX flavour)\<close>

text \<open>
  \<open>path.extname\<close>, \<open>path.join\<close> and \<open>path.relative\<close> are the platform's functions.
  They are modelled on strings of 8-bit characters with \<open>/\<close> as the only separator.
\<close>

primrec splitOn :: "char \<Rightarrow> string \<Rightarrow> string list" where
  "splitOn c [] = [[]]"
| "splitOn c (x # xs) =
     (if x = c then [] # splitOn c xs
      else (case splitOn c xs of
              [] \<Rightarrow> [[x]]
            | y # ys \<Rightarrow> (x # y) # ys))"

primrec joinWith :: "char \<Rightarrow> string list \<Rightarrow> string" where
  "joinWith c [] = []"
| "joinWith c (s # ss) = (if ss = [] then s else s @ c # joinWith c ss)"

text \<open>
  \<open>normalizeString(path, allowAboveRoot)\<close>: empty and \<open>.\<close> segments are dropped, a
  \<open>..\<close> segment removes the segment before it unless there is none or it is \<open>..\<close>
  itself, in which case it is kept only when going above the root is allowed. The
  segments kept so far are held in reverse.
\<close>

fun normalizeString :: "bool \<Rightarrow> string list \<Rightarrow> string list \<Rightarrow> string list" where
  "normalizeString allowAboveRoot res [] = rev res"
| "normalizeString allowAboveRoot res (s # ss) =
     (if s = [] \<or> s = ''.'' then normalizeString allowAboveRoot res ss
      else if s = ''..'' then
        (case res of
           [] \<Rightarrow> normalizeString allowAboveRoot (if allowAboveRoot then [''..''] else []) ss
         | r # rs \<Rightarrow>
             if r \<noteq> ''..'' then normalizeString allowAboveRoot rs ss
             else normalizeString allowAboveRoot
                    (if allowAboveRoot then ''..'' # res else res) ss)
      else normalizeString allowAboveRoot (s # res) ss)"

definition isAbsolute :: "string \<Rightarrow> bool" where
  "isAbsolute p = (case p of [] \<Rightarrow> False | c # _ \<Rightarrow> c = CHR ''/'')"

definition normalize :: "string \<Rightarrow> string" where
  "normalize p =
     (if p = [] then ''.''
      else
        (let trailingSeparator = (last p = CHR ''/'');
             s = joinWith CHR ''/'' (normalizeString (\<not> isAbsolute p) [] (splitOn CHR ''/'' p));
             s1 = (if s = [] \<and> \<not> isAbsolute p then ''.'' else s);
             s2 = (if s1 \<noteq> [] \<and> trailingSeparator then s1 @ ''/'' else s1)
         in if isAbsolute p then CHR ''/'' # s2 else s2))"

text \<open>\<open>path.join(a, b)\<close>: the non-empty arguments joined by \<open>/\<close>, then normalised.\<close>

definition path_join :: "string \<Rightarrow> string \<Rightarrow> string" where
  "path_join a b =
     (let parts = filter (\<lambda>s. s \<noteq> []) [a, b]
      in if parts = [] then ''.'' else normalize (joinWith CHR ''/'' parts))"

text \<open>
  \<open>path.resolve(p)\<close> against the working directory \<open>cwd\<close> (an absolute path), as
  the list of segments below the root.
\<close>

definition resolve :: "string \<Rightarrow> string \<Rightarrow> string list" where
  "resolve cwd p =
     normalizeString False []
       (splitOn CHR ''/'' (if isAbsolute p then p else if p = [] then cwd else cwd @ ''/'' @ p))"

fun dropCommon :: "string list \<Rightarrow> string list \<Rightarrow> string list \<times> string list" where
  "dropCommon (x # xs) (y # ys) = (if x = y then dropCommon xs ys else (x # xs, y # ys))"
| "dropCommon xs ys = (xs, ys)"

text \<open>
  \<open>path.relative(from, to)\<close>: one \<open>..\<close> for every segment of \<open>from\<close> below the
  common ancestor, then what is left of \<open>to\<close>.
\<close>

definition relative :: "string \<Rightarrow> string \<Rightarrow> string \<Rightarrow> string" where
  "relative cwd from to =
     (if from = to then []
      else
        (let (f, t) = dropCommon (resolve cwd from) (resolve cwd to)
         in joinWith CHR ''/'' (replicate (length f) ''..'' @ t)))"

text \<open>
  \<open>path.extname(p)\<close>: trailing separators are ignored; the extension runs from the
  last \<open>.\<close> of the last segment to its end; there is none when the segment has no
  \<open>.\<close>, when its only \<open>.\<close> is its first character, or when the segment is \<open>..\<close>.
\<close>

definition basename_part :: "string \<Rightarrow> string" where
  "basename_part p =
     rev (takeWhile (\<lambda>c. c \<noteq> CHR ''/'') (dropWhile (\<lambda>c. c = CHR ''/'') (rev p)))"

definition extname :: "string \<Rightarrow> string" where
  "extname p =
     (let b = basename_part p;
          ext = rev (takeWhile (\<lambda>c. c \<noteq> CHR ''.'') (rev b))
      in if CHR ''.'' \<notin> set b then []
         else if length ext + 1 = length b then []
         else if b = ''..'' then []
         else CHR ''.'' # ext)"

section \<open>lodash helpers\<close>

text \<open>\<open>_.uniq\<close>: the first occurrence of every element is kept, in order.\<close>

fun uniq_from :: "'a list \<Rightarrow> 'a list \<Rightarrow> 'a list" where
  "uniq_from seen [] = []"
| "uniq_from seen (x # xs) =
     (if x \<in> set seen then uniq_from seen xs else x # uniq_from (x # seen) xs)"

definition uniq :: "'a list \<Rightarrow> 'a list" where
  "uniq xs = uniq_from [] xs"

text \<open>\<open>_.sortBy(xs, a => _.size(a))\<close>: a stable sort, ascending by string length.\<close>

definition sortBy_size :: "string list \<Rightarrow> string list" where
  "sortBy_size xs = sort_key length xs"

section \<open>The host and the plugin\<close>

text \<open>
  \<open>preferredExtensions\<close>, the constant of \<open>lib/validate.js\<close>.
\<close>

definition preferredExtensions :: "string list" where
  "preferredExtensions = [''.js'', ''.ts'', ''.jsx'', ''.tsx'']"

record options =
  opt_function :: "string option"
  opt_out :: "string option"
  opt_verbose :: bool

text \<open>
  The messages the plugin writes to \<open>serverless.cli.log\<close>:
  \<^item> \<open>Warn_more_than_one f w\<close> is
    \<open>WARNING: More than one matching handlers found for 'f'. Using 'w'.\<close>;
  \<^item> \<open>Warn_no_entry n h\<close> is \<open>WARNING: Entry for n@h could not be retrieved. ...\<close>;
  \<^item> \<open>Could_not_load p\<close> is \<open>Could not load webpack config 'p'\<close>;
  \<^item> \<open>Removing p\<close> is \<open>Removing p\<close>;
  \<^item> \<open>Using_multi_compile\<close> is \<open>Using multi-compile (individual packaging)\<close>.
\<close>

datatype log_line =
    Warn_more_than_one string string
  | Warn_no_entry string string
  | Could_not_load string
  | Removing "jsval option"
  | Using_multi_compile

text \<open>
  The faults of a resolution pass:
  \<^item> \<open>No_matching_handler f\<close> is
    \<open>No matching handler found for 'f'. Check your service definition.\<close>;
  \<^item> \<open>Config_not_found p\<close> is
    \<open>The webpack plugin could not find the configuration file at: p\<close>;
  \<^item> \<open>Config_load_error p\<close> is whatever loading the module at \<open>p\<close> threw;
  \<^item> \<open>Entry_must_be_resolved\<close> is \<open>Webpack entry must be automatically resolved
    when package.individually is set to true. ...\<close>;
  \<^item> \<open>Function_does_not_exist n\<close> is the host's \<open>Function "n" doesn't exist ...\<close>;
  \<^item> \<open>Path_must_be_string\<close> is the \<open>TypeError\<close> of the \<open>path\<close> module on an
    argument that is not a string;
  \<^item> \<open>RegExp_error\<close> is what the regular-expression engine threw.
\<close>

datatype error =
    No_matching_handler string
  | Config_not_found string
  | Config_load_error string
  | Entry_must_be_resolved
  | Function_does_not_exist string
  | Type_error
  | RegExp_error

text \<open>
  \<open>validate\<close> ends in one of three ways: it returns a resolved promise, it
  returns a rejected promise, or it throws synchronously.
\<close>

datatype outcome =
    Resolved
  | Rejected error
  | Thrown error

text \<open>
  The bundler configuration. The fields \<open>validate\<close> reads or writes are fields of the
  record; every other property (\<open>devtool\<close>, \<open>module\<close>, ...) is kept in
  \<open>cfg_others\<close> and \<open>out_others\<close>.
\<close>

record output_config =
  out_libraryTarget :: "jsval option"
  out_path :: "jsval option"
  out_filename :: "jsval option"
  out_others :: "(string, jsval) fmap"

record webpack_config =
  cfg_entry :: "jsval option"
  cfg_context :: "jsval option"
  cfg_target :: "jsval option"
  cfg_output :: "output_config option"
  cfg_others :: "(string, jsval) fmap"

text \<open>\<open>serverless.service.custom.webpack\<close>: a file name or a configuration object.\<close>

datatype custom_webpack =
    Custom_file string
  | Custom_object webpack_config

record sls_function =
  handler :: string
  artifact :: "string option"

record serverless =
  servicePath :: string
  all_functions :: "(string \<times> sls_function) list"
  provider_name :: "string option"
  package_individually :: bool
  custom_webpack :: "custom_webpack option"

text \<open>\<open>this.webpackConfig\<close>: a file name, one configuration, or one per binding.\<close>

datatype webpackConfig =
    Config_file string
  | Config_object webpack_config
  | Config_list "webpack_config list"

text \<open>
  An element of \<open>this.entryFunctions\<close>. The placeholder \<open>{}\<close> pushed for an entry
  without a function has no \<open>handlerFile\<close>, \<open>funcName\<close> or \<open>func\<close>.
\<close>

record binding =
  handlerFile :: "string option"
  funcName :: "string option"
  func :: "sls_function option"
  b_entry :: "(string \<times> string) option"

text \<open>The shared object of \<open>lib/index.js\<close>.\<close>

record lib_state =
  lib_serverless :: "serverless option"
  lib_options :: "options option"
  lib_entries :: "(string \<times> string) list option"

text \<open>
  The external services: the candidate listing \<open>globby.sync(pattern, {cwd, nodir})\<close>,
  \<open>process.cwd()\<close>, the host's \<open>fileExistsSync\<close>, \<open>require\<close> of a configuration
  module (\<open>None\<close> when loading throws), lodash's \<open>_.camelCase\<close>, and the
  regular-expression engine for patterns that are more than literal characters:
  \<open>regexp_replace h src s\<close> is \<open>s.replace(new RegExp(src), '')\<close>, \<open>None\<close> when
  constructing the expression throws.
\<close>

record host =
  globby_sync :: "string \<Rightarrow> string \<Rightarrow> string list"
  process_cwd :: string
  fileExistsSync :: "string \<Rightarrow> bool"
  require_module :: "string \<Rightarrow> webpack_config option"
  camelCase :: "string \<Rightarrow> string"
  regexp_replace :: "string \<Rightarrow> string \<Rightarrow> string option"

text \<open>
  The plugin instance \<open>this\<close>, together with what the pass writes outside of it: the
  shared object \<open>lib\<close>, the lines logged and the directories removed.
\<close>

record plugin =
  serverless :: serverless
  options :: options
  keepOutputDirectory :: bool
  webpackConfig :: "webpackConfig option"
  webpackOutputPath :: "jsval option"
  multiCompile :: bool
  entryFunctions :: "binding list"
  lib :: lib_state
  cli_log :: "log_line list"
  removed :: "jsval option list"

section \<open>Handler parser\<close>

text \<open>
  \<open>getHandlerFile\<close> runs \<^verbatim>\<open>/(.*)\..*?$/\<close> on the handler string. A \<open>.\<close> of
  a regular expression matches every character but a line terminator and \<open>$\<close> matches at
  the end of the input only, so the leftmost match starts after the last line terminator,
  and exists when that last line has a \<open>.\<close>; the greedy group then runs up to the last
  \<open>.\<close> of the line.
\<close>

definition line_terminator :: "char \<Rightarrow> bool" where
  "line_terminator c = (c = CHR 0x0A \<or> c = CHR 0x0D)"

definition getHandlerFile :: "string \<Rightarrow> string option" where
  "getHandlerFile str =
     (let line = rev (takeWhile (\<lambda>c. \<not> line_terminator c) (rev str))
      in if CHR ''.'' \<in> set line
         then Some (rev (tl (dropWhile (\<lambda>c. c \<noteq> CHR ''.'') (rev line))))
         else None)"

section \<open>Candidate resolver\<close>

definition getEntryExtension :: "host \<Rightarrow> plugin \<Rightarrow> string \<Rightarrow> error + (string \<times> plugin)" where
  "getEntryExtension h this fileName =
     (let files = globby_sync h (fileName @ ''.*'')
                    (if servicePath (serverless this) \<noteq> [] then servicePath (serverless this)
                     else process_cwd h)
      in if files = [] then Inl (No_matching_handler fileName)
         else
           (let sortedFiles =
                  uniq (sortBy_size
                          (filter (\<lambda>file. extname file \<in> set preferredExtensions) files)
                        @ files)
            in case sortedFiles of
                 [] \<Rightarrow> Inl Type_error
               | winner # _ \<Rightarrow>
                   Inr (extname winner,
                        if length sortedFiles > 1
                        then this\<lparr>cli_log := cli_log this @ [Warn_more_than_one fileName winner]\<rparr>
                        else this)))"

definition getEntryForFunction ::
  "host \<Rightarrow> plugin \<Rightarrow> string \<Rightarrow> sls_function \<Rightarrow> error + ((string \<times> string) list \<times> plugin)" where
  "getEntryForFunction h this name serverlessFunction =
     (let skipped =
            Inr ([],
                 if provider_name (serverless this) \<noteq> Some ''google''
                 then this\<lparr>cli_log := cli_log this
                               @ [Warn_no_entry name (handler serverlessFunction)]\<rparr>
                 else this)
      in case getHandlerFile (handler serverlessFunction) of
           None \<Rightarrow> skipped
         | Some file \<Rightarrow>
             if file = [] then skipped
             else
               (case getEntryExtension h this file of
                  Inl e \<Rightarrow> Inl e
                | Inr (ext, this') \<Rightarrow> Inr ([(file, ''./'' @ file @ ext)], this')))"

section \<open>Configuration builder\<close>

subsection \<open>Entry resolution\<close>

text \<open>
  Property order. A JavaScript object enumerates its array-index keys (canonical decimal
  numerals below \<open>2^32 - 1\<close>) first, in ascending numeric order, and its other string
  keys after them in the order of their creation. An object is held as the list of its
  properties in the order of creation; \<open>ownProperties\<close> is the order in which
  \<open>Object.keys\<close> and \<open>_.flatMap\<close> visit it.
\<close>

definition decimal :: "string \<Rightarrow> nat" where
  "decimal s = foldl (\<lambda>n c. 10 * n + (of_char c - 48)) 0 s"

definition isArrayIndex :: "string \<Rightarrow> bool" where
  "isArrayIndex s =
     (s \<noteq> [] \<and> (\<forall>c \<in> set s. c \<in> set ''0123456789'')
      \<and> (s = ''0'' \<or> hd s \<noteq> CHR ''0'') \<and> decimal s < 4294967295)"

definition ownProperties :: "(string \<times> 'a) list \<Rightarrow> (string \<times> 'a) list" where
  "ownProperties ps =
     sort_key (\<lambda>p. decimal (fst p)) (filter (\<lambda>p. isArrayIndex (fst p)) ps)
     @ filter (\<lambda>p. \<not> isArrayIndex (fst p)) ps"

text \<open>
  The host's \<open>getAllFunctions\<close>, which is \<open>Object.keys\<close> of the declared functions,
  and \<open>getFunction\<close>, which throws for a name that is not declared. The functions are
  held in the order of their declaration.
\<close>

definition getAllFunctions :: "serverless \<Rightarrow> string list" where
  "getAllFunctions sls = map fst (ownProperties (all_functions sls))"

definition getFunction :: "serverless \<Rightarrow> string \<Rightarrow> error + sls_function" where
  "getFunction sls name =
     (case map_of (all_functions sls) name of
        None \<Rightarrow> Inl (Function_does_not_exist name)
      | Some f \<Rightarrow> Inr f)"

text \<open>
  \<open>_.merge(entries, entry)\<close> for an \<open>entry\<close> of at most one property with a string
  value: a key that exists keeps its place and takes the new value, a new key goes last.
\<close>

fun assign :: "(string \<times> string) list \<Rightarrow> string \<Rightarrow> string \<Rightarrow> (string \<times> string) list" where
  "assign [] k v = [(k, v)]"
| "assign (p # ps) k v = (if fst p = k then (k, v) # ps else p # assign ps k v)"

fun merge :: "(string \<times> string) list \<Rightarrow> (string \<times> string) list \<Rightarrow> (string \<times> string) list" where
  "merge entries [] = entries"
| "merge entries ((k, v) # rest) = merge (assign entries k v) rest"

text \<open>
  The \<open>_.forEach\<close> over the function names; an exception thrown for one function ends
  the loop, and what was logged before stays logged.
\<close>

fun forEach_function ::
  "host \<Rightarrow> string list \<Rightarrow> (string \<times> string) list \<Rightarrow> plugin
     \<Rightarrow> (error + (string \<times> string) list) \<times> plugin" where
  "forEach_function h [] entries this = (Inr entries, this)"
| "forEach_function h (name # names) entries this =
     (case getFunction (serverless this) name of
        Inl e \<Rightarrow> (Inl e, this)
      | Inr f \<Rightarrow>
          (case getEntryForFunction h this name f of
             Inl e \<Rightarrow> (Inl e, this)
           | Inr (entry, this') \<Rightarrow> forEach_function h names (merge entries entry) this'))"

definition truthy_string :: "string option \<Rightarrow> bool" where
  "truthy_string s = (case s of None \<Rightarrow> False | Some x \<Rightarrow> x \<noteq> [])"

definition resolveEntries ::
  "host \<Rightarrow> plugin \<Rightarrow> (error + (string \<times> string) list) \<times> plugin" where
  "resolveEntries h this =
     (if truthy_string (opt_function (options this))
      then
        (case opt_function (options this) of
           None \<Rightarrow> (Inr [], this)
         | Some name \<Rightarrow>
             (case getFunction (serverless this) name of
                Inl e \<Rightarrow> (Inl e, this)
              | Inr f \<Rightarrow>
                  (case getEntryForFunction h this name f of
                     Inl e \<Rightarrow> (Inl e, this)
                   | Inr (entry, this') \<Rightarrow> (Inr (merge [] entry), this'))))
      else forEach_function h (getAllFunctions (serverless this)) [] this)"

text \<open>The names a pass resolves: the selected function, or all of them.\<close>

definition selectedFunctions :: "plugin \<Rightarrow> string list" where
  "selectedFunctions this =
     (case opt_function (options this) of
        None \<Rightarrow> getAllFunctions (serverless this)
      | Some name \<Rightarrow> if name = [] then getAllFunctions (serverless this) else [name])"

subsection \<open>Loading and defaulting\<close>

text \<open>
  Lines 77 to 81: \<open>custom.webpack\<close>, or the conventional file name when it is absent
  or falsy.
\<close>

definition configured :: "serverless \<Rightarrow> custom_webpack" where
  "configured sls =
     (case custom_webpack sls of
        None \<Rightarrow> Custom_file ''webpack.config.js''
      | Some (Custom_file name) \<Rightarrow>
          if name = [] then Custom_file ''webpack.config.js'' else Custom_file name
      | Some (Custom_object cfg) \<Rightarrow> Custom_object cfg)"

definition as_webpackConfig :: "custom_webpack \<Rightarrow> webpackConfig" where
  "as_webpackConfig c =
     (case c of Custom_file name \<Rightarrow> Config_file name | Custom_object cfg \<Rightarrow> Config_object cfg)"

text \<open>
  Lines 103 to 115: a configuration given as a file name is loaded. A missing file is
  thrown; a module that fails to load is logged and the promise is rejected.
\<close>

definition loadConfig ::
  "host \<Rightarrow> plugin \<Rightarrow> custom_webpack \<Rightarrow> (outcome + webpack_config) \<times> plugin" where
  "loadConfig h this c =
     (case c of
        Custom_object cfg \<Rightarrow> (Inr cfg, this)
      | Custom_file name \<Rightarrow>
          (let webpackConfigFilePath = path_join (servicePath (serverless this)) name
           in if \<not> fileExistsSync h webpackConfigFilePath
              then (Inl (Thrown (Config_not_found webpackConfigFilePath)), this)
              else
                (case require_module h webpackConfigFilePath of
                   None \<Rightarrow>
                     (Inl (Rejected (Config_load_error webpackConfigFilePath)),
                      this\<lparr>cli_log := cli_log this @ [Could_not_load webpackConfigFilePath]\<rparr>)
                 | Some cfg \<Rightarrow> (Inr cfg, this\<lparr>webpackConfig := Some (Config_object cfg)\<rparr>))))"

text \<open>
  The configuration a pass works on, when there is one: the object given, or what the
  module of the file name exports.
\<close>

definition suppliedConfig :: "host \<Rightarrow> serverless \<Rightarrow> webpack_config option" where
  "suppliedConfig h sls =
     (case configured sls of
        Custom_object cfg \<Rightarrow> Some cfg
      | Custom_file name \<Rightarrow>
          if fileExistsSync h (path_join (servicePath sls) name)
          then require_module h (path_join (servicePath sls) name) else None)"

text \<open>Lines 117 to 125: the default context and target.\<close>

definition defaultContext :: "serverless \<Rightarrow> webpack_config \<Rightarrow> webpack_config" where
  "defaultContext sls cfg =
     (if \<not> truthy_opt (cfg_context cfg)
      then cfg\<lparr>cfg_context := Some (JStr (servicePath sls))\<rparr> else cfg)"

definition defaultTarget :: "webpack_config \<Rightarrow> webpack_config" where
  "defaultTarget cfg =
     (if \<not> truthy_opt (cfg_target cfg) then cfg\<lparr>cfg_target := Some (JStr ''node'')\<rparr> else cfg)"

text \<open>
  Lines 127 to 135: \<open>_.isEmpty\<close> of an object holds when it has no property at all.
  The result is the \<open>output\<close> object the rest of the pass works on.
\<close>

definition isEmpty_output :: "output_config \<Rightarrow> bool" where
  "isEmpty_output out =
     (out_libraryTarget out = None \<and> out_path out = None \<and> out_filename out = None
      \<and> out_others out = fmempty)"

definition defaultOutput :: "serverless \<Rightarrow> webpack_config \<Rightarrow> output_config" where
  "defaultOutput sls cfg =
     (let fresh = \<lparr>out_libraryTarget = Some (JStr ''commonjs''),
                    out_path = Some (JStr (path_join (servicePath sls) ''.webpack'')),
                    out_filename = Some (JStr ''[name].js''),
                    out_others = fmempty\<rparr>
      in case cfg_output cfg of
           None \<Rightarrow> fresh
         | Some out \<Rightarrow> if isEmpty_output out then fresh else out)"

text \<open>Lines 137 to 140: the \<open>out\<close> option replaces the output path.\<close>

definition customOutputPath :: "serverless \<Rightarrow> options \<Rightarrow> output_config \<Rightarrow> output_config" where
  "customOutputPath sls opts out =
     (case opt_out opts of
        None \<Rightarrow> out
      | Some dir \<Rightarrow>
          if dir = [] then out
          else out\<lparr>out_path := Some (JStr (path_join (servicePath sls) dir))\<rparr>)"

text \<open>Lines 142 to 146: the output directory is removed unless it is to be kept.\<close>

definition removeOutput :: "plugin \<Rightarrow> output_config \<Rightarrow> plugin" where
  "removeOutput this out =
     (let this1 =
            (if \<not> keepOutputDirectory this
             then (if opt_verbose (options this)
                   then this\<lparr>cli_log := cli_log this @ [Removing (out_path out)]\<rparr>
                   else this)\<lparr>removed := removed this @ [out_path out]\<rparr>
             else this)
      in this1\<lparr>webpackOutputPath := out_path out\<rparr>)"

text \<open>\<open>path.join\<close> on a property that need not be a string.\<close>

definition join_checked :: "jsval option \<Rightarrow> string \<Rightarrow> error + string" where
  "join_checked p s =
     (case p of
        Some (JStr a) \<Rightarrow> Inr (path_join a s)
      | _ \<Rightarrow> Inl Type_error)"

subsection \<open>Individual packaging\<close>

text \<open>
  The entries as \<open>_.isEqual\<close> sees them: an object with one string per key.
\<close>

definition entries_object :: "(string \<times> string) list \<Rightarrow> jsval" where
  "entries_object entries = JObj (fmap_of_list (map (\<lambda>(k, v). (k, JStr v)) entries))"

text \<open>
  Line 176: \<open>_.replace(entry, new RegExp(`${path.extname(entry)}$`), '')\<close>. The
  extension is used as a pattern. When it is empty the pattern is \<open>$\<close>, which matches
  the empty string at the end. When it is a \<open>.\<close> followed by characters that stand for
  themselves, the pattern has a fixed length and matches at the end of \<open>entry\<close> or
  nowhere; its first character matches anything but a line terminator. Every other
  extension is left to the regular-expression engine of the host.
\<close>

definition syntaxCharacter :: "char \<Rightarrow> bool" where
  "syntaxCharacter c = (c \<in> set ''^$.*+?()[]{}|'' \<or> c = CHR 0x5C)"

definition stripExtension :: "host \<Rightarrow> string \<Rightarrow> string option" where
  "stripExtension h entry =
     (let ext = extname entry;
          n = length ext;
          tail = drop (length entry - n) entry
      in if ext = [] then Some entry
         else if \<forall>c \<in> set (tl ext). \<not> syntaxCharacter c \<and> \<not> line_terminator c
         then Some (if n \<le> length entry \<and> \<not> line_terminator (hd tail) \<and> tl tail = tl ext
                    then take (length entry - n) entry else entry)
         else regexp_replace h (ext @ ''$'') entry)"

text \<open>Lines 160 to 172: one object per declared function.\<close>

fun allEntryFunctions :: "host \<Rightarrow> serverless \<Rightarrow> string list \<Rightarrow> error + binding list" where
  "allEntryFunctions h sls [] = Inr []"
| "allEntryFunctions h sls (name # names) =
     (case getFunction sls name of
        Inl e \<Rightarrow> Inl e
      | Inr f \<Rightarrow>
          (case getHandlerFile (handler f) of
             None \<Rightarrow> Inl Type_error
           | Some file \<Rightarrow>
               (case allEntryFunctions h sls names of
                  Inl e \<Rightarrow> Inl e
                | Inr bs \<Rightarrow>
                    Inr (\<lparr>handlerFile = Some (relative (process_cwd h) ''.'' file),
                          funcName = Some name, func = Some f, b_entry = None\<rparr> # bs))))"

text \<open>
  Lines 174 to 190. The objects of \<open>allEntryFunctions\<close> are shared: \<open>_.filter\<close>
  returns references to them, the \<open>_.forEach\<close> writes \<open>entry\<close> into the objects
  themselves, and an object returned for an earlier entry is seen with the \<open>entry\<close> a
  later one wrote. So the objects live in a store, addressed by their position, and the
  result of the \<open>_.flatMap\<close> is a list of references: to an object of the store, or to a
  placeholder of its own.
\<close>

datatype entry_ref =
    Shared nat
  | Placeholder binding

text \<open>Lines 175 and 176: the file of an entry, relative and without its extension.\<close>

definition entryFile :: "host \<Rightarrow> string \<Rightarrow> string option" where
  "entryFile h value = (let entry = relative (process_cwd h) ''.'' value in stripExtension h entry)"

text \<open>
  Line 178, \<open>_.filter(allEntryFunctions, ['handlerFile', entryFile])\<close>, as the
  addresses of the objects found; lines 183 to 188, the write into the objects found.
\<close>

definition filter_handlerFile :: "binding list \<Rightarrow> string \<Rightarrow> nat list" where
  "filter_handlerFile store file =
     filter (\<lambda>i. handlerFile (store ! i) = Some file) [0..<length store]"

definition assign_entry :: "binding list \<Rightarrow> string \<Rightarrow> string \<times> string \<Rightarrow> binding list" where
  "assign_entry store file e =
     map (\<lambda>b. if handlerFile b = Some file then b\<lparr>b_entry := Some e\<rparr> else b) store"

definition placeholder :: "string \<times> string \<Rightarrow> binding" where
  "placeholder e = \<lparr>handlerFile = None, funcName = None, func = None, b_entry = Some e\<rparr>"

fun flatMap_entries ::
  "host \<Rightarrow> (string \<times> string) list \<Rightarrow> binding list \<Rightarrow> error + (binding list \<times> entry_ref list)" where
  "flatMap_entries h [] store = Inr (store, [])"
| "flatMap_entries h ((key, value) # rest) store =
     (case entryFile h value of
        None \<Rightarrow> Inl RegExp_error
      | Some file \<Rightarrow>
          (let hits = filter_handlerFile store file;
               entryFuncs = (if hits = [] then [Placeholder (placeholder (key, value))]
                             else map Shared hits);
               store' = assign_entry store file (key, value)
           in case flatMap_entries h rest store' of
                Inl e \<Rightarrow> Inl e
              | Inr (final, refs) \<Rightarrow> Inr (final, entryFuncs @ refs)))"

text \<open>
  What the callback of the \<open>_.flatMap\<close> returns for one entry, and what it writes. The
  objects found depend on the \<open>handlerFile\<close> properties only, which are never written.
\<close>

definition segment :: "host \<Rightarrow> binding list \<Rightarrow> string \<times> string \<Rightarrow> entry_ref list" where
  "segment h store e =
     (case entryFile h (snd e) of
        None \<Rightarrow> []
      | Some file \<Rightarrow>
          if filter_handlerFile store file = [] then [Placeholder (placeholder e)]
          else map Shared (filter_handlerFile store file))"

definition write_entry :: "host \<Rightarrow> binding list \<Rightarrow> string \<times> string \<Rightarrow> binding list" where
  "write_entry h store e =
     (case entryFile h (snd e) of
        None \<Rightarrow> store
      | Some file \<Rightarrow> assign_entry store file e)"

definition deref :: "binding list \<Rightarrow> entry_ref \<Rightarrow> binding" where
  "deref store r = (case r of Shared i \<Rightarrow> store ! i | Placeholder b \<Rightarrow> b)"

text \<open>
  Lines 192 to 200. Values of the model are immutable, so the deep copy of a
  configuration is the configuration.
\<close>

definition cloneDeep :: "webpack_config \<Rightarrow> webpack_config" where
  "cloneDeep cfg = cfg"

definition compileName :: "host \<Rightarrow> binding \<Rightarrow> string \<Rightarrow> string" where
  "compileName h entryFunc key =
     (case funcName entryFunc of
        None \<Rightarrow> camelCase h key
      | Some name \<Rightarrow> if name \<noteq> [] then name else camelCase h key)"

definition compileConfig :: "host \<Rightarrow> webpack_config \<Rightarrow> binding \<Rightarrow> error + webpack_config" where
  "compileConfig h base entryFunc =
     (let config = cloneDeep base
      in case b_entry entryFunc of
           None \<Rightarrow> Inl Type_error
         | Some (key, value) \<Rightarrow>
             (let config1 = config\<lparr>cfg_entry := Some (JObj (fmap_of_list [(key, JStr value)]))\<rparr>
              in case cfg_output config1 of
                   None \<Rightarrow> Inl Type_error
                 | Some out \<Rightarrow>
                     (case join_checked (out_path out) (compileName h entryFunc key) of
                        Inl e \<Rightarrow> Inl e
                      | Inr p \<Rightarrow>
                          Inr (config1\<lparr>cfg_output := Some (out\<lparr>out_path := Some (JStr p)\<rparr>)\<rparr>))))"

fun map_compileConfig :: "host \<Rightarrow> webpack_config \<Rightarrow> binding list \<Rightarrow> error + webpack_config list" where
  "map_compileConfig h base [] = Inr []"
| "map_compileConfig h base (b # bs) =
     (case compileConfig h base b of
        Inl e \<Rightarrow> Inl e
      | Inr c \<Rightarrow>
          (case map_compileConfig h base bs of
             Inl e \<Rightarrow> Inl e
           | Inr cs \<Rightarrow> Inr (c # cs)))"

text \<open>Lines 148 to 200, with \<open>this.webpackConfig\<close> already defaulted.\<close>

definition individually ::
  "host \<Rightarrow> plugin \<Rightarrow> webpack_config \<Rightarrow> (string \<times> string) list \<Rightarrow> outcome \<times> plugin" where
  "individually h this cfg entries =
     (let this1 = (if opt_verbose (options this)
                   then this\<lparr>cli_log := cli_log this @ [Using_multi_compile]\<rparr> else this);
          this2 = this1\<lparr>multiCompile := True\<rparr>
      in if truthy_opt (cfg_entry cfg) \<and> \<not> isEqual (cfg_entry cfg) (Some (entries_object entries))
         then (Rejected Entry_must_be_resolved, this2)
         else
           (case allEntryFunctions h (serverless this2) (getAllFunctions (serverless this2)) of
              Inl e \<Rightarrow> (Thrown e, this2)
            | Inr store \<Rightarrow>
                (case flatMap_entries h (ownProperties entries) store of
                   Inl e \<Rightarrow> (Thrown e, this2)
                 | Inr (final, refs) \<Rightarrow>
                     (let this3 = this2\<lparr>entryFunctions := map (deref final) refs\<rparr>
                      in case map_compileConfig h cfg (entryFunctions this3) of
                           Inl e \<Rightarrow> (Thrown e, this3)
                         | Inr cfgs \<Rightarrow>
                             (Resolved, this3\<lparr>webpackConfig := Some (Config_list cfgs)\<rparr>)))))"

subsection \<open>The pass\<close>

text \<open>
  Lines 117 to 140 on a loaded configuration: the configuration with its defaults, and
  its \<open>output\<close> object.
\<close>

definition defaulted :: "serverless \<Rightarrow> options \<Rightarrow> webpack_config \<Rightarrow> webpack_config \<times> output_config" where
  "defaulted sls opts loaded =
     (let cfg1 = defaultTarget (defaultContext sls loaded);
          out = customOutputPath sls opts (defaultOutput sls cfg1)
      in (cfg1\<lparr>cfg_output := Some out\<rparr>, out))"

text \<open>Lines 148 to 203: one configuration per binding, or the \<open>service\<close> segment.\<close>

definition finalize ::
  "host \<Rightarrow> plugin \<Rightarrow> webpack_config \<Rightarrow> output_config \<Rightarrow> (string \<times> string) list
     \<Rightarrow> outcome \<times> plugin" where
  "finalize h this cfg out entries =
     (if package_individually (serverless this)
      then individually h this cfg entries
      else
        (case join_checked (out_path out) ''service'' of
           Inl e \<Rightarrow> (Thrown e, this)
         | Inr p \<Rightarrow>
             (Resolved,
              this\<lparr>webpackConfig :=
                Some (Config_object (cfg\<lparr>cfg_output := Some (out\<lparr>out_path := Some (JStr p)\<rparr>)\<rparr>))\<rparr>)))"

definition validate :: "host \<Rightarrow> plugin \<Rightarrow> outcome \<times> plugin" where
  "validate h this0 =
     (let this1 = this0\<lparr>webpackConfig := Some (as_webpackConfig (configured (serverless this0)))\<rparr>
      in case resolveEntries h this1 of
           (Inl e, this2) \<Rightarrow> (Thrown e, this2)
         | (Inr entries, this2) \<Rightarrow>
             (let this3 = this2\<lparr>lib := \<lparr>lib_serverless = Some (serverless this2),
                                         lib_options = Some (options this2),
                                         lib_entries = Some entries\<rparr>\<rparr>
              in case loadConfig h this3 (configured (serverless this3)) of
                   (Inl failed, this4) \<Rightarrow> (failed, this4)
                 | (Inr loaded, this4) \<Rightarrow>
                     (let (cfg, out) = defaulted (serverless this4) (options this4) loaded;
                          this5 = removeOutput (this4\<lparr>webpackConfig := Some (Config_object cfg)\<rparr>) out
                      in finalize h this5 cfg out entries)))"

text \<open>The configurations a pass leaves in \<open>this.webpackConfig\<close>.\<close>

definition configurations :: "plugin \<Rightarrow> webpack_config list" where
  "configurations this =
     (case webpackConfig this of
        Some (Config_object cfg) \<Rightarrow> [cfg]
      | Some (Config_list cfgs) \<Rightarrow> cfgs
      | _ \<Rightarrow> [])"

text \<open>
  Ordinary base paths and extensions. A plain path is relative and in normal form: its
  segments are not empty and are neither \<open>.\<close> nor \<open>..\<close>. A plain extension is not
  empty and has no character that means something in a regular expression or a path.
\<close>

definition plain_segment :: "string \<Rightarrow> bool" where
  "plain_segment s = (s \<noteq> [] \<and> s \<noteq> ''.'' \<and> s \<noteq> ''..'')"

definition plain_path :: "string \<Rightarrow> bool" where
  "plain_path b = list_all plain_segment (splitOn CHR ''/'' b)"

definition plain_extension :: "string \<Rightarrow> bool" where
  "plain_extension e =
     (e \<noteq> [] \<and> list_all (\<lambda>c. c \<noteq> CHR ''/'' \<and> \<not> syntaxCharacter c \<and> \<not> line_terminator c) e)"

section \<open>The fixtures of the test suite\<close>

text \<open>
  The stubs of \<open>validate.test.js\<close>: \<open>globbySyncStub.returns(files)\<close> answers every
  pattern with \<open>files\<close>, and
  \<open>globbySyncStub.callsFake(filename => [_.replace(filename, '*', 'js')])\<close> answers a
  pattern with the one file that has \<open>js\<close> in place of the first \<open>*\<close>.
\<close>

definition stub_returns :: "string list \<Rightarrow> string \<Rightarrow> string \<Rightarrow> string list" where
  "stub_returns files pattern dir = files"

fun replace_star :: "string \<Rightarrow> string" where
  "replace_star [] = []"
| "replace_star (c # cs) = (if c = CHR ''*'' then ''js'' @ cs else c # replace_star cs)"

definition stub_js :: "string \<Rightarrow> string \<Rightarrow> string list" where
  "stub_js pattern dir = [replace_star pattern]"

text \<open>
  A host around a listing stub: no configuration file exists, and the engine and
  \<open>_.camelCase\<close> are not called in the fixtures that use it.
\<close>

definition test_host :: "(string \<Rightarrow> string \<Rightarrow> string list) \<Rightarrow> host" where
  "test_host listing =
     \<lparr>globby_sync = listing, process_cwd = ''/home/service'',
      fileExistsSync = (\<lambda>p. False), require_module = (\<lambda>p. None),
      camelCase = (\<lambda>k. k), regexp_replace = (\<lambda>src s. None)\<rparr>"

definition testFunctionsConfig :: "(string \<times> sls_function) list" where
  "testFunctionsConfig =
     [(''func1'', \<lparr>handler = ''module1.func1handler'', artifact = Some ''artifact-func1.zip''\<rparr>),
      (''func2'', \<lparr>handler = ''module2.func2handler'', artifact = Some ''artifact-func2.zip''\<rparr>),
      (''func3'', \<lparr>handler = ''handlers/func3/module2.func3handler'',
                  artifact = Some ''artifact-func3.zip''\<rparr>),
      (''func4'', \<lparr>handler = ''handlers/module2/func3/module2.func3handler'',
                  artifact = Some ''artifact-func3.zip''\<rparr>)]"

definition testConfig :: webpack_config where
  "testConfig =
     \<lparr>cfg_entry = None, cfg_context = None, cfg_target = None,
      cfg_output = Some \<lparr>out_libraryTarget = None, out_path = Some (JStr ''output''),
                          out_filename = None, out_others = fmempty\<rparr>,
      cfg_others = fmempty\<rparr>"

definition test_serverless :: "(string \<times> sls_function) list \<Rightarrow> bool \<Rightarrow> custom_webpack option \<Rightarrow> serverless" where
  "test_serverless fns indiv cust =
     \<lparr>servicePath = ''testpath'', all_functions = fns, provider_name = None,
      package_individually = indiv, custom_webpack = cust\<rparr>"

definition test_module :: "serverless \<Rightarrow> options \<Rightarrow> plugin" where
  "test_module sls opts =
     \<lparr>serverless = sls, options = opts, keepOutputDirectory = False,
      webpackConfig = None, webpackOutputPath = None, multiCompile = False,
      entryFunctions = [],
      lib = \<lparr>lib_serverless = None, lib_options = None, lib_entries = None\<rparr>,
      cli_log = [], removed = []\<rparr>"

definition no_options :: options where
  "no_options = \<lparr>opt_function = None, opt_out = None, opt_verbose = False\<rparr>"

text \<open>A listing in which \<open>module2\<close> has no candidate.\<close>

definition stub_without_module2 :: "string \<Rightarrow> string \<Rightarrow> string list" where
  "stub_without_module2 pattern dir = (if pattern = ''module2.*'' then [] else stub_js pattern dir)"

definition fixture_module :: plugin where
  "fixture_module =
     test_module (test_serverless testFunctionsConfig False (Some (Custom_object testConfig)))
       no_options"

text \<open>The function of \<open>testFunctionsGoogleConfig\<close>, and the module of the Google test.\<close>

definition google_function :: sls_function where
  "google_function = \<lparr>handler = ''func1handler'', artifact = None\<rparr>"

definition google_module :: "string option \<Rightarrow> plugin" where
  "google_module provider =
     test_module
       ((test_serverless [(''func1'', google_function)] False (Some (Custom_object testConfig)))
          \<lparr>provider_name := provider\<rparr>)
       (no_options\<lparr>opt_function := Some ''func1''\<rparr>)"

text \<open>
  The modules of the tests "should set a default \<open>webpackConfig.output\<close> if not
  present", "should override the output path if \<open>out\<close> option is specified" and
  "should throw if providing an invalid file", each with the service root \<open>testpath\<close>.
\<close>

definition default_output_module :: plugin where
  "default_output_module =
     test_module
       (test_serverless [] False
          (Some (Custom_object (testConfig\<lparr>cfg_entry := Some (JStr ''testentry''),
                                           cfg_output := None\<rparr>))))
       no_options"

definition partial_output :: output_config where
  "partial_output =
     \<lparr>out_libraryTarget = None, out_path = Some (JStr ''originalpath''),
      out_filename = Some (JStr ''filename''), out_others = fmempty\<rparr>"

definition partial_output_config :: webpack_config where
  "partial_output_config =
     \<lparr>cfg_entry = Some (JStr ''test''), cfg_context = Some (JStr ''testcontext''),
      cfg_target = None, cfg_output = Some partial_output, cfg_others = fmempty\<rparr>"

definition out_option_module :: plugin where
  "out_option_module =
     test_module (test_serverless [] False (Some (Custom_object partial_output_config)))
       (no_options\<lparr>opt_out := Some ''testdir''\<rparr>)"

text \<open>
  The module of the test "should delete the output path", whose \<open>output\<close> has a path
  and nothing else, and the same module with an \<open>output\<close> that has a file name and no
  path.
\<close>

definition path_only_output :: output_config where
  "path_only_output =
     \<lparr>out_libraryTarget = None, out_path = Some (JStr ''test''),
      out_filename = None, out_others = fmempty\<rparr>"

definition path_only_module :: plugin where
  "path_only_module =
     test_module
       (test_serverless [] False
          (Some (Custom_object (partial_output_config\<lparr>cfg_output := Some path_only_output\<rparr>))))
       no_options"

definition pathless_output :: output_config where
  "pathless_output =
     \<lparr>out_libraryTarget = None, out_path = None,
      out_filename = Some (JStr ''filename''), out_others = fmempty\<rparr>"

definition pathless_module :: plugin where
  "pathless_module =
     test_module
       (test_serverless [] False
          (Some (Custom_object (partial_output_config\<lparr>cfg_output := Some pathless_output\<rparr>))))
       no_options"

definition invalid_file_module :: plugin where
  "invalid_file_module =
     test_module (test_serverless testFunctionsConfig False (Some (Custom_file ''testconfig'')))
       no_options"

text \<open>
  The modules of the tests of individual packaging: a configuration with a falsy
  \<open>entry\<close>, the customised \<open>entry\<close> of "should fail if \<open>webpackConfig.entry\<close> is
  customised", the \<open>entry\<close> set to the resolved entries, and a service that declares a
  function without a file handler beside \<open>func1\<close>, its \<open>entry\<close> set to the
  resolved entries.
\<close>

definition individual_module :: "jsval option \<Rightarrow> plugin" where
  "individual_module e =
     test_module
       (test_serverless testFunctionsConfig True (Some (Custom_object (testConfig\<lparr>cfg_entry := e\<rparr>))))
       no_options"

definition testEntries :: "(string \<times> string) list" where
  "testEntries =
     [(''module1'', ''./module1.js''), (''module2'', ''./module2.js''),
      (''handlers/func3/module2'', ''./handlers/func3/module2.js''),
      (''handlers/module2/func3/module2'', ''./handlers/module2/func3/module2.js'')]"

definition customised_entry :: jsval where
  "customised_entry =
     JObj (fmap_of_list [(''module1'', JStr ''./module1.js''), (''module2'', JStr ''./module2.js'')])"

definition mixed_module :: plugin where
  "mixed_module =
     test_module
       (test_serverless
          [(''func1'', \<lparr>handler = ''module1.func1handler'', artifact = Some ''artifact-func1.zip''\<rparr>),
           (''func5'', google_function)]
          True
          (Some (Custom_object
             (testConfig\<lparr>cfg_entry := Some (entries_object [(''module1'', ''./module1.js'')])\<rparr>))))
       no_options"

text \<open>
  A stand-in for \<open>_.camelCase\<close> on keys of lower-case letters, digits and separators:
  the words are the maximal runs of letters and the maximal runs of digits, and every
  word but the first is capitalised. (An ordinal such as \<open>1st\<close>, which lodash keeps as
  one word, is outside of it.)
\<close>

definition is_lower :: "char \<Rightarrow> bool" where
  "is_lower c = (c \<in> set ''abcdefghijklmnopqrstuvwxyz'')"

definition is_digit :: "char \<Rightarrow> bool" where
  "is_digit c = (c \<in> set ''0123456789'')"

fun words_of :: "string \<Rightarrow> string list" where
  "words_of [] = []"
| "words_of [c] = (if is_lower c \<or> is_digit c then [[c]] else [])"
| "words_of (c # d # cs) =
     (if \<not> (is_lower c \<or> is_digit c) then words_of (d # cs)
      else if (is_lower c \<and> is_lower d) \<or> (is_digit c \<and> is_digit d)
      then (case words_of (d # cs) of [] \<Rightarrow> [[c]] | w # ws \<Rightarrow> (c # w) # ws)
      else [c] # words_of (d # cs))"

definition capitalize :: "string \<Rightarrow> string" where
  "capitalize w =
     (case w of
        [] \<Rightarrow> []
      | c # cs \<Rightarrow>
          (case map_of (zip ''abcdefghijklmnopqrstuvwxyz'' ''ABCDEFGHIJKLMNOPQRSTUVWXYZ'') c of
             None \<Rightarrow> c
           | Some u \<Rightarrow> u) # cs)"

definition camelCase_lower :: "string \<Rightarrow> string" where
  "camelCase_lower s =
     (case words_of s of [] \<Rightarrow> [] | w # ws \<Rightarrow> w @ concat (map capitalize ws))"

text \<open>
  A service whose one function names its handler by an absolute path, packaged
  individually, on a host with the stand-in.
\<close>

definition absolute_module :: plugin where
  "absolute_module =
     test_module
       (test_serverless
          [(''func1'', \<lparr>handler = ''/opt/handlers/module1.handler'', artifact = None\<rparr>)]
          True (Some (Custom_object testConfig)))
       no_options"

definition camel_host :: host where
  "camel_host = (test_host stub_js)\<lparr>camelCase := camelCase_lower\<rparr>"

text \<open>
  The configuration of "should clone other \<open>webpackConfig\<close> options without
  modification", and its module; and a service of four functions of which the first two
  have the handler files \<open>2\<close> and \<open>1\<close>.
\<close>

definition clone_config :: webpack_config where
  "clone_config =
     \<lparr>cfg_entry = None, cfg_context = Some (JStr ''some context''), cfg_target = None,
      cfg_output = Some \<lparr>out_libraryTarget = Some (JStr ''commonjs''),
                         out_path = Some (JStr ''output''),
                         out_filename = None, out_others = fmempty\<rparr>,
      cfg_others = fmap_of_list [(''devtool'', JStr ''source-map'')]\<rparr>"

definition clone_module :: plugin where
  "clone_module =
     test_module (test_serverless testFunctionsConfig True (Some (Custom_object clone_config)))
       no_options"

definition numbered_module :: plugin where
  "numbered_module =
     test_module
       (test_serverless
          [(''first'', \<lparr>handler = ''2.handler'', artifact = None\<rparr>),
           (''second'', \<lparr>handler = ''1.handler'', artifact = None\<rparr>),
           (''third'', \<lparr>handler = ''module3.handler'', artifact = None\<rparr>),
           (''fourth'', \<lparr>handler = ''module4.handler'', artifact = None\<rparr>)]
          True (Some (Custom_object testConfig)))
       no_options"

definition numbered_names_module :: plugin where
  "numbered_names_module =
     test_module
       (test_serverless
          [(''2'', \<lparr>handler = ''module1.handler'', artifact = None\<rparr>),
           (''1'', \<lparr>handler = ''module2.handler'', artifact = None\<rparr>),
           (''third'', \<lparr>handler = ''module3.handler'', artifact = None\<rparr>),
           (''fourth'', \<lparr>handler = ''module4.handler'', artifact = None\<rparr>)]
          True (Some (Custom_object testConfig)))
       no_options"

section \<open>Facts about the path functions\<close>

lemma extname_append:
  assumes b: "b \<noteq> []" "last b \<noteq> CHR ''/''"
    and e: "e \<noteq> []" "CHR ''.'' \<notin> set e" "CHR ''/'' \<notin> set e"
  shows "extname (b @ CHR ''.'' # e) = CHR ''.'' # e"
proof -
  let ?s = "takeWhile (\<lambda>c. c \<noteq> CHR ''/'') (rev b)"
  have s: "?s \<noteq> []"
    using b by (cases "rev b") (auto simp: last_rev[symmetric] simp del: last_rev)
  have dw: "dropWhile (\<lambda>c. c = CHR ''/'') (rev e @ CHR ''.'' # rev b) = rev e @ CHR ''.'' # rev b"
    using e by (cases "rev e") auto
  have tw: "takeWhile (\<lambda>c. c \<noteq> CHR ''/'') (rev e @ CHR ''.'' # rev b) = rev e @ CHR ''.'' # ?s"
    using e by (subst takeWhile_append2) auto
  have bn: "basename_part (b @ CHR ''.'' # e) = rev ?s @ CHR ''.'' # e"
    by (simp add: basename_part_def dw tw)
  have ext: "takeWhile (\<lambda>c. c \<noteq> CHR ''.'') (rev e @ CHR ''.'' # ?s) = rev e"
    using e by (subst takeWhile_append2) auto
  have ne: "rev ?s @ CHR ''.'' # e \<noteq> ''..''"
    using e s by (cases e) (auto simp: append_eq_Cons_conv)
  show ?thesis
    using s ne by (simp add: extname_def bn ext Let_def)
qed

lemma extname_js: "b \<noteq> [] \<Longrightarrow> last b \<noteq> CHR ''/'' \<Longrightarrow> extname (b @ ''.js'') = ''.js''"
  using extname_append[of b "''js''"] by simp

lemma extname_ts: "b \<noteq> [] \<Longrightarrow> last b \<noteq> CHR ''/'' \<Longrightarrow> extname (b @ ''.ts'') = ''.ts''"
  using extname_append[of b "''ts''"] by simp

section \<open>The candidate resolver\<close>

text \<open>
  Claim C1. For the base path \<open>module1\<close> and the candidates \<open>module1.doc\<close>,
  \<open>module1.json\<close>, \<open>module1.test.js\<close>, \<open>module1.ts\<close>, \<open>module1.js\<close> listed in
  that order, \<open>getEntryExtension\<close> returns \<open>.ts\<close>, and it logs one warning that
  names the winner \<open>module1.ts\<close>. This holds for every host with that listing and in
  every state of the plugin.
\<close>

theorem C1_fixture_winner_is_ts:
  "getEntryExtension
     (h\<lparr>globby_sync := stub_returns
           [''module1.doc'', ''module1.json'', ''module1.test.js'', ''module1.ts'', ''module1.js'']\<rparr>)
     this ''module1''
   = Inr (''.ts'', this\<lparr>cli_log := cli_log this @ [Warn_more_than_one ''module1'' ''module1.ts'']\<rparr>)"
  by (simp add: getEntryExtension_def stub_returns_def extname_def basename_part_def
      preferredExtensions_def sortBy_size_def uniq_def Let_def)

text \<open>
  Claim C2, as the code has it. For a base path \<open>b\<close> with a non-empty last segment and
  the two candidates \<open>b.js\<close> and \<open>b.ts\<close>, the candidate that is listed first wins:
  \<open>.js\<close> for the listing \<open>[b.js, b.ts]\<close>, \<open>.ts\<close> for the listing
  \<open>[b.ts, b.js]\<close>. Both are preferred and both have the same length, and the sort is
  stable.
\<close>

theorem C2_first_listed_wins:
  assumes "b \<noteq> []" and "last b \<noteq> CHR ''/''"
  shows "getEntryExtension (h\<lparr>globby_sync := stub_returns [b @ ''.js'', b @ ''.ts'']\<rparr>) this b
           = Inr (''.js'', this\<lparr>cli_log := cli_log this @ [Warn_more_than_one b (b @ ''.js'')]\<rparr>)
       \<and> getEntryExtension (h\<lparr>globby_sync := stub_returns [b @ ''.ts'', b @ ''.js'']\<rparr>) this b
           = Inr (''.ts'', this\<lparr>cli_log := cli_log this @ [Warn_more_than_one b (b @ ''.ts'')]\<rparr>)"
  using assms
  by (simp add: getEntryExtension_def stub_returns_def extname_js extname_ts
      preferredExtensions_def sortBy_size_def uniq_def Let_def)

theorem C2_first_listed_wins_witness:
  "''module1'' \<noteq> [] \<and> last ''module1'' \<noteq> CHR ''/''
   \<and> getEntryExtension
         (test_host stub_js\<lparr>globby_sync := stub_returns [''module1'' @ ''.js'', ''module1'' @ ''.ts'']\<rparr>)
         fixture_module ''module1''
       = Inr (''.js'', fixture_module\<lparr>cli_log := cli_log fixture_module
                @ [Warn_more_than_one ''module1'' (''module1'' @ ''.js'')]\<rparr>)
   \<and> getEntryExtension
         (test_host stub_js\<lparr>globby_sync := stub_returns [''module1'' @ ''.ts'', ''module1'' @ ''.js'']\<rparr>)
         fixture_module ''module1''
       = Inr (''.ts'', fixture_module\<lparr>cli_log := cli_log fixture_module
                @ [Warn_more_than_one ''module1'' (''module1'' @ ''.ts'')]\<rparr>)"
  using C2_first_listed_wins[of "''module1''" "test_host stub_js" fixture_module] by simp

text \<open>
  Claim C2, as the specification has it, fails: for the candidate set
  \<open>{module1.js, module1.ts}\<close> the listing \<open>[module1.ts, module1.js]\<close> gives
  \<open>.ts\<close> and the listing \<open>[module1.js, module1.ts]\<close> gives \<open>.js\<close>. The first
  is the test "should show a warning if more than one matching handler is found".
\<close>

theorem C2_listing_order_counterexample:
  "getEntryExtension (test_host (stub_returns [''module1.ts'', ''module1.js''])) fixture_module ''module1''
     = Inr (''.ts'', fixture_module\<lparr>cli_log := [Warn_more_than_one ''module1'' ''module1.ts'']\<rparr>)
   \<and> getEntryExtension (test_host (stub_returns [''module1.js'', ''module1.ts''])) fixture_module ''module1''
     = Inr (''.js'', fixture_module\<lparr>cli_log := [Warn_more_than_one ''module1'' ''module1.js'']\<rparr>)"
  by (simp add: getEntryExtension_def stub_returns_def test_host_def extname_def basename_part_def
      preferredExtensions_def sortBy_size_def uniq_def Let_def fixture_module_def test_module_def)

section \<open>Entry resolution\<close>

lemma getEntryExtension_state:
  "getEntryExtension h this b = Inr (ext, this') \<Longrightarrow> this' = this\<lparr>cli_log := cli_log this'\<rparr>"
  by (auto simp: getEntryExtension_def Let_def split: if_splits list.splits)

lemma getEntryForFunction_state:
  "getEntryForFunction h this n f = Inr (entry, this') \<Longrightarrow> this' = this\<lparr>cli_log := cli_log this'\<rparr>"
  by (auto simp: getEntryForFunction_def Let_def split: if_splits option.splits sum.splits
      dest: getEntryExtension_state)

lemma forEach_function_state:
  "forEach_function h ns es this = (r, this') \<Longrightarrow> this' = this\<lparr>cli_log := cli_log this'\<rparr>"
proof (induction ns arbitrary: es this)
  case Nil
  then show ?case by auto
next
  case (Cons n ns)
  show ?case
  proof (cases "getFunction (serverless this) n")
    case (Inl e)
    with Cons.prems show ?thesis by auto
  next
    case (Inr f)
    show ?thesis
    proof (cases "getEntryForFunction h this n f")
      case (Inl e)
      with Inr Cons.prems show ?thesis by auto
    next
      case (Inr p)
      obtain entry t where p: "p = (entry, t)" by (cases p)
      from getEntryForFunction_state[OF Inr[unfolded p]] have t: "t = this\<lparr>cli_log := cli_log t\<rparr>" .
      from Cons.prems \<open>getFunction (serverless this) n = Inr f\<close> Inr p
      have "forEach_function h ns (merge es entry) t = (r, this')" by simp
      from Cons.IH[OF this] have "this' = t\<lparr>cli_log := cli_log this'\<rparr>" .
      then have "this' = this\<lparr>cli_log := cli_log t\<rparr>\<lparr>cli_log := cli_log this'\<rparr>"
        using t by simp
      then show ?thesis by simp
    qed
  qed
qed

lemma forEach_function_append:
  "forEach_function h (xs @ ys) es this =
     (case forEach_function h xs es this of
        (Inl e, t) \<Rightarrow> (Inl e, t)
      | (Inr es', t) \<Rightarrow> forEach_function h ys es' t)"
  by (induction xs arbitrary: es this) (auto split: sum.splits prod.splits)

lemma resolveEntries_forEach:
  "resolveEntries h this = forEach_function h (selectedFunctions this) [] this"
  by (auto simp: resolveEntries_def selectedFunctions_def truthy_string_def
      split: option.splits sum.splits prod.splits)

text \<open>
  Claim C5. When the listing service returns no candidate for a base path,
  \<open>getEntryExtension\<close> fails with the fault that names the base path. When a pass
  reaches a function with such a base path, after the functions before it resolved,
  \<open>validate\<close> throws that fault; the functions after it are not processed: the state
  left behind is the state after the functions before it, with nothing written to the
  shared object and nothing removed.
\<close>

theorem C5_empty_candidates_abort:
  assumes sel: "selectedFunctions this = pre @ name # post"
    and pre: "forEach_function h pre []
                (this\<lparr>webpackConfig := Some (as_webpackConfig (configured (serverless this)))\<rparr>)
              = (Inr es, this')"
    and f: "getFunction (serverless this) name = Inr f"
    and b: "getHandlerFile (handler f) = Some b" "b \<noteq> []"
    and none: "globby_sync h (b @ ''.*'')
                 (if servicePath (serverless this) \<noteq> [] then servicePath (serverless this)
                  else process_cwd h) = []"
  shows "getEntryExtension h this' b = Inl (No_matching_handler b)
       \<and> validate h this = (Thrown (No_matching_handler b), this')
       \<and> lib this' = lib this \<and> removed this' = removed this"
proof -
  let ?this1 = "this\<lparr>webpackConfig := Some (as_webpackConfig (configured (serverless this)))\<rparr>"
  from forEach_function_state[OF pre] have t: "this' = ?this1\<lparr>cli_log := cli_log this'\<rparr>" .
  have sls: "serverless this' = serverless this"
    by (subst t) simp
  have gee: "getEntryExtension h this' b = Inl (No_matching_handler b)"
    using none by (auto simp: getEntryExtension_def sls Let_def split: if_splits)
  have gef: "getEntryForFunction h this' name f = Inl (No_matching_handler b)"
    using b gee by (simp add: getEntryForFunction_def)
  have "forEach_function h (name # post) es this' = (Inl (No_matching_handler b), this')"
    using f gef by (simp add: sls)
  then have "forEach_function h (pre @ name # post) [] ?this1 = (Inl (No_matching_handler b), this')"
    using pre by (simp add: forEach_function_append)
  moreover have "selectedFunctions ?this1 = pre @ name # post"
    using sel by (simp add: selectedFunctions_def cong: option.case_cong if_cong)
  ultimately have "resolveEntries h ?this1 = (Inl (No_matching_handler b), this')"
    by (simp add: resolveEntries_forEach)
  then have "validate h this = (Thrown (No_matching_handler b), this')"
    by (simp add: validate_def Let_def)
  moreover have "lib this' = lib this" by (subst t) simp
  moreover have "removed this' = removed this" by (subst t) simp
  ultimately show ?thesis using gee by simp
qed

theorem C5_empty_candidates_abort_witness:
  "selectedFunctions fixture_module = [''func1''] @ ''func2'' # [''func3'', ''func4'']
   \<and> forEach_function (test_host stub_without_module2) [''func1''] []
         (fixture_module\<lparr>webpackConfig :=
            Some (as_webpackConfig (configured (serverless fixture_module)))\<rparr>)
       = (Inr [(''module1'', ''./module1.js'')],
          fixture_module\<lparr>webpackConfig := Some (Config_object testConfig)\<rparr>)
   \<and> getFunction (serverless fixture_module) ''func2''
       = Inr \<lparr>handler = ''module2.func2handler'', artifact = Some ''artifact-func2.zip''\<rparr>
   \<and> getHandlerFile (handler \<lparr>handler = ''module2.func2handler'', artifact = Some ''artifact-func2.zip''\<rparr>)
       = Some ''module2''
   \<and> ''module2'' \<noteq> []
   \<and> globby_sync (test_host stub_without_module2) (''module2'' @ ''.*'')
         (if servicePath (serverless fixture_module) \<noteq> [] then servicePath (serverless fixture_module)
          else process_cwd (test_host stub_without_module2)) = []
   \<and> getEntryExtension (test_host stub_without_module2)
         (fixture_module\<lparr>webpackConfig := Some (Config_object testConfig)\<rparr>) ''module2''
       = Inl (No_matching_handler ''module2'')
   \<and> validate (test_host stub_without_module2) fixture_module
       = (Thrown (No_matching_handler ''module2''),
          fixture_module\<lparr>webpackConfig := Some (Config_object testConfig)\<rparr>)
   \<and> lib (fixture_module\<lparr>webpackConfig := Some (Config_object testConfig)\<rparr>) = lib fixture_module
   \<and> removed (fixture_module\<lparr>webpackConfig := Some (Config_object testConfig)\<rparr>)
       = removed fixture_module"
proof -
  have sel: "selectedFunctions fixture_module = [''func1''] @ ''func2'' # [''func3'', ''func4'']"
    by (simp add: selectedFunctions_def fixture_module_def test_module_def no_options_def
        getAllFunctions_def ownProperties_def isArrayIndex_def test_serverless_def
        testFunctionsConfig_def)
  have pre: "forEach_function (test_host stub_without_module2) [''func1''] []
         (fixture_module\<lparr>webpackConfig :=
            Some (as_webpackConfig (configured (serverless fixture_module)))\<rparr>)
       = (Inr [(''module1'', ''./module1.js'')],
          fixture_module\<lparr>webpackConfig := Some (Config_object testConfig)\<rparr>)"
    by (simp add: fixture_module_def test_module_def no_options_def getFunction_def
        test_serverless_def testFunctionsConfig_def getEntryForFunction_def getHandlerFile_def
        line_terminator_def getEntryExtension_def test_host_def stub_without_module2_def
        stub_js_def extname_def basename_part_def preferredExtensions_def sortBy_size_def
        uniq_def configured_def as_webpackConfig_def Let_def)
  have f: "getFunction (serverless fixture_module) ''func2''
       = Inr \<lparr>handler = ''module2.func2handler'', artifact = Some ''artifact-func2.zip''\<rparr>"
    by (simp add: fixture_module_def test_module_def getFunction_def
        test_serverless_def testFunctionsConfig_def)
  have b: "getHandlerFile (handler \<lparr>handler = ''module2.func2handler'', artifact = Some ''artifact-func2.zip''\<rparr>)
       = Some ''module2''"
    by (simp add: getHandlerFile_def line_terminator_def)
  have ne: "''module2'' \<noteq> []" by simp
  have none: "globby_sync (test_host stub_without_module2) (''module2'' @ ''.*'')
         (if servicePath (serverless fixture_module) \<noteq> [] then servicePath (serverless fixture_module)
          else process_cwd (test_host stub_without_module2)) = []"
    by (simp add: test_host_def stub_without_module2_def)
  from C5_empty_candidates_abort[OF sel pre f b ne none] sel pre f b ne none
  show ?thesis by blast
qed

section \<open>The handler parser\<close>

lemma getHandlerFile_no_dot:
  "CHR ''.'' \<notin> set s \<Longrightarrow> getHandlerFile s = None"
proof -
  assume a: "CHR ''.'' \<notin> set s"
  have "set (takeWhile (\<lambda>c. \<not> line_terminator c) (rev s)) \<subseteq> set s"
    using set_takeWhileD by fastforce
  with a show ?thesis by (auto simp: getHandlerFile_def Let_def)
qed

lemma getHandlerFile_last_dot:
  assumes "\<not> (\<exists>c \<in> set s. line_terminator c)" and "s = a @ CHR ''.'' # b"
    and "CHR ''.'' \<notin> set b"
  shows "getHandlerFile s = Some a"
proof -
  have line: "takeWhile (\<lambda>c. \<not> line_terminator c) (rev b @ CHR ''.'' # rev a)
                = rev b @ CHR ''.'' # rev a"
    using assms(1,2) by (auto simp: takeWhile_eq_all_conv)
  have "dropWhile (\<lambda>c. c \<noteq> CHR ''.'') (rev b @ CHR ''.'' # rev a) = CHR ''.'' # rev a"
    using assms(3) by (subst dropWhile_append2) auto
  then show ?thesis
    using assms(2) by (simp add: getHandlerFile_def line Let_def)
qed

text \<open>
  Claim C8, as the code has it. A handler without a \<open>.\<close> has no handler file; its
  function contributes no entry; the loop over the functions goes on with the functions
  that remain, the entries as they were; a warning is logged unless the provider is
  \<open>google\<close>. A handler of one line (no line terminator in it) that has a \<open>.\<close>
  yields what stands before its last \<open>.\<close>.
\<close>

theorem C8_handler_parser:
  "(CHR ''.'' \<notin> set (handler f) \<longrightarrow>
      getHandlerFile (handler f) = None
      \<and> (provider_name (serverless this) = Some ''google'' \<longrightarrow>
           getEntryForFunction h this name f = Inr ([], this))
      \<and> (provider_name (serverless this) \<noteq> Some ''google'' \<longrightarrow>
           getEntryForFunction h this name f
           = Inr ([], this\<lparr>cli_log := cli_log this @ [Warn_no_entry name (handler f)]\<rparr>))
      \<and> (getFunction (serverless this) name = Inr f \<longrightarrow>
           (\<exists>this'. getEntryForFunction h this name f = Inr ([], this')
                  \<and> forEach_function h (name # names) entries this
                      = forEach_function h names entries this')))
   \<and> (\<not> (\<exists>c \<in> set s. line_terminator c) \<and> s = a @ CHR ''.'' # b \<and> CHR ''.'' \<notin> set b \<longrightarrow>
      getHandlerFile s = Some a)"
  by (auto simp: getHandlerFile_no_dot getHandlerFile_last_dot getEntryForFunction_def Let_def)

theorem C8_handler_parser_witness:
  "CHR ''.'' \<notin> set (handler google_function)
   \<and> getHandlerFile (handler google_function) = None
   \<and> provider_name (serverless (google_module (Some ''google''))) = Some ''google''
   \<and> getEntryForFunction (test_host (stub_returns [])) (google_module (Some ''google''))
         ''func1'' google_function
       = Inr ([], google_module (Some ''google''))
   \<and> provider_name (serverless (google_module None)) \<noteq> Some ''google''
   \<and> getEntryForFunction (test_host (stub_returns [])) (google_module None)
         ''func1'' google_function
       = Inr ([], google_module None\<lparr>cli_log := cli_log (google_module None)
                    @ [Warn_no_entry ''func1'' (handler google_function)]\<rparr>)
   \<and> getFunction (serverless (google_module None)) ''func1'' = Inr google_function
   \<and> forEach_function (test_host (stub_returns [])) [''func1''] [] (google_module None)
       = (Inr [], google_module None\<lparr>cli_log := cli_log (google_module None)
                    @ [Warn_no_entry ''func1'' (handler google_function)]\<rparr>)
   \<and> \<not> (\<exists>c \<in> set ''module1.func1handler''. line_terminator c)
   \<and> ''module1.func1handler'' = ''module1'' @ CHR ''.'' # ''func1handler''
   \<and> CHR ''.'' \<notin> set ''func1handler''
   \<and> getHandlerFile ''module1.func1handler'' = Some ''module1''"
proof -
  have nodot: "CHR ''.'' \<notin> set (handler google_function)"
    by (simp add: google_function_def)
  have g: "provider_name (serverless (google_module (Some ''google''))) = Some ''google''"
    and n: "provider_name (serverless (google_module None)) \<noteq> Some ''google''"
    and f: "getFunction (serverless (google_module None)) ''func1'' = Inr google_function"
    by (simp_all add: google_module_def test_module_def test_serverless_def getFunction_def)
  have line: "\<not> (\<exists>c \<in> set ''module1.func1handler''. line_terminator c)"
    and split: "''module1.func1handler'' = ''module1'' @ CHR ''.'' # ''func1handler''"
    and tail: "CHR ''.'' \<notin> set ''func1handler''"
    by (simp_all add: line_terminator_def)
  note google =
    C8_handler_parser[of google_function "google_module (Some ''google'')"
      "test_host (stub_returns [])" "''func1''" "[]" "[]"
      "''module1.func1handler''" "''module1''" "''func1handler''"]
  note plain =
    C8_handler_parser[of google_function "google_module None"
      "test_host (stub_returns [])" "''func1''" "[]" "[]"
      "''module1.func1handler''" "''module1''" "''func1handler''"]
  from plain nodot n f
  have loop: "forEach_function (test_host (stub_returns [])) [''func1''] [] (google_module None)
       = (Inr [], google_module None\<lparr>cli_log := cli_log (google_module None)
                    @ [Warn_no_entry ''func1'' (handler google_function)]\<rparr>)"
    by auto
  from google plain nodot g n f line split tail loop show ?thesis
    by blast
qed

text \<open>
  Claim C8, as the specification has it, fails on a handler with a line terminator: the
  handler \<open>a.b\<close>, line feed, \<open>c\<close> has a \<open>.\<close>, and the parser yields nothing for it.
\<close>

theorem C8_line_terminator_counterexample:
  "CHR ''.'' \<in> set (''a.b'' @ CHR 0x0A # ''c'')
   \<and> getHandlerFile (''a.b'' @ CHR 0x0A # ''c'') = None"
  by (simp add: getHandlerFile_def line_terminator_def)

section \<open>The stages of a pass\<close>

lemma resolveEntries_state:
  "resolveEntries h this = (r, this') \<Longrightarrow> this' = this\<lparr>cli_log := cli_log this'\<rparr>"
  unfolding resolveEntries_forEach by (rule forEach_function_state)

text \<open>What a pass does once the entries are resolved, by what the configuration is.\<close>

lemma validate_not_resolved:
  assumes "resolveEntries h (this\<lparr>webpackConfig := Some (as_webpackConfig (configured (serverless this)))\<rparr>)
             = (Inl e, this2)"
  shows "validate h this = (Thrown e, this2)"
  using assms by (simp add: validate_def)

lemma validate_loaded:
  assumes re: "resolveEntries h (this\<lparr>webpackConfig := Some (as_webpackConfig (configured (serverless this)))\<rparr>)
             = (Inr entries, this2)"
    and sup: "suppliedConfig h (serverless this) = Some loaded"
  shows "validate h this =
           finalize h
             (removeOutput
                (this2\<lparr>lib := \<lparr>lib_serverless = Some (serverless this),
                                 lib_options = Some (options this),
                                 lib_entries = Some entries\<rparr>,
                        webpackConfig := Some (Config_object (fst (defaulted (serverless this) (options this) loaded)))\<rparr>)
                (snd (defaulted (serverless this) (options this) loaded)))
             (fst (defaulted (serverless this) (options this) loaded))
             (snd (defaulted (serverless this) (options this) loaded)) entries"
proof -
  from resolveEntries_state[OF re]
  have t2: "this2 = this\<lparr>webpackConfig := Some (as_webpackConfig (configured (serverless this))),
                          cli_log := cli_log this2\<rparr>" by simp
  have sls2: "serverless this2 = serverless this" and opt2: "options this2 = options this"
    by (subst t2, simp)+
  show ?thesis
  proof (cases "configured (serverless this)")
    case (Custom_object cfg)
    with sup have "loaded = cfg" by (simp add: suppliedConfig_def)
    with Custom_object re show ?thesis
      by (simp add: validate_def loadConfig_def sls2 opt2 Let_def split: prod.splits)
  next
    case (Custom_file name)
    with sup have "fileExistsSync h (path_join (servicePath (serverless this)) name)"
      and "require_module h (path_join (servicePath (serverless this)) name) = Some loaded"
      by (auto simp: suppliedConfig_def split: if_splits)
    with Custom_file re show ?thesis
      by (simp add: validate_def loadConfig_def sls2 opt2 Let_def split: prod.splits)
  qed
qed

lemma validate_not_loaded:
  assumes re: "resolveEntries h (this\<lparr>webpackConfig := Some (as_webpackConfig (configured (serverless this)))\<rparr>)
             = (Inr entries, this2)"
    and sup: "suppliedConfig h (serverless this) = None"
  shows "\<exists>name.
           configured (serverless this) = Custom_file name
           \<and> validate h this =
               (if \<not> fileExistsSync h (path_join (servicePath (serverless this)) name)
                then (Thrown (Config_not_found (path_join (servicePath (serverless this)) name)),
                      this2\<lparr>lib := \<lparr>lib_serverless = Some (serverless this),
                                       lib_options = Some (options this),
                                       lib_entries = Some entries\<rparr>\<rparr>)
                else (Rejected (Config_load_error (path_join (servicePath (serverless this)) name)),
                      this2\<lparr>lib := \<lparr>lib_serverless = Some (serverless this),
                                       lib_options = Some (options this),
                                       lib_entries = Some entries\<rparr>,
                              cli_log := cli_log this2
                                @ [Could_not_load (path_join (servicePath (serverless this)) name)]\<rparr>))"
proof -
  from resolveEntries_state[OF re]
  have t2: "this2 = this\<lparr>webpackConfig := Some (as_webpackConfig (configured (serverless this))),
                          cli_log := cli_log this2\<rparr>" by simp
  have sls2: "serverless this2 = serverless this" and opt2: "options this2 = options this"
    by (subst t2, simp)+
  from sup obtain name where c: "configured (serverless this) = Custom_file name"
    by (cases "configured (serverless this)") (auto simp: suppliedConfig_def)
  with sup have "\<not> fileExistsSync h (path_join (servicePath (serverless this)) name)
      \<or> require_module h (path_join (servicePath (serverless this)) name) = None"
    by (auto simp: suppliedConfig_def split: if_splits)
  with c re show ?thesis
    by (auto simp: validate_def loadConfig_def sls2 opt2 Let_def)
qed

lemma resolveEntries_kept:
  assumes "resolveEntries h this = (r, this')"
  shows "serverless this' = serverless this" and "options this' = options this"
    and "lib this' = lib this" and "keepOutputDirectory this' = keepOutputDirectory this"
    and "removed this' = removed this"
  by (subst resolveEntries_state[OF assms], simp)+

lemma forEach_function_errors:
  "forEach_function h ns es this = (Inl e, t) \<Longrightarrow>
     (\<exists>b. e = No_matching_handler b) \<or> (\<exists>n. e = Function_does_not_exist n) \<or> e = Type_error"
proof (induction ns arbitrary: es this)
  case Nil
  then show ?case by simp
next
  case (Cons n ns)
  then show ?case
    by (auto simp: getFunction_def getEntryForFunction_def getEntryExtension_def Let_def
        split: sum.splits option.splits if_splits list.splits)
qed

lemma individually_lib: "lib (snd (individually h this cfg entries)) = lib this"
  by (simp add: individually_def Let_def split: sum.splits prod.splits)

lemma finalize_lib: "lib (snd (finalize h this cfg out entries)) = lib this"
  by (simp add: finalize_def individually_lib split: sum.splits)

lemma removeOutput_kept [simp]:
  "lib (removeOutput this out) = lib this"
  "serverless (removeOutput this out) = serverless this"
  "options (removeOutput this out) = options this"
  by (simp_all add: removeOutput_def Let_def)

text \<open>
  Claim C7, as the code has it. When \<open>validate\<close> fails because the configuration file
  is not found, because the configuration module fails to load, or because individual
  packaging meets a conflicting entry, the pass does not resolve, and the shared object
  has been populated in full before: it holds the serverless instance, the options and
  the complete entries of this pass. The entries are exposed before the configuration is
  required so that the configuration module can read them.
\<close>

theorem C7_shared_object_committed_before_faults:
  assumes v: "validate h this = (out, this')"
    and fault: "out = Thrown (Config_not_found p) \<or> out = Rejected (Config_load_error p)
                \<or> out = Rejected Entry_must_be_resolved"
  shows "out \<noteq> Resolved
       \<and> (\<exists>entries this2.
             resolveEntries h (this\<lparr>webpackConfig := Some (as_webpackConfig (configured (serverless this)))\<rparr>)
               = (Inr entries, this2)
           \<and> lib this' = \<lparr>lib_serverless = Some (serverless this),
                             lib_options = Some (options this),
                             lib_entries = Some entries\<rparr>)"
proof -
  let ?this1 = "this\<lparr>webpackConfig := Some (as_webpackConfig (configured (serverless this)))\<rparr>"
  obtain r this2 where re: "resolveEntries h ?this1 = (r, this2)"
    by (cases "resolveEntries h ?this1")
  have "\<exists>entries. r = Inr entries"
  proof (cases r)
    case (Inl e)
    with re v have "out = Thrown e" by (simp add: validate_not_resolved)
    moreover from re Inl have "(\<exists>b. e = No_matching_handler b)
        \<or> (\<exists>n. e = Function_does_not_exist n) \<or> e = Type_error"
      by (auto simp: resolveEntries_forEach dest: forEach_function_errors)
    ultimately show ?thesis using fault by auto
  qed simp
  then obtain entries where r: "r = Inr entries" ..
  have "lib this' = \<lparr>lib_serverless = Some (serverless this),
                             lib_options = Some (options this),
                             lib_entries = Some entries\<rparr>"
  proof (cases "suppliedConfig h (serverless this)")
    case None
    from validate_not_loaded[OF re[unfolded r] None] v show ?thesis
      by (auto split: if_splits)
  next
    case (Some loaded)
    from v have "this' = snd (validate h this)" by simp
    then have "this' = snd (finalize h
             (removeOutput
                (this2\<lparr>lib := \<lparr>lib_serverless = Some (serverless this),
                                 lib_options = Some (options this),
                                 lib_entries = Some entries\<rparr>,
                        webpackConfig := Some (Config_object (fst (defaulted (serverless this) (options this) loaded)))\<rparr>)
                (snd (defaulted (serverless this) (options this) loaded)))
             (fst (defaulted (serverless this) (options this) loaded))
             (snd (defaulted (serverless this) (options this) loaded)) entries)"
      by (simp only: validate_loaded[OF re[unfolded r] Some])
    then show ?thesis by (simp add: finalize_lib)
  qed
  with re r fault show ?thesis by auto
qed

text \<open>
  Claim C6. In a pass that resolves without individual packaging and with the service
  root \<open>testpath\<close>: when the configuration has no \<open>output\<close> (absent, or an object
  without properties) and no \<open>out\<close> option is given, the final \<open>output\<close> is the
  default with the \<open>service\<close> segment appended, that is library target \<open>commonjs\<close>,
  path \<open>testpath/.webpack/service\<close> and file name \<open>[name].js\<close>; when the \<open>out\<close>
  option is \<open>testdir\<close>, the final output path is \<open>testpath/testdir/service\<close>.
\<close>

theorem C6_single_mode_output_path:
  assumes ok: "validate h this = (Resolved, this')"
    and single: "\<not> package_individually (serverless this)"
    and root: "servicePath (serverless this) = ''testpath''"
    and sup: "suppliedConfig h (serverless this) = Some cfg"
  shows "((case cfg_output cfg of None \<Rightarrow> True | Some out \<Rightarrow> isEmpty_output out)
          \<and> \<not> truthy_string (opt_out (options this)) \<longrightarrow>
            (\<exists>c. webpackConfig this' = Some (Config_object c)
               \<and> cfg_output c =
                   Some \<lparr>out_libraryTarget = Some (JStr ''commonjs''),
                         out_path = Some (JStr ''testpath/.webpack/service''),
                         out_filename = Some (JStr ''[name].js''),
                         out_others = fmempty\<rparr>))
       \<and> (opt_out (options this) = Some ''testdir'' \<longrightarrow>
            (\<exists>c out. webpackConfig this' = Some (Config_object c) \<and> cfg_output c = Some out
               \<and> out_path out = Some (JStr ''testpath/testdir/service'')))"
proof -
  let ?this1 = "this\<lparr>webpackConfig := Some (as_webpackConfig (configured (serverless this)))\<rparr>"
  obtain r this2 where re: "resolveEntries h ?this1 = (r, this2)"
    by (cases "resolveEntries h ?this1")
  from ok re obtain entries where r: "r = Inr entries"
    by (cases r) (auto simp: validate_not_resolved)
  have p1: "path_join ''testpath'' ''.webpack'' = ''testpath/.webpack''"
    and p2: "path_join ''testpath/.webpack'' ''service'' = ''testpath/.webpack/service''"
    and p3: "path_join ''testpath'' ''testdir'' = ''testpath/testdir''"
    and p4: "path_join ''testpath/testdir'' ''service'' = ''testpath/testdir/service''"
    by (simp_all add: path_join_def normalize_def isAbsolute_def)
  from validate_loaded[OF re[unfolded r] sup] ok single resolveEntries_kept(1)[OF re]
  show ?thesis
    by (auto simp: finalize_def defaulted_def defaultOutput_def customOutputPath_def
        defaultTarget_def defaultContext_def join_checked_def truthy_string_def root
        p1 p2 p3 p4 Let_def
        split: option.splits if_splits sum.splits)
qed

lemmas fixture_defs =
  test_module_def test_serverless_def test_host_def testConfig_def testFunctionsConfig_def
  no_options_def stub_js_def stub_returns_def

lemmas validate_defs =
  validate_def resolveEntries_def getAllFunctions_def ownProperties_def isArrayIndex_def
  getFunction_def getEntryForFunction_def
  getEntryExtension_def getHandlerFile_def line_terminator_def truthy_string_def
  configured_def as_webpackConfig_def loadConfig_def defaulted_def defaultContext_def
  defaultTarget_def defaultOutput_def isEmpty_output_def customOutputPath_def removeOutput_def
  finalize_def join_checked_def truthy_opt_def suppliedConfig_def
  preferredExtensions_def sortBy_size_def uniq_def extname_def basename_part_def
  path_join_def normalize_def isAbsolute_def Let_def

theorem C6_single_mode_output_path_witness:
  "validate (test_host stub_js) default_output_module
     = (Resolved, snd (validate (test_host stub_js) default_output_module))
   \<and> \<not> package_individually (serverless default_output_module)
   \<and> servicePath (serverless default_output_module) = ''testpath''
   \<and> suppliedConfig (test_host stub_js) (serverless default_output_module)
       = Some (testConfig\<lparr>cfg_entry := Some (JStr ''testentry''), cfg_output := None\<rparr>)
   \<and> cfg_output (testConfig\<lparr>cfg_entry := Some (JStr ''testentry''), cfg_output := None\<rparr>) = None
   \<and> \<not> truthy_string (opt_out (options default_output_module))
   \<and> (\<exists>c. webpackConfig (snd (validate (test_host stub_js) default_output_module))
              = Some (Config_object c)
          \<and> cfg_output c =
              Some \<lparr>out_libraryTarget = Some (JStr ''commonjs''),
                    out_path = Some (JStr ''testpath/.webpack/service''),
                    out_filename = Some (JStr ''[name].js''),
                    out_others = fmempty\<rparr>)
   \<and> validate (test_host stub_js) out_option_module
     = (Resolved, snd (validate (test_host stub_js) out_option_module))
   \<and> \<not> package_individually (serverless out_option_module)
   \<and> servicePath (serverless out_option_module) = ''testpath''
   \<and> opt_out (options out_option_module) = Some ''testdir''
   \<and> (\<exists>c out. webpackConfig (snd (validate (test_host stub_js) out_option_module))
                  = Some (Config_object c)
              \<and> cfg_output c = Some out
              \<and> out_path out = Some (JStr ''testpath/testdir/service''))"
proof -
  have a1: "validate (test_host stub_js) default_output_module
     = (Resolved, snd (validate (test_host stub_js) default_output_module))"
    by (simp add: default_output_module_def fixture_defs validate_defs)
  have a2: "\<not> package_individually (serverless default_output_module)"
    and a3: "servicePath (serverless default_output_module) = ''testpath''"
    and a4: "suppliedConfig (test_host stub_js) (serverless default_output_module)
       = Some (testConfig\<lparr>cfg_entry := Some (JStr ''testentry''), cfg_output := None\<rparr>)"
    and a5: "cfg_output (testConfig\<lparr>cfg_entry := Some (JStr ''testentry''), cfg_output := None\<rparr>) = None"
    and a6: "\<not> truthy_string (opt_out (options default_output_module))"
    by (simp_all add: default_output_module_def fixture_defs suppliedConfig_def configured_def
        truthy_string_def)
  have b1: "validate (test_host stub_js) out_option_module
     = (Resolved, snd (validate (test_host stub_js) out_option_module))"
    by (simp add: out_option_module_def partial_output_config_def partial_output_def
        fixture_defs validate_defs)
  have b2: "\<not> package_individually (serverless out_option_module)"
    and b3: "servicePath (serverless out_option_module) = ''testpath''"
    and b5: "opt_out (options out_option_module) = Some ''testdir''"
    by (simp_all add: out_option_module_def fixture_defs)
  have b4: "suppliedConfig (test_host stub_js) (serverless out_option_module)
       = Some partial_output_config"
    by (simp add: out_option_module_def fixture_defs suppliedConfig_def configured_def)
  from C6_single_mode_output_path[OF a1 a2 a3 a4] a5 a6
  have A: "\<exists>c. webpackConfig (snd (validate (test_host stub_js) default_output_module))
              = Some (Config_object c)
          \<and> cfg_output c =
              Some \<lparr>out_libraryTarget = Some (JStr ''commonjs''),
                    out_path = Some (JStr ''testpath/.webpack/service''),
                    out_filename = Some (JStr ''[name].js''),
                    out_others = fmempty\<rparr>"
    by simp
  from C6_single_mode_output_path[OF b1 b2 b3 b4] b5
  have B: "\<exists>c out. webpackConfig (snd (validate (test_host stub_js) out_option_module))
                  = Some (Config_object c)
              \<and> cfg_output c = Some out
              \<and> out_path out = Some (JStr ''testpath/testdir/service'')"
    by simp
  from a1 a2 a3 a4 a5 a6 A b1 b2 b3 b5 B show ?thesis by blast
qed

text \<open>
  Claim C7, as the specification has it, fails: in the test "should throw if providing
  an invalid file" the pass throws, and the shared object, empty before, holds the four
  entries afterwards.
\<close>

theorem C7_shared_object_counterexample:
  "fst (validate (test_host stub_js) invalid_file_module)
     = Thrown (Config_not_found ''testpath/testconfig'')
   \<and> lib_entries (lib invalid_file_module) = None
   \<and> lib_entries (lib (snd (validate (test_host stub_js) invalid_file_module)))
     = Some [(''module1'', ''./module1.js''), (''module2'', ''./module2.js''),
             (''handlers/func3/module2'', ''./handlers/func3/module2.js''),
             (''handlers/module2/func3/module2'', ''./handlers/module2/func3/module2.js'')]"
  by (simp add: invalid_file_module_def fixture_defs validate_defs)

theorem C7_shared_object_committed_before_faults_witness:
  "validate (test_host stub_js) invalid_file_module
     = (Thrown (Config_not_found ''testpath/testconfig''),
        snd (validate (test_host stub_js) invalid_file_module))
   \<and> Thrown (Config_not_found ''testpath/testconfig'') \<noteq> Resolved
   \<and> (\<exists>entries this2.
         resolveEntries (test_host stub_js)
           (invalid_file_module\<lparr>webpackConfig :=
              Some (as_webpackConfig (configured (serverless invalid_file_module)))\<rparr>)
           = (Inr entries, this2)
       \<and> lib (snd (validate (test_host stub_js) invalid_file_module))
           = \<lparr>lib_serverless = Some (serverless invalid_file_module),
              lib_options = Some (options invalid_file_module),
              lib_entries = Some entries\<rparr>)"
proof -
  have v: "validate (test_host stub_js) invalid_file_module
     = (Thrown (Config_not_found ''testpath/testconfig''),
        snd (validate (test_host stub_js) invalid_file_module))"
    by (simp add: invalid_file_module_def fixture_defs validate_defs)
  from C7_shared_object_committed_before_faults[OF v, of "''testpath/testconfig''"] v
  show ?thesis by simp
qed

section \<open>The store of bindings\<close>

lemma assign_entry_kept [simp]:
  "length (assign_entry store file e) = length store"
  "map handlerFile (assign_entry store file e) = map handlerFile store"
  "map funcName (assign_entry store file e) = map funcName store"
  "map func (assign_entry store file e) = map func store"
  by (simp_all add: assign_entry_def)

lemma filter_handlerFile_cong:
  "map handlerFile st' = map handlerFile st \<Longrightarrow> filter_handlerFile st' file = filter_handlerFile st file"
proof -
  assume a: "map handlerFile st' = map handlerFile st"
  then have l: "length st' = length st" by (metis length_map)
  have "\<And>i. i < length st \<Longrightarrow> handlerFile (st' ! i) = handlerFile (st ! i)"
    using a l by (metis nth_map)
  then show ?thesis
    unfolding filter_handlerFile_def l by (auto intro: filter_cong)
qed

lemma segment_cong:
  assumes "map handlerFile st' = map handlerFile st"
  shows "segment h st' e = segment h st e"
proof -
  have "\<And>f. filter_handlerFile st' f = filter_handlerFile st f"
    using assms by (rule filter_handlerFile_cong)
  then show ?thesis by (simp add: segment_def split: option.splits)
qed

lemma write_entry_kept [simp]:
  "length (write_entry h store e) = length store"
  "map handlerFile (write_entry h store e) = map handlerFile store"
  "map funcName (write_entry h store e) = map funcName store"
  "map func (write_entry h store e) = map func store"
  by (simp_all add: write_entry_def split: option.splits)

lemma foldl_write_entry_kept [simp]:
  "length (foldl (write_entry h) store es) = length store"
  "map handlerFile (foldl (write_entry h) store es) = map handlerFile store"
  "map funcName (foldl (write_entry h) store es) = map funcName store"
  "map func (foldl (write_entry h) store es) = map func store"
  by (induction es arbitrary: store) simp_all

lemma segment_Some:
  "entryFile h value = Some fl \<Longrightarrow>
     segment h store (key, value)
       = (if filter_handlerFile store fl = [] then [Placeholder (placeholder (key, value))]
          else map Shared (filter_handlerFile store fl))"
  by (simp add: segment_def)

lemma write_entry_Some:
  "entryFile h value = Some fl \<Longrightarrow> write_entry h store (key, value) = assign_entry store fl (key, value)"
  by (simp add: write_entry_def)

lemma map_segment_assign:
  "map (segment h (assign_entry store fl e)) es = map (segment h store) es"
  by (rule map_cong[OF refl], rule segment_cong) simp

lemma flatMap_entries_Inr:
  "flatMap_entries h es store = Inr (final, refs) \<Longrightarrow>
     final = foldl (write_entry h) store es \<and> refs = concat (map (segment h store) es)"
proof (induction es arbitrary: store final refs)
  case Nil
  then show ?case by simp
next
  case (Cons e es)
  obtain key "value" where e: "e = (key, value)" by (cases e)
  from Cons.prems e obtain fl where f: "entryFile h value = Some fl"
    by (cases "entryFile h value") auto
  let ?store' = "assign_entry store fl (key, value)"
  from Cons.prems e f obtain refs' where
    rec: "flatMap_entries h es ?store' = Inr (final, refs')"
    and refs: "refs = segment h store (key, value) @ refs'"
    unfolding segment_Some[OF f]
    by (cases "flatMap_entries h es ?store'") (auto simp: Let_def)
  from Cons.IH[OF rec] have "final = foldl (write_entry h) ?store' es"
    and "refs' = concat (map (segment h ?store') es)" by simp_all
  then show ?case
    using refs e by (simp add: write_entry_Some[OF f] map_segment_assign)
qed

lemma flatMap_entries_total:
  "list_all (\<lambda>e. entryFile h (snd e) \<noteq> None) es \<Longrightarrow>
     flatMap_entries h es store
       = Inr (foldl (write_entry h) store es, concat (map (segment h store) es))"
proof (induction es arbitrary: store)
  case Nil
  then show ?case by simp
next
  case (Cons e es)
  obtain key "value" where e: "e = (key, value)" by (cases e)
  from Cons.prems e obtain fl where f: "entryFile h value = Some fl" by auto
  let ?store' = "assign_entry store fl (key, value)"
  from Cons.prems have "list_all (\<lambda>e. entryFile h (snd e) \<noteq> None) es" by simp
  from Cons.IH[OF this, of ?store']
  have "flatMap_entries h es ?store'
       = Inr (foldl (write_entry h) ?store' es, concat (map (segment h store) es))"
    by (simp add: map_segment_assign)
  then show ?case
    unfolding e by (simp add: f Let_def segment_Some[OF f] write_entry_Some[OF f])
qed

text \<open>The entry an object of the store ends with: the last one written into it.\<close>

lemma foldl_write_entry_snoc:
  "foldl (write_entry h) store (es @ [e]) = write_entry h (foldl (write_entry h) store es) e"
  by simp

lemma b_entry_write_entry:
  assumes "i < length store"
  shows "b_entry (write_entry h store e ! i)
         = (if entryFile h (snd e) \<noteq> None \<and> handlerFile (store ! i) = entryFile h (snd e)
            then Some e else b_entry (store ! i))"
  using assms by (auto simp: write_entry_def assign_entry_def split: option.splits)

lemma handlerFile_foldl_nth:
  "i < length store \<Longrightarrow> handlerFile (foldl (write_entry h) store es ! i) = handlerFile (store ! i)"
  by (metis foldl_write_entry_kept(1) foldl_write_entry_kept(2) nth_map)

lemma b_entry_foldl_none:
  assumes "i < length store"
    and "\<forall>e \<in> set es. entryFile h (snd e) \<noteq> handlerFile (store ! i)"
  shows "b_entry (foldl (write_entry h) store es ! i) = b_entry (store ! i)"
  using assms
proof (induction es rule: rev_induct)
  case Nil
  then show ?case by simp
next
  case (snoc e es)
  then show ?case
    by (auto simp: b_entry_write_entry handlerFile_foldl_nth)
qed

lemma b_entry_foldl_written:
  assumes i: "i < length store"
    and e: "b_entry (foldl (write_entry h) store es ! i) = Some e"
    and init: "b_entry (store ! i) = None"
  shows "e \<in> set es \<and> entryFile h (snd e) = handlerFile (store ! i)
         \<and> handlerFile (store ! i) \<noteq> None"
  using e
proof (induction es rule: rev_induct)
  case Nil
  with init show ?case by simp
next
  case (snoc x es)
  then show ?case
    using i by (auto simp: b_entry_write_entry handlerFile_foldl_nth split: if_splits)
qed

lemma b_entry_foldl_unique:
  assumes i: "i < length store"
    and mem: "e \<in> set es"
    and hit: "entryFile h (snd e) = handlerFile (store ! i)" "handlerFile (store ! i) \<noteq> None"
    and only: "\<forall>x \<in> set es. entryFile h (snd x) = handlerFile (store ! i) \<longrightarrow> x = e"
  shows "b_entry (foldl (write_entry h) store es ! i) = Some e"
  using mem only
proof (induction es rule: rev_induct)
  case Nil
  then show ?case by simp
next
  case (snoc x es)
  show ?case
  proof (cases "entryFile h (snd x) = handlerFile (store ! i)")
    case True
    with snoc.prems have "x = e" by simp
    with True hit i show ?thesis
      by (simp add: b_entry_write_entry handlerFile_foldl_nth)
  next
    case False
    with snoc.prems hit have "e \<in> set es" by auto
    with snoc False i show ?thesis
      by (simp add: b_entry_write_entry handlerFile_foldl_nth)
  qed
qed

section \<open>Individual packaging\<close>

lemma defaulted_entry [simp]:
  "cfg_entry (fst (defaulted sls opts loaded)) = cfg_entry loaded"
  by (simp add: defaulted_def defaultTarget_def defaultContext_def Let_def)

lemma individually_outcome:
  "fst (individually h this cfg entries) = Rejected e \<longleftrightarrow>
     e = Entry_must_be_resolved \<and> truthy_opt (cfg_entry cfg)
     \<and> \<not> isEqual (cfg_entry cfg) (Some (entries_object entries))"
  by (auto simp: individually_def Let_def split: sum.splits prod.splits)

text \<open>
  Claim C4, as the code has it. With individual packaging, once the entries are resolved
  and the configuration is loaded, \<open>validate\<close> rejects with "Webpack entry must be
  automatically resolved ..." exactly when the \<open>entry\<close> of the configuration is truthy
  and not deeply equal to the resolved entries. An \<open>entry\<close> that is deeply equal to
  them is tolerated: the promise is not rejected.
\<close>

theorem C4_conflicting_entry:
  assumes iso: "package_individually (serverless this)"
    and re: "resolveEntries h (this\<lparr>webpackConfig := Some (as_webpackConfig (configured (serverless this)))\<rparr>)
               = (Inr entries, this2)"
    and sup: "suppliedConfig h (serverless this) = Some loaded"
  shows "(fst (validate h this) = Rejected Entry_must_be_resolved
            \<longleftrightarrow> truthy_opt (cfg_entry loaded)
                 \<and> \<not> isEqual (cfg_entry loaded) (Some (entries_object entries)))
       \<and> (isEqual (cfg_entry loaded) (Some (entries_object entries))
            \<longrightarrow> (\<forall>e. fst (validate h this) \<noteq> Rejected e))"
proof -
  have "package_individually (serverless this2)"
    using iso resolveEntries_kept(1)[OF re] by simp
  then have "fst (validate h this) = fst (individually h
             (removeOutput
                (this2\<lparr>lib := \<lparr>lib_serverless = Some (serverless this),
                                 lib_options = Some (options this),
                                 lib_entries = Some entries\<rparr>,
                        webpackConfig := Some (Config_object (fst (defaulted (serverless this) (options this) loaded)))\<rparr>)
                (snd (defaulted (serverless this) (options this) loaded)))
             (fst (defaulted (serverless this) (options this) loaded)) entries)"
    by (simp add: validate_loaded[OF re sup] finalize_def)
  then show ?thesis
    by (simp add: individually_outcome)
qed

lemmas individually_defs =
  individually_def entries_object_def isEqual_def ownProperties_def isArrayIndex_def decimal_def
  entryFile_def relative_def resolve_def stripExtension_def syntaxCharacter_def
  filter_handlerFile_def assign_entry_def placeholder_def deref_def compileConfig_def
  compileName_def cloneDeep_def

theorem C4_conflicting_entry_witness:
  "package_individually (serverless (individual_module (Some customised_entry)))
   \<and> resolveEntries (test_host stub_js)
         (individual_module (Some customised_entry)
            \<lparr>webpackConfig := Some (as_webpackConfig
               (configured (serverless (individual_module (Some customised_entry)))))\<rparr>)
       = (Inr testEntries,
          individual_module (Some customised_entry)
            \<lparr>webpackConfig := Some (Config_object (testConfig\<lparr>cfg_entry := Some customised_entry\<rparr>))\<rparr>)
   \<and> suppliedConfig (test_host stub_js) (serverless (individual_module (Some customised_entry)))
       = Some (testConfig\<lparr>cfg_entry := Some customised_entry\<rparr>)
   \<and> truthy_opt (cfg_entry (testConfig\<lparr>cfg_entry := Some customised_entry\<rparr>))
   \<and> \<not> isEqual (cfg_entry (testConfig\<lparr>cfg_entry := Some customised_entry\<rparr>))
           (Some (entries_object testEntries))
   \<and> fst (validate (test_host stub_js) (individual_module (Some customised_entry)))
       = Rejected Entry_must_be_resolved
   \<and> package_individually (serverless (individual_module (Some (entries_object testEntries))))
   \<and> isEqual (cfg_entry (testConfig\<lparr>cfg_entry := Some (entries_object testEntries)\<rparr>))
         (Some (entries_object testEntries))
   \<and> (\<forall>e. fst (validate (test_host stub_js) (individual_module (Some (entries_object testEntries))))
          \<noteq> Rejected e)
   \<and> fst (validate (test_host stub_js) (individual_module (Some (entries_object testEntries))))
       = Resolved"
proof -
  have iso: "package_individually (serverless (individual_module e))" for e
    by (simp add: individual_module_def fixture_defs)
  have re: "resolveEntries (test_host stub_js)
         (individual_module e
            \<lparr>webpackConfig := Some (as_webpackConfig (configured (serverless (individual_module e))))\<rparr>)
       = (Inr testEntries,
          individual_module e
            \<lparr>webpackConfig := Some (Config_object (testConfig\<lparr>cfg_entry := e\<rparr>))\<rparr>)" for e
    by (simp add: individual_module_def testEntries_def fixture_defs validate_defs)
  have sup: "suppliedConfig (test_host stub_js) (serverless (individual_module e))
       = Some (testConfig\<lparr>cfg_entry := e\<rparr>)" for e
    by (simp add: individual_module_def fixture_defs suppliedConfig_def configured_def)
  have truthy: "truthy_opt (cfg_entry (testConfig\<lparr>cfg_entry := Some customised_entry\<rparr>))"
    by (simp add: truthy_opt_def customised_entry_def)
  have differ: "\<not> isEqual (cfg_entry (testConfig\<lparr>cfg_entry := Some customised_entry\<rparr>))
           (Some (entries_object testEntries))"
  proof
    assume "isEqual (cfg_entry (testConfig\<lparr>cfg_entry := Some customised_entry\<rparr>))
           (Some (entries_object testEntries))"
    then have "customised_entry = entries_object testEntries"
      by (simp add: isEqual_def)
    then have "fmap_of_list [(''module1'', JStr ''./module1.js''), (''module2'', JStr ''./module2.js'')]
               = fmap_of_list (map (\<lambda>(k, v). (k, JStr v)) testEntries)"
      unfolding customised_entry_def entries_object_def by (simp only: jsval.inject)
    then have "fmlookup (fmap_of_list [(''module1'', JStr ''./module1.js''), (''module2'', JStr ''./module2.js'')])
                 ''handlers/func3/module2''
               = fmlookup (fmap_of_list (map (\<lambda>(k, v). (k, JStr v)) testEntries))
                   ''handlers/func3/module2''"
      by (simp only:)
    then show False
      by (simp add: testEntries_def fmlookup_of_list)
  qed
  have same: "isEqual (cfg_entry (testConfig\<lparr>cfg_entry := Some (entries_object testEntries)\<rparr>))
         (Some (entries_object testEntries))"
    by (simp add: isEqual_def)
  have resolved: "fst (validate (test_host stub_js) (individual_module (Some (entries_object testEntries))))
       = Resolved"
    by (simp add: individual_module_def testEntries_def fixture_defs validate_defs individually_defs)
  note conflicting = C4_conflicting_entry[OF iso re sup, of "Some customised_entry"]
  note tolerated = C4_conflicting_entry[OF iso re sup, of "Some (entries_object testEntries)"]
  from conflicting truthy differ
  have rejected: "fst (validate (test_host stub_js) (individual_module (Some customised_entry)))
       = Rejected Entry_must_be_resolved"
    by blast
  from tolerated same
  have never: "\<forall>e. fst (validate (test_host stub_js) (individual_module (Some (entries_object testEntries))))
          \<noteq> Rejected e"
    by blast
  from iso re sup truthy differ rejected same never resolved show ?thesis
    by blast
qed

text \<open>
  Claim C4, as the specification has it, fails twice. The configuration that declares
  the empty string as its \<open>entry\<close> declares an entry that is not equal to the four
  resolved entries, and the pass resolves: the guard tests the truthiness of
  \<open>entry\<close>. And of the two functions of \<open>mixed_module\<close> one has no file handler;
  the \<open>entry\<close> declared is equal to the entries resolved, and the pass does not
  succeed: \<open>path.relative\<close> throws a \<open>TypeError\<close> on the handler file that is
  \<open>undefined\<close>.
\<close>

theorem C4_falsy_entry_counterexample:
  "cfg_entry (testConfig\<lparr>cfg_entry := Some (JStr [])\<rparr>) = Some (JStr [])
   \<and> \<not> isEqual (Some (JStr [])) (Some (entries_object testEntries))
   \<and> lib_entries (lib (snd (validate (test_host stub_js) (individual_module (Some (JStr []))))))
       = Some testEntries
   \<and> fst (validate (test_host stub_js) (individual_module (Some (JStr [])))) = Resolved
   \<and> lib_entries (lib (snd (validate (test_host stub_js) mixed_module)))
       = Some [(''module1'', ''./module1.js'')]
   \<and> fst (validate (test_host stub_js) mixed_module) = Thrown Type_error"
proof -
  have a: "cfg_entry (testConfig\<lparr>cfg_entry := Some (JStr [])\<rparr>) = Some (JStr [])"
    and b: "\<not> isEqual (Some (JStr [])) (Some (entries_object testEntries))"
    by (simp_all add: isEqual_def entries_object_def)
  have c: "lib_entries (lib (snd (validate (test_host stub_js) (individual_module (Some (JStr []))))))
       = Some testEntries"
    by (simp add: individual_module_def testEntries_def fixture_defs validate_defs individually_defs)
  have d: "fst (validate (test_host stub_js) (individual_module (Some (JStr [])))) = Resolved"
    by (simp add: individual_module_def testEntries_def fixture_defs validate_defs individually_defs)
  have e: "lib_entries (lib (snd (validate (test_host stub_js) mixed_module)))
       = Some [(''module1'', ''./module1.js'')]"
    by (simp add: mixed_module_def google_function_def fixture_defs validate_defs individually_defs)
  have f: "fst (validate (test_host stub_js) mixed_module) = Thrown Type_error"
    by (simp add: mixed_module_def google_function_def fixture_defs validate_defs individually_defs)
  from a b c d e f show ?thesis by blast
qed

lemma compileConfig_Inr:
  assumes "compileConfig h base b = Inr c" and "cfg_output base = Some out"
  shows "\<exists>key value p.
           b_entry b = Some (key, value) \<and> out_path out = Some (JStr p)
           \<and> c = base\<lparr>cfg_entry := Some (JObj (fmap_of_list [(key, JStr value)])),
                      cfg_output := Some (out\<lparr>out_path :=
                        Some (JStr (path_join p (compileName h b key)))\<rparr>)\<rparr>"
  using assms
  by (auto simp: compileConfig_def cloneDeep_def join_checked_def Let_def
      split: option.splits sum.splits jsval.splits prod.splits)

lemma map_compileConfig_Inr:
  "map_compileConfig h base bs = Inr cs \<Longrightarrow> list_all2 (\<lambda>b c. compileConfig h base b = Inr c) bs cs"
  by (induction bs arbitrary: cs) (auto split: sum.splits)

lemma map_compileConfig_total:
  "list_all2 (\<lambda>b c. compileConfig h base b = Inr c) bs cs \<Longrightarrow> map_compileConfig h base bs = Inr cs"
  by (induction bs cs rule: list_all2_induct) auto

lemma flatMap_entries_Inr_files:
  "flatMap_entries h es store = Inr x \<Longrightarrow> list_all (\<lambda>e. entryFile h (snd e) \<noteq> None) es"
proof (induction es arbitrary: store x)
  case Nil
  then show ?case by simp
next
  case (Cons e es)
  obtain key "value" where e: "e = (key, value)" by (cases e)
  from Cons.prems e obtain fl where f: "entryFile h value = Some fl"
    by (cases "entryFile h value") auto
  from Cons.prems e f obtain y where "flatMap_entries h es (assign_entry store fl (key, value)) = Inr y"
    by (cases "flatMap_entries h es (assign_entry store fl (key, value))") (auto simp: Let_def)
  from Cons.IH[OF this] e f show ?case by simp
qed

lemma individually_Resolved:
  assumes ok: "individually h this cfg entries = (Resolved, this')"
  shows "\<exists>store cfgs.
           allEntryFunctions h (serverless this) (getAllFunctions (serverless this)) = Inr store
           \<and> list_all (\<lambda>e. entryFile h (snd e) \<noteq> None) (ownProperties entries)
           \<and> entryFunctions this'
               = map (deref (foldl (write_entry h) store (ownProperties entries)))
                   (concat (map (segment h store) (ownProperties entries)))
           \<and> map_compileConfig h cfg (entryFunctions this') = Inr cfgs
           \<and> webpackConfig this' = Some (Config_list cfgs)
           \<and> lib this' = lib this"
proof -
  from ok obtain store where
    st: "allEntryFunctions h (serverless this) (getAllFunctions (serverless this)) = Inr store"
    by (cases "allEntryFunctions h (serverless this) (getAllFunctions (serverless this))")
       (auto simp: individually_def Let_def split: if_splits)
  from ok st obtain final refs where
    fm: "flatMap_entries h (ownProperties entries) store = Inr (final, refs)"
    by (cases "flatMap_entries h (ownProperties entries) store")
       (auto simp: individually_def Let_def split: if_splits)
  from flatMap_entries_Inr[OF fm]
  have final: "final = foldl (write_entry h) store (ownProperties entries)"
    and refs: "refs = concat (map (segment h store) (ownProperties entries))" by simp_all
  from ok st fm obtain cfgs where
    mc: "map_compileConfig h cfg (map (deref final) refs) = Inr cfgs"
    by (cases "map_compileConfig h cfg (map (deref final) refs)")
       (auto simp: individually_def Let_def split: if_splits)
  from ok st fm mc have "entryFunctions this' = map (deref final) refs"
    and "webpackConfig this' = Some (Config_list cfgs)" and "lib this' = lib this"
    by (auto simp: individually_def Let_def split: if_splits)
  with st flatMap_entries_Inr_files[OF fm] final refs mc show ?thesis by simp
qed

lemma finalize_Resolved:
  assumes ok: "finalize h this cfg out entries = (Resolved, this')"
    and out: "cfg_output cfg = Some out"
  shows "list_all (\<lambda>c. \<exists>e p seg. out_path out = Some (JStr p)
                   \<and> c = cfg\<lparr>cfg_entry := e,
                              cfg_output := Some (out\<lparr>out_path := Some (JStr (path_join p seg))\<rparr>)\<rparr>)
           (configurations this')"
proof (cases "package_individually (serverless this)")
  case False
  with ok obtain q where j: "join_checked (out_path out) ''service'' = Inr q"
    and w: "webpackConfig this' = Some (Config_object (cfg\<lparr>cfg_output := Some (out\<lparr>out_path := Some (JStr q)\<rparr>)\<rparr>))"
    by (auto simp: finalize_def split: sum.splits)
  from j obtain p where p: "out_path out = Some (JStr p)" and q: "q = path_join p ''service''"
    by (auto simp: join_checked_def split: option.splits jsval.splits)
  have "cfg\<lparr>cfg_output := Some (out\<lparr>out_path := Some (JStr q)\<rparr>)\<rparr>
        = cfg\<lparr>cfg_entry := cfg_entry cfg,
              cfg_output := Some (out\<lparr>out_path := Some (JStr (path_join p ''service''))\<rparr>)\<rparr>"
    by (simp add: q)
  with p have "\<exists>e p seg. out_path out = Some (JStr p)
                   \<and> cfg\<lparr>cfg_output := Some (out\<lparr>out_path := Some (JStr q)\<rparr>)\<rparr>
                     = cfg\<lparr>cfg_entry := e,
                              cfg_output := Some (out\<lparr>out_path := Some (JStr (path_join p seg))\<rparr>)\<rparr>"
    by blast
  then show ?thesis
    by (simp add: configurations_def w)
next
  case True
  with ok have "individually h this cfg entries = (Resolved, this')"
    by (simp add: finalize_def)
  from individually_Resolved[OF this] obtain cfgs where
    mc: "map_compileConfig h cfg (entryFunctions this') = Inr cfgs"
    and w: "webpackConfig this' = Some (Config_list cfgs)" by blast
  have "\<exists>e p seg. out_path out = Some (JStr p)
                   \<and> c = cfg\<lparr>cfg_entry := e,
                              cfg_output := Some (out\<lparr>out_path := Some (JStr (path_join p seg))\<rparr>)\<rparr>"
    if "c \<in> set cfgs" for c
  proof -
    from map_compileConfig_Inr[OF mc] that obtain b where "compileConfig h cfg b = Inr c"
      by (auto simp: list_all2_conv_all_nth in_set_conv_nth)
    from compileConfig_Inr[OF this out] show ?thesis by blast
  qed
  with w show ?thesis by (simp add: configurations_def list_all_iff)
qed

lemma validate_Resolved:
  assumes ok: "validate h this = (Resolved, this')"
  shows "\<exists>entries this2 loaded.
           resolveEntries h (this\<lparr>webpackConfig := Some (as_webpackConfig (configured (serverless this)))\<rparr>)
             = (Inr entries, this2)
           \<and> suppliedConfig h (serverless this) = Some loaded
           \<and> finalize h
               (removeOutput
                  (this2\<lparr>lib := \<lparr>lib_serverless = Some (serverless this),
                                   lib_options = Some (options this),
                                   lib_entries = Some entries\<rparr>,
                          webpackConfig := Some (Config_object (fst (defaulted (serverless this) (options this) loaded)))\<rparr>)
                  (snd (defaulted (serverless this) (options this) loaded)))
               (fst (defaulted (serverless this) (options this) loaded))
               (snd (defaulted (serverless this) (options this) loaded)) entries
              = (Resolved, this')"
proof -
  let ?this1 = "this\<lparr>webpackConfig := Some (as_webpackConfig (configured (serverless this)))\<rparr>"
  obtain r this2 where re: "resolveEntries h ?this1 = (r, this2)"
    by (cases "resolveEntries h ?this1")
  from ok re obtain entries where r: "r = Inr entries"
    by (cases r) (auto simp: validate_not_resolved)
  obtain loaded where sup: "suppliedConfig h (serverless this) = Some loaded"
  proof (cases "suppliedConfig h (serverless this)")
    case None
    from validate_not_loaded[OF re[unfolded r] None] ok show ?thesis
      by (auto split: if_splits)
  qed simp
  from validate_loaded[OF re[unfolded r] sup] ok re r sup show ?thesis
    by simp
qed

lemma defaulted_output [simp]:
  "cfg_output (fst (defaulted sls opts loaded)) = Some (snd (defaulted sls opts loaded))"
  by (simp add: defaulted_def Let_def)

lemma removeOutput_path [simp]:
  "webpackOutputPath (removeOutput this out) = out_path out"
  "webpackConfig (removeOutput this out) = webpackConfig this"
  by (simp_all add: removeOutput_def Let_def)

lemma individually_kept:
  assumes "individually h this cfg entries = (r, t)"
  shows "webpackOutputPath t = webpackOutputPath this"
    and "r \<noteq> Resolved \<Longrightarrow> webpackConfig t = webpackConfig this"
  using assms
  by (auto simp: individually_def Let_def split: if_splits sum.splits prod.splits)

lemma finalize_kept:
  assumes "finalize h this cfg out entries = (r, t)"
  shows "webpackOutputPath t = webpackOutputPath this"
    and "r \<noteq> Resolved \<Longrightarrow> webpackConfig t = webpackConfig this"
  using assms individually_kept[of h this cfg entries r t]
  by (auto simp: finalize_def split: if_splits sum.splits)

lemma finalize_single:
  "\<not> package_individually (serverless this) \<Longrightarrow>
     fst (finalize h this cfg out entries)
       = (case out_path out of Some (JStr p) \<Rightarrow> Resolved | _ \<Rightarrow> Thrown Type_error)"
  by (simp add: finalize_def join_checked_def split: option.splits jsval.splits)

lemma finalize_outputs:
  assumes f: "finalize h S cfg out entries = (r, t)"
    and out: "cfg_output cfg = Some out"
    and S: "webpackConfig S = Some (Config_object cfg)"
  shows "list_all (\<lambda>c. \<exists>out'. cfg_output c = Some out'
             \<and> out_libraryTarget out' = out_libraryTarget out
             \<and> out_filename out' = out_filename out
             \<and> out_others out' = out_others out
             \<and> (r = Resolved \<longrightarrow>
                  (\<exists>p seg. out_path out = Some (JStr p) \<and> out_path out' = Some (JStr (path_join p seg))))
             \<and> (r \<noteq> Resolved \<longrightarrow> out_path out' = out_path out))
           (configurations t)"
proof (cases "r = Resolved")
  case True
  with f have "finalize h S cfg out entries = (Resolved, t)" by simp
  from finalize_Resolved[OF this out]
  have "\<forall>c \<in> set (configurations t). \<exists>e p seg. out_path out = Some (JStr p)
                   \<and> c = cfg\<lparr>cfg_entry := e,
                              cfg_output := Some (out\<lparr>out_path := Some (JStr (path_join p seg))\<rparr>)\<rparr>"
    by (simp add: list_all_iff)
  with True show ?thesis
    unfolding list_all_iff by fastforce
next
  case False
  from finalize_kept(2)[OF f False] S have "configurations t = [cfg]"
    by (simp add: configurations_def)
  with False out show ?thesis by simp
qed

text \<open>
  Claim C9. The default \<open>output\<close> is all or nothing. Take a pass whose entries resolve
  and whose configuration is loaded, whatever its outcome. When the supplied configuration
  has no \<open>output\<close>, or an \<open>output\<close> without properties, the output path the pass
  records is the \<open>.webpack\<close> directory of the service root, and in every configuration
  the pass leaves the library target is \<open>commonjs\<close>, the file name is \<open>[name].js\<close>
  and there is no other property. When the supplied \<open>output\<close> has a property at all,
  nothing is filled in: the output path recorded is the one supplied, absent when it was
  absent, and in every configuration left the library target, the file name and the other
  properties are what was supplied, absent where they were absent. In both cases a
  non-empty \<open>out\<close> option replaces the path recorded by its directory under the service
  root. The path of a configuration left is the path recorded joined with one segment
  when the pass resolves, and the path recorded itself when it does not; without
  individual packaging the pass resolves when the path recorded is a string and throws a
  type error otherwise.
\<close>

theorem C9_output_defaulting:
  assumes re: "resolveEntries h (this\<lparr>webpackConfig := Some (as_webpackConfig (configured (serverless this)))\<rparr>)
                 = (Inr entries, this2)"
    and sup: "suppliedConfig h (serverless this) = Some loaded"
    and v: "validate h this = (r, this')"
  shows "((case cfg_output loaded of None \<Rightarrow> True | Some out \<Rightarrow> isEmpty_output out) \<longrightarrow>
            webpackOutputPath this'
              = (case opt_out (options this) of
                   None \<Rightarrow> Some (JStr (path_join (servicePath (serverless this)) ''.webpack''))
                 | Some dir \<Rightarrow>
                     if dir = [] then Some (JStr (path_join (servicePath (serverless this)) ''.webpack''))
                     else Some (JStr (path_join (servicePath (serverless this)) dir)))
          \<and> list_all (\<lambda>c. \<exists>out'. cfg_output c = Some out'
                 \<and> out_libraryTarget out' = Some (JStr ''commonjs'')
                 \<and> out_filename out' = Some (JStr ''[name].js'')
                 \<and> out_others out' = fmempty)
              (configurations this'))
       \<and> (\<forall>out. cfg_output loaded = Some out \<and> \<not> isEmpty_output out \<longrightarrow>
            webpackOutputPath this'
              = (case opt_out (options this) of
                   None \<Rightarrow> out_path out
                 | Some dir \<Rightarrow>
                     if dir = [] then out_path out
                     else Some (JStr (path_join (servicePath (serverless this)) dir)))
          \<and> list_all (\<lambda>c. \<exists>out'. cfg_output c = Some out'
                 \<and> out_libraryTarget out' = out_libraryTarget out
                 \<and> out_filename out' = out_filename out
                 \<and> out_others out' = out_others out)
              (configurations this'))
       \<and> list_all (\<lambda>c. \<exists>out'. cfg_output c = Some out'
              \<and> (r = Resolved \<longrightarrow>
                   (\<exists>p seg. webpackOutputPath this' = Some (JStr p)
                      \<and> out_path out' = Some (JStr (path_join p seg))))
              \<and> (r \<noteq> Resolved \<longrightarrow> out_path out' = webpackOutputPath this'))
           (configurations this')
       \<and> (\<not> package_individually (serverless this) \<longrightarrow>
            r = (case webpackOutputPath this' of Some (JStr p) \<Rightarrow> Resolved | _ \<Rightarrow> Thrown Type_error))"
proof -
  let ?cfg = "fst (defaulted (serverless this) (options this) loaded)"
  let ?out = "snd (defaulted (serverless this) (options this) loaded)"
  let ?S = "removeOutput
              (this2\<lparr>lib := \<lparr>lib_serverless = Some (serverless this),
                               lib_options = Some (options this),
                               lib_entries = Some entries\<rparr>,
                      webpackConfig := Some (Config_object ?cfg)\<rparr>) ?out"
  from validate_loaded[OF re sup] v
  have f: "finalize h ?S ?cfg ?out entries = (r, this')" by simp
  have sls: "serverless ?S = serverless this"
    using resolveEntries_kept(1)[OF re] by simp
  have path: "webpackOutputPath this' = out_path ?out"
    using finalize_kept(1)[OF f] by simp
  have cfgs: "list_all (\<lambda>c. \<exists>out'. cfg_output c = Some out'
             \<and> out_libraryTarget out' = out_libraryTarget ?out
             \<and> out_filename out' = out_filename ?out
             \<and> out_others out' = out_others ?out
             \<and> (r = Resolved \<longrightarrow>
                  (\<exists>p seg. out_path ?out = Some (JStr p) \<and> out_path out' = Some (JStr (path_join p seg))))
             \<and> (r \<noteq> Resolved \<longrightarrow> out_path out' = out_path ?out))
           (configurations this')"
    by (rule finalize_outputs[OF f defaulted_output]) simp
  have fresh: "?out = \<lparr>out_libraryTarget = Some (JStr ''commonjs''),
                    out_path = (case opt_out (options this) of
                   None \<Rightarrow> Some (JStr (path_join (servicePath (serverless this)) ''.webpack''))
                 | Some dir \<Rightarrow>
                     if dir = [] then Some (JStr (path_join (servicePath (serverless this)) ''.webpack''))
                     else Some (JStr (path_join (servicePath (serverless this)) dir))),
                    out_filename = Some (JStr ''[name].js''),
                    out_others = fmempty\<rparr>"
    if "case cfg_output loaded of None \<Rightarrow> True | Some out \<Rightarrow> isEmpty_output out"
    using that
    by (auto simp: defaulted_def defaultOutput_def defaultTarget_def defaultContext_def
        customOutputPath_def Let_def split: option.splits)
  have kept: "?out = out\<lparr>out_path := (case opt_out (options this) of
                   None \<Rightarrow> out_path out
                 | Some dir \<Rightarrow>
                     if dir = [] then out_path out
                     else Some (JStr (path_join (servicePath (serverless this)) dir)))\<rparr>"
    if "cfg_output loaded = Some out" and "\<not> isEmpty_output out" for out
    using that
    by (auto simp: defaulted_def defaultOutput_def defaultTarget_def defaultContext_def
        customOutputPath_def Let_def split: option.splits)
  have A: "webpackOutputPath this'
              = (case opt_out (options this) of
                   None \<Rightarrow> Some (JStr (path_join (servicePath (serverless this)) ''.webpack''))
                 | Some dir \<Rightarrow>
                     if dir = [] then Some (JStr (path_join (servicePath (serverless this)) ''.webpack''))
                     else Some (JStr (path_join (servicePath (serverless this)) dir)))
          \<and> list_all (\<lambda>c. \<exists>out'. cfg_output c = Some out'
                 \<and> out_libraryTarget out' = Some (JStr ''commonjs'')
                 \<and> out_filename out' = Some (JStr ''[name].js'')
                 \<and> out_others out' = fmempty)
              (configurations this')"
    if a: "case cfg_output loaded of None \<Rightarrow> True | Some out \<Rightarrow> isEmpty_output out"
  proof -
    have "out_libraryTarget ?out = Some (JStr ''commonjs'')"
      and "out_filename ?out = Some (JStr ''[name].js'')" and "out_others ?out = fmempty"
      and "out_path ?out = (case opt_out (options this) of
                   None \<Rightarrow> Some (JStr (path_join (servicePath (serverless this)) ''.webpack''))
                 | Some dir \<Rightarrow>
                     if dir = [] then Some (JStr (path_join (servicePath (serverless this)) ''.webpack''))
                     else Some (JStr (path_join (servicePath (serverless this)) dir)))"
      by (subst fresh[OF a], simp)+
    with cfgs path show ?thesis
      unfolding list_all_iff by fastforce
  qed
  have B: "webpackOutputPath this'
              = (case opt_out (options this) of
                   None \<Rightarrow> out_path out
                 | Some dir \<Rightarrow>
                     if dir = [] then out_path out
                     else Some (JStr (path_join (servicePath (serverless this)) dir)))
          \<and> list_all (\<lambda>c. \<exists>out'. cfg_output c = Some out'
                 \<and> out_libraryTarget out' = out_libraryTarget out
                 \<and> out_filename out' = out_filename out
                 \<and> out_others out' = out_others out)
              (configurations this')"
    if b: "cfg_output loaded = Some out \<and> \<not> isEmpty_output out" for out
  proof -
    from b have b1: "cfg_output loaded = Some out" and b2: "\<not> isEmpty_output out" by simp_all
    have "out_libraryTarget ?out = out_libraryTarget out"
      and "out_filename ?out = out_filename out" and "out_others ?out = out_others out"
      and "out_path ?out = (case opt_out (options this) of
                   None \<Rightarrow> out_path out
                 | Some dir \<Rightarrow>
                     if dir = [] then out_path out
                     else Some (JStr (path_join (servicePath (serverless this)) dir)))"
      by (subst kept[OF b1 b2], simp)+
    with cfgs path show ?thesis
      unfolding list_all_iff by fastforce
  qed
  have C: "list_all (\<lambda>c. \<exists>out'. cfg_output c = Some out'
              \<and> (r = Resolved \<longrightarrow>
                   (\<exists>p seg. webpackOutputPath this' = Some (JStr p)
                      \<and> out_path out' = Some (JStr (path_join p seg))))
              \<and> (r \<noteq> Resolved \<longrightarrow> out_path out' = webpackOutputPath this'))
           (configurations this')"
    using cfgs unfolding list_all_iff path by fastforce
  have D: "r = (case webpackOutputPath this' of Some (JStr p) \<Rightarrow> Resolved | _ \<Rightarrow> Thrown Type_error)"
    if "\<not> package_individually (serverless this)"
    using finalize_single[of ?S h ?cfg ?out entries] that f sls path by simp
  from A B C D show ?thesis by blast
qed

theorem C9_output_defaulting_witness:
  "resolveEntries (test_host stub_js)
       (default_output_module\<lparr>webpackConfig :=
          Some (as_webpackConfig (configured (serverless default_output_module)))\<rparr>)
     = (Inr [], default_output_module\<lparr>webpackConfig :=
          Some (as_webpackConfig (configured (serverless default_output_module)))\<rparr>)
   \<and> suppliedConfig (test_host stub_js) (serverless default_output_module)
       = Some (testConfig\<lparr>cfg_entry := Some (JStr ''testentry''), cfg_output := None\<rparr>)
   \<and> cfg_output (testConfig\<lparr>cfg_entry := Some (JStr ''testentry''), cfg_output := None\<rparr>) = None
   \<and> opt_out (options default_output_module) = None
   \<and> servicePath (serverless default_output_module) = ''testpath''
   \<and> fst (validate (test_host stub_js) default_output_module) = Resolved
   \<and> webpackOutputPath (snd (validate (test_host stub_js) default_output_module))
       = Some (JStr ''testpath/.webpack'')
   \<and> map cfg_output (configurations (snd (validate (test_host stub_js) default_output_module)))
       = [Some \<lparr>out_libraryTarget = Some (JStr ''commonjs''),
                out_path = Some (JStr ''testpath/.webpack/service''),
                out_filename = Some (JStr ''[name].js''), out_others = fmempty\<rparr>]
   \<and> resolveEntries (test_host stub_js)
       (out_option_module\<lparr>webpackConfig :=
          Some (as_webpackConfig (configured (serverless out_option_module)))\<rparr>)
     = (Inr [], out_option_module\<lparr>webpackConfig :=
          Some (as_webpackConfig (configured (serverless out_option_module)))\<rparr>)
   \<and> suppliedConfig (test_host stub_js) (serverless out_option_module) = Some partial_output_config
   \<and> cfg_output partial_output_config = Some partial_output
   \<and> \<not> isEmpty_output partial_output
   \<and> opt_out (options out_option_module) = Some ''testdir''
   \<and> fst (validate (test_host stub_js) out_option_module) = Resolved
   \<and> webpackOutputPath (snd (validate (test_host stub_js) out_option_module))
       = Some (JStr ''testpath/testdir'')
   \<and> map cfg_output (configurations (snd (validate (test_host stub_js) out_option_module)))
       = [Some \<lparr>out_libraryTarget = None,
                out_path = Some (JStr ''testpath/testdir/service''),
                out_filename = Some (JStr ''filename''), out_others = fmempty\<rparr>]
   \<and> resolveEntries (test_host stub_js)
       (path_only_module\<lparr>webpackConfig :=
          Some (as_webpackConfig (configured (serverless path_only_module)))\<rparr>)
     = (Inr [], path_only_module\<lparr>webpackConfig :=
          Some (as_webpackConfig (configured (serverless path_only_module)))\<rparr>)
   \<and> suppliedConfig (test_host stub_js) (serverless path_only_module)
       = Some (partial_output_config\<lparr>cfg_output := Some path_only_output\<rparr>)
   \<and> \<not> isEmpty_output path_only_output
   \<and> opt_out (options path_only_module) = None
   \<and> fst (validate (test_host stub_js) path_only_module) = Resolved
   \<and> webpackOutputPath (snd (validate (test_host stub_js) path_only_module)) = Some (JStr ''test'')
   \<and> map cfg_output (configurations (snd (validate (test_host stub_js) path_only_module)))
       = [Some \<lparr>out_libraryTarget = None, out_path = Some (JStr ''test/service''),
                out_filename = None, out_others = fmempty\<rparr>]
   \<and> resolveEntries (test_host stub_js)
       (pathless_module\<lparr>webpackConfig :=
          Some (as_webpackConfig (configured (serverless pathless_module)))\<rparr>)
     = (Inr [], pathless_module\<lparr>webpackConfig :=
          Some (as_webpackConfig (configured (serverless pathless_module)))\<rparr>)
   \<and> suppliedConfig (test_host stub_js) (serverless pathless_module)
       = Some (partial_output_config\<lparr>cfg_output := Some pathless_output\<rparr>)
   \<and> \<not> isEmpty_output pathless_output
   \<and> opt_out (options pathless_module) = None
   \<and> \<not> package_individually (serverless pathless_module)
   \<and> fst (validate (test_host stub_js) pathless_module) = Thrown Type_error
   \<and> webpackOutputPath (snd (validate (test_host stub_js) pathless_module)) = None
   \<and> map cfg_output (configurations (snd (validate (test_host stub_js) pathless_module)))
       = [Some \<lparr>out_libraryTarget = None, out_path = None,
                out_filename = Some (JStr ''filename''), out_others = fmempty\<rparr>]"
proof -
  let ?h = "test_host stub_js"
  have a1: "resolveEntries ?h
       (default_output_module\<lparr>webpackConfig :=
          Some (as_webpackConfig (configured (serverless default_output_module)))\<rparr>)
     = (Inr [], default_output_module\<lparr>webpackConfig :=
          Some (as_webpackConfig (configured (serverless default_output_module)))\<rparr>)"
    by (simp add: default_output_module_def fixture_defs validate_defs)
  have a2: "suppliedConfig ?h (serverless default_output_module)
       = Some (testConfig\<lparr>cfg_entry := Some (JStr ''testentry''), cfg_output := None\<rparr>)"
    and a3: "cfg_output (testConfig\<lparr>cfg_entry := Some (JStr ''testentry''), cfg_output := None\<rparr>) = None"
    and a4: "opt_out (options default_output_module) = None"
    and a5: "servicePath (serverless default_output_module) = ''testpath''"
    by (simp_all add: default_output_module_def fixture_defs suppliedConfig_def configured_def)
  have a6: "map cfg_output (configurations (snd (validate ?h default_output_module)))
       = [Some \<lparr>out_libraryTarget = Some (JStr ''commonjs''),
                out_path = Some (JStr ''testpath/.webpack/service''),
                out_filename = Some (JStr ''[name].js''), out_others = fmempty\<rparr>]"
    by (simp add: default_output_module_def configurations_def fixture_defs validate_defs)
  have b1: "resolveEntries ?h
       (out_option_module\<lparr>webpackConfig :=
          Some (as_webpackConfig (configured (serverless out_option_module)))\<rparr>)
     = (Inr [], out_option_module\<lparr>webpackConfig :=
          Some (as_webpackConfig (configured (serverless out_option_module)))\<rparr>)"
    by (simp add: out_option_module_def fixture_defs validate_defs)
  have b2: "suppliedConfig ?h (serverless out_option_module) = Some partial_output_config"
    and b3: "cfg_output partial_output_config = Some partial_output"
    and b4: "\<not> isEmpty_output partial_output"
    and b5: "opt_out (options out_option_module) = Some ''testdir''"
    by (simp_all add: out_option_module_def partial_output_config_def partial_output_def
        fixture_defs suppliedConfig_def configured_def isEmpty_output_def)
  have b6: "map cfg_output (configurations (snd (validate ?h out_option_module)))
       = [Some \<lparr>out_libraryTarget = None,
                out_path = Some (JStr ''testpath/testdir/service''),
                out_filename = Some (JStr ''filename''), out_others = fmempty\<rparr>]"
    by (simp add: out_option_module_def partial_output_config_def partial_output_def
        configurations_def fixture_defs validate_defs)
  have c1: "resolveEntries ?h
       (path_only_module\<lparr>webpackConfig :=
          Some (as_webpackConfig (configured (serverless path_only_module)))\<rparr>)
     = (Inr [], path_only_module\<lparr>webpackConfig :=
          Some (as_webpackConfig (configured (serverless path_only_module)))\<rparr>)"
    by (simp add: path_only_module_def fixture_defs validate_defs)
  have c2: "suppliedConfig ?h (serverless path_only_module)
       = Some (partial_output_config\<lparr>cfg_output := Some path_only_output\<rparr>)"
    and c3: "\<not> isEmpty_output path_only_output"
    and c4: "opt_out (options path_only_module) = None"
    by (simp_all add: path_only_module_def path_only_output_def
        fixture_defs suppliedConfig_def configured_def isEmpty_output_def)
  have c5: "map cfg_output (configurations (snd (validate ?h path_only_module)))
       = [Some \<lparr>out_libraryTarget = None, out_path = Some (JStr ''test/service''),
                out_filename = None, out_others = fmempty\<rparr>]"
    by (simp add: path_only_module_def path_only_output_def partial_output_config_def
        configurations_def fixture_defs validate_defs)
  have d1: "resolveEntries ?h
       (pathless_module\<lparr>webpackConfig :=
          Some (as_webpackConfig (configured (serverless pathless_module)))\<rparr>)
     = (Inr [], pathless_module\<lparr>webpackConfig :=
          Some (as_webpackConfig (configured (serverless pathless_module)))\<rparr>)"
    by (simp add: pathless_module_def fixture_defs validate_defs)
  have d2: "suppliedConfig ?h (serverless pathless_module)
       = Some (partial_output_config\<lparr>cfg_output := Some pathless_output\<rparr>)"
    and d3: "\<not> isEmpty_output pathless_output"
    and d4: "opt_out (options pathless_module) = None"
    and d5: "\<not> package_individually (serverless pathless_module)"
    by (simp_all add: pathless_module_def pathless_output_def
        fixture_defs suppliedConfig_def configured_def isEmpty_output_def)
  have d6: "map cfg_output (configurations (snd (validate ?h pathless_module)))
       = [Some \<lparr>out_libraryTarget = None, out_path = None,
                out_filename = Some (JStr ''filename''), out_others = fmempty\<rparr>]"
    by (simp add: pathless_module_def pathless_output_def partial_output_config_def
        configurations_def fixture_defs validate_defs)
  have np: "\<not> package_individually (serverless default_output_module)"
    "\<not> package_individually (serverless out_option_module)"
    "\<not> package_individually (serverless path_only_module)"
    by (simp_all add: default_output_module_def out_option_module_def path_only_module_def
        fixture_defs)
  have pc: "path_join ''testpath'' ''.webpack'' = ''testpath/.webpack''"
    "path_join ''testpath'' ''testdir'' = ''testpath/testdir''"
    by (simp_all add: path_join_def normalize_def isAbsolute_def)
  have sp: "servicePath (serverless out_option_module) = ''testpath''"
    by (simp add: out_option_module_def fixture_defs)
  have o: "cfg_output (partial_output_config\<lparr>cfg_output := Some path_only_output\<rparr>) = Some path_only_output"
    "cfg_output (partial_output_config\<lparr>cfg_output := Some pathless_output\<rparr>) = Some pathless_output"
    by simp_all
  have po: "out_path partial_output = Some (JStr ''originalpath'')"
    "out_path path_only_output = Some (JStr ''test'')" "out_path pathless_output = None"
    by (simp_all add: partial_output_def path_only_output_def pathless_output_def)
  note A = C9_output_defaulting[OF a1 a2 prod.collapse[symmetric]]
  note B = C9_output_defaulting[OF b1 b2 prod.collapse[symmetric]]
  note C = C9_output_defaulting[OF c1 c2 prod.collapse[symmetric]]
  note D = C9_output_defaulting[OF d1 d2 prod.collapse[symmetric]]
  have A': "webpackOutputPath (snd (validate ?h default_output_module)) = Some (JStr ''testpath/.webpack'')"
    "fst (validate ?h default_output_module) = Resolved"
    using A a3 a4 a5 np pc by simp_all
  have B': "webpackOutputPath (snd (validate ?h out_option_module)) = Some (JStr ''testpath/testdir'')"
    "fst (validate ?h out_option_module) = Resolved"
    using B b3 b4 b5 sp np pc by simp_all
  have C': "webpackOutputPath (snd (validate ?h path_only_module)) = Some (JStr ''test'')"
    "fst (validate ?h path_only_module) = Resolved"
    using C o c3 c4 np po by simp_all
  have D': "webpackOutputPath (snd (validate ?h pathless_module)) = None"
    "fst (validate ?h pathless_module) = Thrown Type_error"
    using D o d3 d4 d5 po by simp_all
  from a1 a2 a3 a4 a5 a6 A' b1 b2 b3 b4 b5 b6 B' c1 c2 c3 c4 c5 C' d1 d2 d3 d4 d5 d6 D'
  show ?thesis by simp
qed

section \<open>The entries and their order\<close>

lemma map_fst_assign:
  "map fst (assign es k v) = (if k \<in> set (map fst es) then map fst es else map fst es @ [k])"
  by (induction es) auto

lemma assign_fresh:
  "k \<notin> set (map fst es) \<Longrightarrow> assign es k v = es @ [(k, v)]"
  by (induction es) auto

lemma distinct_assign:
  "distinct (map fst es) \<Longrightarrow> distinct (map fst (assign es k v))"
  by (simp add: map_fst_assign)

lemma distinct_merge:
  "distinct (map fst es) \<Longrightarrow> distinct (map fst (merge es entry))"
  by (induction es entry rule: merge.induct) (simp_all add: distinct_assign)

lemma forEach_function_distinct:
  "forEach_function h ns es this = (Inr es', t) \<Longrightarrow> distinct (map fst es) \<Longrightarrow> distinct (map fst es')"
proof (induction ns arbitrary: es this)
  case Nil
  then show ?case by simp
next
  case (Cons n ns)
  from Cons.prems(1) obtain f where f: "getFunction (serverless this) n = Inr f"
    by (cases "getFunction (serverless this) n") auto
  from Cons.prems(1) f obtain entry t' where
    g: "getEntryForFunction h this n f = Inr (entry, t')"
    by (cases "getEntryForFunction h this n f") auto
  from Cons.prems(1) f g have "forEach_function h ns (merge es entry) t' = (Inr es', t)"
    by simp
  from Cons.IH[OF this] Cons.prems(2) show ?case
    by (simp add: distinct_merge)
qed

lemma resolveEntries_distinct:
  "resolveEntries h this = (Inr es, t) \<Longrightarrow> distinct (map fst es)"
  unfolding resolveEntries_forEach by (drule forEach_function_distinct) simp_all

lemma set_ownProperties [simp]: "set (ownProperties ps) = set ps"
  by (auto simp: ownProperties_def)

lemma distinct_ownProperties: "distinct ps \<Longrightarrow> distinct (ownProperties ps)"
  by (auto simp: ownProperties_def)

lemma ownProperties_no_index:
  "list_all (\<lambda>p. \<not> isArrayIndex (fst p)) ps \<Longrightarrow> ownProperties ps = ps"
  by (simp add: ownProperties_def list_all_iff)

lemma getAllFunctions_no_index:
  "list_all (\<lambda>(name, f). \<not> isArrayIndex name) (all_functions sls) \<Longrightarrow>
     getAllFunctions sls = map fst (all_functions sls)"
  by (simp add: getAllFunctions_def ownProperties_no_index case_prod_unfold)

section \<open>The objects of the declared functions\<close>

lemma allEntryFunctions_Inr:
  "allEntryFunctions h sls names = Inr store \<Longrightarrow>
     list_all2 (\<lambda>name b. \<exists>f hf. getFunction sls name = Inr f \<and> getHandlerFile (handler f) = Some hf
                  \<and> b = \<lparr>handlerFile = Some (relative (process_cwd h) ''.'' hf),
                          funcName = Some name, func = Some f, b_entry = None\<rparr>)
       names store"
  by (induction names arbitrary: store) (auto split: sum.splits option.splits)

lemma getFunction_Inr: "getFunction sls name = Inr f \<Longrightarrow> (name, f) \<in> set (all_functions sls)"
  by (auto simp: getFunction_def split: option.splits dest: map_of_SomeD)

lemma concat_map_single:
  assumes "distinct xs" and "x \<in> set xs" and "f x = [a]"
    and "\<And>y. y \<in> set xs \<Longrightarrow> y \<noteq> x \<Longrightarrow> f y = []"
  shows "concat (map f xs) = [a]"
  using assms
proof (induction xs)
  case Nil
  then show ?case by simp
next
  case (Cons y ys)
  show ?case
  proof (cases "y = x")
    case True
    with Cons.prems have "\<And>z. z \<in> set ys \<Longrightarrow> f z = []" by auto
    then have "concat (map f ys) = []" by simp
    with True Cons.prems(3) show ?thesis by simp
  next
    case False
    with Cons show ?thesis by auto
  qed
qed

lemma filter_list_all2:
  assumes "list_all2 R bs cs" and "\<And>b c. R b c \<Longrightarrow> Q c = P b"
  shows "list_all2 R (filter P bs) (filter Q cs)"
  using assms by (induction bs cs rule: list_all2_induct) auto

lemma singleton_entry_eq:
  "fmap_of_list [(k, JStr v)] = fmap_of_list [(k', JStr v')] \<longleftrightarrow> k = k' \<and> v = v'"
proof
  assume eq: "fmap_of_list [(k, JStr v)] = fmap_of_list [(k', JStr v')]"
  then have "fmlookup (fmap_of_list [(k, JStr v)]) k = fmlookup (fmap_of_list [(k', JStr v')]) k"
    by (simp only:)
  then show "k = k' \<and> v = v'"
    by (auto simp: fmlookup_of_list split: if_splits)
qed simp

lemma singleton_fmupd_eq:
  "fmupd k (JStr v) fmempty = fmupd k' (JStr v') fmempty \<longleftrightarrow> k = k' \<and> v = v'"
  using singleton_entry_eq[of k v k' v'] by simp

section \<open>Entries without a function\<close>

lemma nth_filter_handlerFile:
  "i \<in> set (filter_handlerFile store fl) \<Longrightarrow> i < length store \<and> handlerFile (store ! i) = Some fl"
  by (auto simp: filter_handlerFile_def)

lemma filter_handlerFile_empty:
  "(\<And>b. b \<in> set store \<Longrightarrow> handlerFile b \<noteq> Some fl) \<Longrightarrow> filter_handlerFile store fl = []"
  by (auto simp: filter_handlerFile_def filter_empty_conv)

text \<open>
  Claim C10. With individual packaging, in a pass that resolves: for an entry of the
  resolved entries whose file, relative and without its extension, is the relative
  handler file of no declared function, exactly one element of \<open>entryFunctions\<close>
  carries the entry, and it is the placeholder, without \<open>handlerFile\<close>, \<open>funcName\<close>
  or \<open>func\<close>; exactly one configuration has the entry as its \<open>entry\<close>, and its
  output path is the base output path joined with \<open>_.camelCase\<close> of the key. The
  base configuration is the supplied one with its defaults.
\<close>

theorem C10_entry_without_function:
  assumes ok: "validate h this = (Resolved, this')"
    and iso: "package_individually (serverless this)"
    and sup: "suppliedConfig h (serverless this) = Some loaded"
    and ent: "lib_entries (lib this') = Some entries"
    and mem: "(key, value) \<in> set entries"
    and fl: "entryFile h value = Some fl"
    and nomatch: "list_all (\<lambda>(name, f). case getHandlerFile (handler f) of
                                          None \<Rightarrow> True
                                        | Some hf \<Rightarrow> relative (process_cwd h) ''.'' hf \<noteq> fl)
                    (all_functions (serverless this))"
  shows "filter (\<lambda>b. b_entry b = Some (key, value)) (entryFunctions this')
           = [\<lparr>handlerFile = None, funcName = None, func = None, b_entry = Some (key, value)\<rparr>]
       \<and> (\<exists>out base.
             cfg_output (fst (defaulted (serverless this) (options this) loaded)) = Some out
             \<and> out_path out = Some (JStr base)
             \<and> filter (\<lambda>c. cfg_entry c = Some (JObj (fmap_of_list [(key, JStr value)])))
                   (configurations this')
                 = [(fst (defaulted (serverless this) (options this) loaded))
                      \<lparr>cfg_entry := Some (JObj (fmap_of_list [(key, JStr value)])),
                       cfg_output := Some (out\<lparr>out_path :=
                         Some (JStr (path_join base (camelCase h key)))\<rparr>)\<rparr>])"
proof -
  let ?cfg = "fst (defaulted (serverless this) (options this) loaded)"
  let ?out = "snd (defaulted (serverless this) (options this) loaded)"
  let ?P = "\<lambda>b. b_entry b = Some (key, value)"
  let ?Q = "\<lambda>c. cfg_entry c = Some (JObj (fmap_of_list [(key, JStr value)]))"
  from validate_Resolved[OF ok] sup obtain es this2 where
    re: "resolveEntries h (this\<lparr>webpackConfig := Some (as_webpackConfig (configured (serverless this)))\<rparr>)
           = (Inr es, this2)"
    and fin: "finalize h
               (removeOutput
                  (this2\<lparr>lib := \<lparr>lib_serverless = Some (serverless this),
                                   lib_options = Some (options this),
                                   lib_entries = Some es\<rparr>,
                          webpackConfig := Some (Config_object ?cfg)\<rparr>) ?out)
               ?cfg ?out es = (Resolved, this')"
    (is "finalize h ?S ?cfg ?out es = _")
    by auto
  have sls: "serverless ?S = serverless this"
    using resolveEntries_kept(1)[OF re] by simp
  from fin have "lib this' = lib ?S"
    using finalize_lib[of h ?S ?cfg ?out es] by simp
  with ent have es: "es = entries" by simp
  from fin iso sls have "individually h ?S ?cfg es = (Resolved, this')"
    by (simp add: finalize_def)
  from individually_Resolved[OF this] sls es obtain store cfgs where
    st: "allEntryFunctions h (serverless this) (getAllFunctions (serverless this)) = Inr store"
    and efs: "entryFunctions this'
               = map (deref (foldl (write_entry h) store (ownProperties entries)))
                   (concat (map (segment h store) (ownProperties entries)))"
    and mc: "map_compileConfig h ?cfg (entryFunctions this') = Inr cfgs"
    and w: "webpackConfig this' = Some (Config_list cfgs)"
    by auto
  let ?final = "foldl (write_entry h) store (ownProperties entries)"
  have store: "handlerFile b \<noteq> Some fl \<and> b_entry b = None" if "b \<in> set store" for b
  proof -
    from allEntryFunctions_Inr[OF st] that obtain name f hf where
      "getFunction (serverless this) name = Inr f" and hf: "getHandlerFile (handler f) = Some hf"
      and b: "b = \<lparr>handlerFile = Some (relative (process_cwd h) ''.'' hf),
                          funcName = Some name, func = Some f, b_entry = None\<rparr>"
      by (auto simp: list_all2_conv_all_nth in_set_conv_nth)
    then have "(name, f) \<in> set (all_functions (serverless this))"
      by (auto dest: getFunction_Inr)
    with nomatch hf have "relative (process_cwd h) ''.'' hf \<noteq> fl"
      by (auto simp: list_all_iff)
    with b show ?thesis by simp
  qed
  then have nohit: "filter_handlerFile store fl = []"
    by (auto intro: filter_handlerFile_empty)
  have seg: "segment h store (key, value) = [Placeholder (placeholder (key, value))]"
    by (simp add: segment_Some[OF fl] nohit)
  have dist: "distinct (ownProperties entries)"
    using resolveEntries_distinct[OF re] es
    by (auto intro: distinct_ownProperties dest: distinct_map[THEN iffD1])
  have others: "filter ?P (map (deref ?final) (segment h store e)) = []"
    if "e \<in> set (ownProperties entries)" and ne: "e \<noteq> (key, value)" for e
  proof -
    have "b_entry (deref ?final r) \<noteq> Some (key, value)" if r: "r \<in> set (segment h store e)" for r
    proof (cases r)
      case (Placeholder b)
      with r have "b = placeholder e"
        by (auto simp: segment_def split: option.splits if_splits)
      with Placeholder ne show ?thesis by (simp add: deref_def placeholder_def)
    next
      case (Shared i)
      with r obtain fl' where "i \<in> set (filter_handlerFile store fl')"
        by (auto simp: segment_def split: option.splits if_splits)
      then have i: "i < length store" by (auto dest: nth_filter_handlerFile)
      then have init: "b_entry (store ! i) = None" and miss: "handlerFile (store ! i) \<noteq> Some fl"
        using store[of "store ! i"] by simp_all
      show ?thesis
      proof
        assume "b_entry (deref ?final r) = Some (key, value)"
        with Shared have "b_entry (?final ! i) = Some (key, value)" by (simp add: deref_def)
        from b_entry_foldl_written[OF i this init] fl miss show False by simp
      qed
    qed
    then show ?thesis by (simp add: filter_empty_conv)
  qed
  have "filter ?P (entryFunctions this')
        = concat (map (\<lambda>e. filter ?P (map (deref ?final) (segment h store e))) (ownProperties entries))"
    by (simp add: efs map_concat filter_concat comp_def)
  also have "\<dots> = [placeholder (key, value)]"
  proof (rule concat_map_single[OF dist])
    show "(key, value) \<in> set (ownProperties entries)" using mem by simp
    show "filter ?P (map (deref ?final) (segment h store (key, value))) = [placeholder (key, value)]"
      by (simp add: seg deref_def placeholder_def)
  qed (rule others)
  finally have bindings: "filter ?P (entryFunctions this') = [placeholder (key, value)]" .
  have "list_all2 (\<lambda>b c. compileConfig h ?cfg b = Inr c) (filter ?P (entryFunctions this')) (filter ?Q cfgs)"
  proof (rule filter_list_all2[OF map_compileConfig_Inr[OF mc]])
    fix b c assume "compileConfig h ?cfg b = Inr c"
    from compileConfig_Inr[OF this defaulted_output] show "?Q c = ?P b"
      by (auto simp: singleton_fmupd_eq)
  qed
  with bindings obtain c where c: "filter ?Q cfgs = [c]"
    and cc: "compileConfig h ?cfg (placeholder (key, value)) = Inr c"
    by (auto simp: list_all2_Cons1)
  from compileConfig_Inr[OF cc defaulted_output] obtain base where
    "out_path ?out = Some (JStr base)"
    and "c = ?cfg\<lparr>cfg_entry := Some (JObj (fmap_of_list [(key, JStr value)])),
                  cfg_output := Some (?out\<lparr>out_path :=
                    Some (JStr (path_join base (camelCase h key)))\<rparr>)\<rparr>"
    by (auto simp: placeholder_def compileName_def)
  with c w bindings show ?thesis
    by (auto simp: configurations_def placeholder_def)
qed

lemmas camel_defs = camel_host_def camelCase_lower_def capitalize_def is_lower_def is_digit_def

theorem C10_entry_without_function_witness:
  "validate camel_host absolute_module = (Resolved, snd (validate camel_host absolute_module))
   \<and> package_individually (serverless absolute_module)
   \<and> suppliedConfig camel_host (serverless absolute_module) = Some testConfig
   \<and> lib_entries (lib (snd (validate camel_host absolute_module)))
       = Some [(''/opt/handlers/module1'', ''.//opt/handlers/module1.js'')]
   \<and> (''/opt/handlers/module1'', ''.//opt/handlers/module1.js'')
       \<in> set [(''/opt/handlers/module1'', ''.//opt/handlers/module1.js'')]
   \<and> entryFile camel_host ''.//opt/handlers/module1.js'' = Some ''opt/handlers/module1''
   \<and> getHandlerFile ''/opt/handlers/module1.handler'' = Some ''/opt/handlers/module1''
   \<and> relative (process_cwd camel_host) ''.'' ''/opt/handlers/module1'' = ''../../opt/handlers/module1''
   \<and> list_all (\<lambda>(name, f). case getHandlerFile (handler f) of
                                  None \<Rightarrow> True
                                | Some hf \<Rightarrow> relative (process_cwd camel_host) ''.'' hf
                                            \<noteq> ''opt/handlers/module1'')
         (all_functions (serverless absolute_module))
   \<and> filter (\<lambda>b. b_entry b = Some (''/opt/handlers/module1'', ''.//opt/handlers/module1.js''))
         (entryFunctions (snd (validate camel_host absolute_module)))
       = [\<lparr>handlerFile = None, funcName = None, func = None,
           b_entry = Some (''/opt/handlers/module1'', ''.//opt/handlers/module1.js'')\<rparr>]
   \<and> map cfg_output (configurations (snd (validate camel_host absolute_module)))
       = [Some \<lparr>out_libraryTarget = None, out_path = Some (JStr ''output/optHandlersModule1''),
                out_filename = None, out_others = fmempty\<rparr>]
   \<and> camelCase camel_host ''/opt/handlers/module1'' = ''optHandlersModule1''"
proof -
  have ok: "validate camel_host absolute_module = (Resolved, snd (validate camel_host absolute_module))"
    by (simp add: absolute_module_def camel_defs fixture_defs validate_defs individually_defs)
  have iso: "package_individually (serverless absolute_module)"
    and sup: "suppliedConfig camel_host (serverless absolute_module) = Some testConfig"
    by (simp_all add: absolute_module_def camel_host_def fixture_defs suppliedConfig_def configured_def)
  have ent: "lib_entries (lib (snd (validate camel_host absolute_module)))
       = Some [(''/opt/handlers/module1'', ''.//opt/handlers/module1.js'')]"
    by (simp add: absolute_module_def camel_defs fixture_defs validate_defs individually_defs)
  have mem: "(''/opt/handlers/module1'', ''.//opt/handlers/module1.js'')
       \<in> set [(''/opt/handlers/module1'', ''.//opt/handlers/module1.js'')]"
    by simp
  have fl: "entryFile camel_host ''.//opt/handlers/module1.js'' = Some ''opt/handlers/module1''"
    by (simp add: camel_host_def test_host_def entryFile_def relative_def resolve_def
        stripExtension_def syntaxCharacter_def line_terminator_def extname_def basename_part_def
        isAbsolute_def Let_def)
  have hf: "getHandlerFile ''/opt/handlers/module1.handler'' = Some ''/opt/handlers/module1''"
    by (simp add: getHandlerFile_def line_terminator_def)
  have rel: "relative (process_cwd camel_host) ''.'' ''/opt/handlers/module1'' = ''../../opt/handlers/module1''"
    by (simp add: camel_host_def test_host_def relative_def resolve_def isAbsolute_def)
  have nomatch: "list_all (\<lambda>(name, f). case getHandlerFile (handler f) of
                                  None \<Rightarrow> True
                                | Some hf \<Rightarrow> relative (process_cwd camel_host) ''.'' hf
                                            \<noteq> ''opt/handlers/module1'')
         (all_functions (serverless absolute_module))"
    by (simp add: absolute_module_def fixture_defs hf rel)
  have cfgs: "map cfg_output (configurations (snd (validate camel_host absolute_module)))
       = [Some \<lparr>out_libraryTarget = None, out_path = Some (JStr ''output/optHandlersModule1''),
                out_filename = None, out_others = fmempty\<rparr>]"
    by (simp add: absolute_module_def configurations_def camel_defs fixture_defs validate_defs
        individually_defs)
  have camel: "camelCase camel_host ''/opt/handlers/module1'' = ''optHandlersModule1''"
    by (simp add: camel_defs)
  from C10_entry_without_function[OF ok iso sup ent mem fl nomatch]
  have "filter (\<lambda>b. b_entry b = Some (''/opt/handlers/module1'', ''.//opt/handlers/module1.js''))
         (entryFunctions (snd (validate camel_host absolute_module)))
       = [\<lparr>handlerFile = None, funcName = None, func = None,
           b_entry = Some (''/opt/handlers/module1'', ''.//opt/handlers/module1.js'')\<rparr>]"
    by simp
  with ok iso sup ent mem fl hf rel nomatch cfgs camel show ?thesis
    by simp
qed

section \<open>Plain paths\<close>

text \<open>
  A base path whose segments are all ordinary names (none empty, none \<open>.\<close> or
  \<open>..\<close>) is a fixed point of \<open>path.relative('.', _)\<close>, and the file made of
  \<open>./\<close>, such a base path, a dot and an extension free of separators, of pattern syntax
  and of line terminators gives that base path back once made relative and stripped of
  its extension. For handlers and files of this shape the relative base paths are
  distinct as soon as the base paths are, and every resolved file matches its key.
\<close>

lemma splitOn_nonempty [simp]: "splitOn c s \<noteq> []"
  by (induction s) (auto split: list.splits)

lemma splitOn_no_separator: "x \<in> set (splitOn c s) \<Longrightarrow> c \<notin> set x"
  by (induction s arbitrary: x) (auto split: list.splits if_splits)

lemma joinWith_splitOn: "joinWith c (splitOn c s) = s"
  by (induction s) (auto split: list.splits)

lemma splitOn_append_separator: "splitOn c (xs @ c # ys) = splitOn c xs @ splitOn c ys"
  by (induction xs) (auto split: list.splits)

lemma splitOn_append_segment:
  "c \<notin> set ys \<Longrightarrow> splitOn c (xs @ ys) = butlast (splitOn c xs) @ [last (splitOn c xs) @ ys]"
proof (induction xs)
  case Nil
  then show ?case by (induction ys) (auto split: list.splits)
next
  case (Cons x xs)
  then show ?case by (auto split: list.splits)
qed

lemma splitOn_single_empty: "splitOn c s = [[]] \<longleftrightarrow> s = []"
  by (cases s) (auto split: list.splits)

lemma splitOn_last_empty: "last (splitOn c s) = [] \<longleftrightarrow> s = [] \<or> last s = c"
  by (induction s) (auto simp: splitOn_single_empty split: list.splits)

lemma normalizeString_append:
  "normalizeString a res (xs @ ys) = normalizeString a (rev (normalizeString a res xs)) ys"
  by (induction a res xs rule: normalizeString.induct) (auto split: list.splits)

lemma normalizeString_plain:
  "list_all plain_segment ss \<Longrightarrow> normalizeString a res ss = rev res @ ss"
  by (induction ss arbitrary: res) (auto simp: plain_segment_def)

lemma dropCommon_prefix: "dropCommon xs (xs @ ys) = ([], ys)"
proof (induction xs)
  case Nil
  then show ?case by (cases ys) auto
qed auto

lemma plain_path_shape:
  assumes "plain_path b"
  shows "b \<noteq> []" and "last b \<noteq> CHR ''/''" and "\<not> isAbsolute b" and "b \<noteq> ''.''"
proof -
  from assms have all: "list_all plain_segment (splitOn CHR ''/'' b)"
    by (simp add: plain_path_def)
  then have "plain_segment (last (splitOn CHR ''/'' b))"
    by (simp add: list_all_iff)
  then have "last (splitOn CHR ''/'' b) \<noteq> []"
    by (simp add: plain_segment_def)
  then show "b \<noteq> []" and "last b \<noteq> CHR ''/''"
    by (simp_all add: splitOn_last_empty)
  from all have "plain_segment (hd (splitOn CHR ''/'' b))"
    by (simp add: list_all_iff)
  then show "\<not> isAbsolute b"
    by (cases b) (auto simp: isAbsolute_def plain_segment_def split: list.splits)
  from all show "b \<noteq> ''.''"
    by (auto simp: plain_segment_def)
qed

lemma resolve_dot:
  "resolve cwd ''.'' = normalizeString False [] (splitOn CHR ''/'' cwd)"
proof -
  have "splitOn CHR ''/'' (cwd @ ''/'' @ ''.'') = splitOn CHR ''/'' cwd @ [''.'']"
    using splitOn_append_separator[of "CHR ''/''" cwd "''.''"] by simp
  then show ?thesis
    by (simp add: resolve_def isAbsolute_def normalizeString_append)
qed

lemma resolve_plain:
  assumes "list_all plain_segment (splitOn CHR ''/'' p)" and "\<not> isAbsolute p" and "p \<noteq> []"
  shows "resolve cwd p = resolve cwd ''.'' @ splitOn CHR ''/'' p"
proof -
  have "splitOn CHR ''/'' (cwd @ ''/'' @ p) = splitOn CHR ''/'' cwd @ splitOn CHR ''/'' p"
    using splitOn_append_separator[of "CHR ''/''" cwd p] by simp
  with assms show ?thesis
    by (simp add: resolve_def resolve_dot[unfolded resolve_def] normalizeString_append
        normalizeString_plain)
qed

lemma relative_plain:
  assumes "plain_path b"
  shows "relative cwd ''.'' b = b"
proof -
  from assms have all: "list_all plain_segment (splitOn CHR ''/'' b)"
    by (simp add: plain_path_def)
  from resolve_plain[OF all plain_path_shape(3)[OF assms] plain_path_shape(1)[OF assms]]
  have "resolve cwd b = resolve cwd ''.'' @ splitOn CHR ''/'' b" .
  then show ?thesis
    using plain_path_shape(4)[OF assms]
    by (auto simp: relative_def dropCommon_prefix joinWith_splitOn)
qed

lemma joinWith_append_last:
  "ss \<noteq> [] \<Longrightarrow> joinWith c (butlast ss @ [last ss @ x]) = joinWith c ss @ x"
  by (induction ss) (auto)

lemma plain_segment_append:
  assumes "plain_segment s"
  shows "plain_segment (s @ x)"
proof (cases x)
  case Nil
  with assms show ?thesis by simp
next
  case (Cons a as)
  from assms have "s \<noteq> []" and "s \<noteq> ''.''" and "s \<noteq> ''..''"
    by (simp_all add: plain_segment_def)
  then have "s @ x \<noteq> ''..''" and "s @ x \<noteq> ''.''" and "s @ x \<noteq> []"
    using Cons by (cases s; cases "tl s"; auto)+
  then show ?thesis
    by (simp add: plain_segment_def)
qed

lemma resolve_dot_slash:
  assumes ts: "list_all plain_segment ts" and split: "splitOn CHR ''/'' p = ts"
  shows "resolve cwd (''./'' @ p) = resolve cwd ''.'' @ ts"
proof -
  have "splitOn CHR ''/'' (cwd @ ''/'' @ ''./'' @ p)
        = (splitOn CHR ''/'' cwd @ [''.'']) @ ts"
    using splitOn_append_separator[of "CHR ''/''" cwd "''./'' @ p"]
      splitOn_append_separator[of "CHR ''/''" "''.''" p] split
    by simp
  then have "resolve cwd (''./'' @ p)
        = normalizeString False [] ((splitOn CHR ''/'' cwd @ [''.'']) @ ts)"
    by (simp add: resolve_def isAbsolute_def)
  also have "\<dots> = normalizeString False [] (splitOn CHR ''/'' cwd @ [''.'']) @ ts"
    by (subst normalizeString_append) (simp only: normalizeString_plain[OF ts] rev_rev_ident)
  also have "normalizeString False [] (splitOn CHR ''/'' cwd @ [''.'']) = resolve cwd ''.''"
    by (simp add: resolve_dot normalizeString_append)
  finally show ?thesis .
qed

lemma relative_plain_file:
  assumes b: "plain_path b" and x: "CHR ''/'' \<notin> set x"
  shows "relative cwd ''.'' (''./'' @ b @ x) = b @ x"
proof -
  let ?ss = "splitOn CHR ''/'' b"
  let ?ts = "butlast ?ss @ [last ?ss @ x]"
  from b have all: "list_all plain_segment ?ss"
    by (simp add: plain_path_def)
  then have "list_all plain_segment (butlast ?ss)" and "plain_segment (last ?ss)"
    by (auto simp: list_all_iff dest: in_set_butlastD)
  then have ts: "list_all plain_segment ?ts"
    by (simp add: plain_segment_append)
  have split: "splitOn CHR ''/'' (b @ x) = ?ts"
    using x by (rule splitOn_append_segment)
  have "resolve cwd (''./'' @ b @ x) = resolve cwd ''.'' @ ?ts"
    by (rule resolve_dot_slash[OF ts split])
  then have "relative cwd ''.'' (''./'' @ b @ x) = joinWith CHR ''/'' ?ts"
    by (simp add: relative_def dropCommon_prefix)
  then show ?thesis
    by (simp add: joinWith_append_last joinWith_splitOn)
qed

lemma stripExtension_plain:
  assumes b: "plain_path b" and e: "plain_extension e"
  shows "stripExtension h (b @ CHR ''.'' # e) = Some b"
proof -
  from e have ne: "e \<noteq> []" and chars: "\<forall>c \<in> set e. c \<noteq> CHR ''/'' \<and> \<not> syntaxCharacter c \<and> \<not> line_terminator c"
    by (simp_all add: plain_extension_def list_all_iff)
  then have "CHR ''.'' \<notin> set e" and "CHR ''/'' \<notin> set e"
    by (auto simp: syntaxCharacter_def)
  from extname_append[OF plain_path_shape(1,2)[OF b] ne this]
  have ext: "extname (b @ CHR ''.'' # e) = CHR ''.'' # e" .
  show ?thesis
    using chars by (simp add: stripExtension_def ext Let_def line_terminator_def)
qed

lemma entryFile_plain:
  assumes "plain_path b" and "plain_extension e"
  shows "entryFile h (''./'' @ b @ CHR ''.'' # e) = Some b"
proof -
  from assms(2) have "CHR ''/'' \<notin> set (CHR ''.'' # e)"
    by (auto simp: plain_extension_def list_all_iff)
  from relative_plain_file[OF assms(1) this]
  show ?thesis
    by (simp add: entryFile_def stripExtension_plain[OF assms])
qed

lemma entryFile_plain_match:
  assumes "plain_path b" and "plain_extension e"
  shows "entryFile h (''./'' @ b @ CHR ''.'' # e) = Some (relative (process_cwd h) ''.'' b)"
  by (simp only: entryFile_plain[OF assms] relative_plain[OF assms(1)])

section \<open>One configuration for every function\<close>

lemma getEntryForFunction_entry:
  assumes "getEntryForFunction h this n f = Inr (entry, t)"
    and "getHandlerFile (handler f) = Some b" and "b \<noteq> []"
  shows "\<exists>v. entry = [(b, v)]"
  using assms by (auto simp: getEntryForFunction_def Let_def split: sum.splits)

lemma forEach_function_keys:
  assumes "forEach_function h names es this = (Inr es', t)"
    and "list_all2 (\<lambda>n b. \<exists>f. getFunction (serverless this) n = Inr f
                          \<and> getHandlerFile (handler f) = Some b \<and> b \<noteq> []) names bs"
    and "distinct (map fst es @ bs)"
  shows "map fst es' = map fst es @ bs"
  using assms
proof (induction names arbitrary: es this bs)
  case Nil
  then show ?case by simp
next
  case (Cons n names)
  from Cons.prems(2) obtain b bs' where bs: "bs = b # bs'"
    and rest: "list_all2 (\<lambda>n b. \<exists>f. getFunction (serverless this) n = Inr f
                          \<and> getHandlerFile (handler f) = Some b \<and> b \<noteq> []) names bs'"
    and "\<exists>f. getFunction (serverless this) n = Inr f
                          \<and> getHandlerFile (handler f) = Some b \<and> b \<noteq> []"
    by (auto simp: list_all2_Cons1)
  then obtain f where f: "getFunction (serverless this) n = Inr f"
    and b: "getHandlerFile (handler f) = Some b" "b \<noteq> []" by blast
  from Cons.prems(1) f obtain entry t' where
    g: "getEntryForFunction h this n f = Inr (entry, t')"
    by (cases "getEntryForFunction h this n f") auto
  from getEntryForFunction_entry[OF g b] obtain v where entry: "entry = [(b, v)]" ..
  have "serverless t' = serverless this"
    by (subst getEntryForFunction_state[OF g]) simp
  with rest have rest': "list_all2 (\<lambda>n b. \<exists>f. getFunction (serverless t') n = Inr f
                          \<and> getHandlerFile (handler f) = Some b \<and> b \<noteq> []) names bs'"
    by simp
  from Cons.prems(3) bs have fresh: "b \<notin> set (map fst es)" by auto
  then have m: "merge es entry = es @ [(b, v)]"
    by (simp add: entry assign_fresh)
  from Cons.prems(1) f g have "forEach_function h names (merge es entry) t' = (Inr es', t)"
    by simp
  from Cons.IH[OF this rest'] Cons.prems(3) bs m show ?case
    by simp
qed

lemma getFunction_distinct:
  "distinct (map fst (all_functions sls)) \<Longrightarrow> (n, f) \<in> set (all_functions sls) \<Longrightarrow>
     getFunction sls n = Inr f"
  by (simp add: getFunction_def)

text \<open>The object made for a declared function, by its name, itself and its handler file.\<close>

lemma allEntryFunctions_total:
  "list_all2 (\<lambda>n (f, b). getFunction sls n = Inr f \<and> getHandlerFile (handler f) = Some b) names fbs \<Longrightarrow>
     allEntryFunctions h sls names
       = Inr (map (\<lambda>(n, f, b). \<lparr>handlerFile = Some (relative (process_cwd h) ''.'' b),
                                  funcName = Some n, func = Some f, b_entry = None\<rparr>)
                (zip names fbs))"
  by (induction names fbs rule: list_all2_induct) auto

lemma filter_upt_eq: "i < n \<Longrightarrow> filter (\<lambda>j. j = i) [0..<n] = [i]"
  by (induction n) (auto simp: less_Suc_eq)

lemma filter_handlerFile_unique:
  assumes "i < length store" and "handlerFile (store ! i) = Some fl"
    and "\<And>j. j < length store \<Longrightarrow> handlerFile (store ! j) = Some fl \<Longrightarrow> j = i"
  shows "filter_handlerFile store fl = [i]"
proof -
  have "filter (\<lambda>j. handlerFile (store ! j) = Some fl) [0..<length store]
        = filter (\<lambda>j. j = i) [0..<length store]"
  proof (rule filter_cong[OF refl])
    fix j assume "j \<in> set [0..<length store]"
    then have "j < length store" by simp
    with assms(2) assms(3)[of j] show "(handlerFile (store ! j) = Some fl) = (j = i)"
      by blast
  qed
  with assms(1) show ?thesis
    by (simp add: filter_handlerFile_def filter_upt_eq)
qed

lemma compileConfig_named:
  assumes "b_entry b = Some (k, v)" and "funcName b = Some n" and "n \<noteq> []"
    and "cfg_output cfg = Some out" and "out_path out = Some (JStr base)"
  shows "compileConfig h cfg b
         = Inr (cfg\<lparr>cfg_entry := Some (JObj (fmap_of_list [(k, JStr v)])),
                    cfg_output := Some (out\<lparr>out_path := Some (JStr (path_join base n))\<rparr>)\<rparr>)"
  using assms
  by (simp add: compileConfig_def cloneDeep_def compileName_def join_checked_def)

lemma individually_total:
  assumes "\<not> (truthy_opt (cfg_entry cfg) \<and> \<not> isEqual (cfg_entry cfg) (Some (entries_object entries)))"
    and "allEntryFunctions h (serverless this) (getAllFunctions (serverless this)) = Inr store"
    and "flatMap_entries h (ownProperties entries) store = Inr (final, refs)"
    and "map_compileConfig h cfg (map (deref final) refs) = Inr cfgs"
  shows "\<exists>this'. individually h this cfg entries = (Resolved, this')
           \<and> webpackConfig this' = Some (Config_list cfgs)
           \<and> entryFunctions this' = map (deref final) refs
           \<and> lib this' = lib this"
  using assms by (auto simp: individually_def Let_def)

text \<open>
  Claim C3, as the code has it. With individual packaging and no function selected, let
  the declared functions have distinct, non-empty names, none of them a canonical array
  index, and handlers that parse to non-empty base paths \<open>bs\<close>, pairwise distinct when
  made relative to the working directory, none of them a canonical array index either;
  let the entries resolve, and let line 176 give back, for each resolved file, the relative
  base path of its key: the file made relative to the working directory, with its
  extension removed by the pattern built from that extension (lemma
  \<open>entryFile_plain_match\<close> shows that it does, for a base path of ordinary segments and
  an extension without a character of pattern syntax); let the configuration declare no
  conflicting \<open>entry\<close> and have a string as its output path \<open>base\<close> after defaulting.
  Then the pass resolves with one configuration for every function, in the order of
  declaration: the \<open>i\<close>-th configuration is the defaulted base configuration with its
  \<open>entry\<close> replaced by the one entry of the \<open>i\<close>-th function and its output path
  replaced by \<open>base\<close> joined with the name of that function. Every other field is the
  one of the base configuration. The claim is the instance of four functions.
\<close>

theorem C3_one_configuration_per_function:
  assumes iso: "package_individually (serverless this)"
    and all: "\<not> truthy_string (opt_function (options this))"
    and names: "distinct (map fst (all_functions (serverless this)))"
    and named: "list_all (\<lambda>(name, f). name \<noteq> []) (all_functions (serverless this))"
    and nameidx: "list_all (\<lambda>(name, f). \<not> isArrayIndex name) (all_functions (serverless this))"
    and bases: "map (\<lambda>(name, f). getHandlerFile (handler f)) (all_functions (serverless this))
                = map Some bs"
    and nonempty: "list_all (\<lambda>b. b \<noteq> []) bs"
    and dist: "distinct (map (relative (process_cwd h) ''.'') bs)"
    and noidx: "list_all (\<lambda>b. \<not> isArrayIndex b) bs"
    and re: "resolveEntries h (this\<lparr>webpackConfig := Some (as_webpackConfig (configured (serverless this)))\<rparr>)
               = (Inr entries, this2)"
    and match: "list_all (\<lambda>(k, v). entryFile h v = Some (relative (process_cwd h) ''.'' k)) entries"
    and sup: "suppliedConfig h (serverless this) = Some loaded"
    and entry: "\<not> (truthy_opt (cfg_entry loaded)
                    \<and> \<not> isEqual (cfg_entry loaded) (Some (entries_object entries)))"
    and outp: "out_path (snd (defaulted (serverless this) (options this) loaded)) = Some (JStr base)"
  shows "\<exists>this'. validate h this = (Resolved, this')
           \<and> lib_entries (lib this') = Some entries
           \<and> map fst entries = bs
           \<and> length (configurations this') = length (all_functions (serverless this))
           \<and> (\<forall>i < length (all_functions (serverless this)).
                 configurations this' ! i
                 = (fst (defaulted (serverless this) (options this) loaded))
                     \<lparr>cfg_entry := Some (JObj (fmap_of_list [(bs ! i, JStr (snd (entries ! i)))])),
                      cfg_output := Some ((snd (defaulted (serverless this) (options this) loaded))
                        \<lparr>out_path := Some (JStr (path_join base
                                       (fst (all_functions (serverless this) ! i))))\<rparr>)\<rparr>)"
proof -
  let ?sls = "serverless this"
  let ?fns = "all_functions ?sls"
  let ?n = "length ?fns"
  let ?this1 = "this\<lparr>webpackConfig := Some (as_webpackConfig (configured ?sls))\<rparr>"
  let ?cfg = "fst (defaulted ?sls (options this) loaded)"
  let ?out = "snd (defaulted ?sls (options this) loaded)"
  let ?rel = "relative (process_cwd h) ''.''"
  have len_bs: "length bs = ?n"
    using bases by (metis length_map)
  have fb: "getHandlerFile (handler (snd (?fns ! i))) = Some (bs ! i)" if "i < ?n" for i
  proof -
    have "map (\<lambda>(name, f). getHandlerFile (handler f)) ?fns ! i = map Some bs ! i"
      by (simp only: bases)
    with that len_bs show ?thesis by (simp add: case_prod_unfold)
  qed
  have gf: "getFunction ?sls (fst (?fns ! i)) = Inr (snd (?fns ! i))" if "i < ?n" for i
    using that by (intro getFunction_distinct[OF names]) simp
  have nm: "fst (?fns ! i) \<noteq> []" if "i < ?n" for i
    using named that by (auto simp: list_all_length case_prod_unfold)
  have ne: "bs ! i \<noteq> []" if "i < ?n" for i
    using nonempty that len_bs by (simp add: list_all_length)
  have gaf: "getAllFunctions ?sls = map fst ?fns"
    using nameidx by (rule getAllFunctions_no_index)
  have sel: "selectedFunctions ?this1 = map fst ?fns"
    using all by (auto simp: selectedFunctions_def truthy_string_def gaf
        split: option.splits)
  have l2: "list_all2 (\<lambda>n b. \<exists>f. getFunction (serverless ?this1) n = Inr f
                          \<and> getHandlerFile (handler f) = Some b \<and> b \<noteq> []) (map fst ?fns) bs"
    using gf fb ne len_bs by (auto simp: list_all2_conv_all_nth)
  from re have "forEach_function h (map fst ?fns) [] ?this1 = (Inr entries, this2)"
    by (simp add: resolveEntries_forEach sel)
  from forEach_function_keys[OF this l2] dist have keys: "map fst entries = bs"
    by (simp add: distinct_map)
  then have len_es: "length entries = ?n"
    using len_bs by (metis length_map)
  have key: "fst (entries ! i) = bs ! i" if "i < ?n" for i
    using keys that len_es by (metis nth_map)
  have own: "ownProperties entries = entries"
  proof (rule ownProperties_no_index)
    from noidx keys show "list_all (\<lambda>p. \<not> isArrayIndex (fst p)) entries"
      by (fastforce simp: list_all_iff)
  qed
  let ?store = "map (\<lambda>(n, f, b). \<lparr>handlerFile = Some (?rel b), funcName = Some n,
                                     func = Some f, b_entry = None\<rparr>)
                  (zip (map fst ?fns) (zip (map snd ?fns) bs))"
  have "list_all2 (\<lambda>n (f, b). getFunction ?sls n = Inr f \<and> getHandlerFile (handler f) = Some b)
          (map fst ?fns) (zip (map snd ?fns) bs)"
    using gf fb len_bs by (auto simp: list_all2_conv_all_nth)
  from allEntryFunctions_total[OF this]
  have st: "allEntryFunctions h ?sls (getAllFunctions ?sls) = Inr ?store"
    by (simp add: gaf)
  have store_len: "length ?store = ?n"
    using len_bs by simp
  have store_nth: "?store ! i = \<lparr>handlerFile = Some (?rel (bs ! i)), funcName = Some (fst (?fns ! i)),
                                 func = Some (snd (?fns ! i)), b_entry = None\<rparr>"
    if "i < ?n" for i
    using that len_bs by simp
  have ef: "entryFile h (snd (entries ! i)) = Some (?rel (bs ! i))" if "i < ?n" for i
    using match that len_es key[OF that] by (auto simp: list_all_length case_prod_unfold)
  have rel_inj: "j = i" if "i < ?n" and "j < ?n" and "?rel (bs ! j) = ?rel (bs ! i)" for i j
    using that dist len_bs by (simp add: distinct_conv_nth) (metis)
  have files: "list_all (\<lambda>e. entryFile h (snd e) \<noteq> None) entries"
    using ef len_es by (auto simp: list_all_length)
  let ?final = "foldl (write_entry h) ?store entries"
  let ?refs = "concat (map (segment h ?store) entries)"
  have fm: "flatMap_entries h (ownProperties entries) ?store = Inr (?final, ?refs)"
    unfolding own by (rule flatMap_entries_total[OF files])
  have seg: "segment h ?store (entries ! i) = [Shared i]" if i: "i < ?n" for i
  proof -
    have "filter_handlerFile ?store (?rel (bs ! i)) = [i]"
    proof (rule filter_handlerFile_unique)
      show "i < length ?store" using i store_len by simp
      show "handlerFile (?store ! i) = Some (?rel (bs ! i))"
        by (simp only: store_nth[OF i]) simp
      fix j assume j: "j < length ?store" and "handlerFile (?store ! j) = Some (?rel (bs ! i))"
      then have "j < ?n" and "?rel (bs ! j) = ?rel (bs ! i)"
        using store_len store_nth[of j] by simp_all
      with i show "j = i" by (rule rel_inj)
    qed
    with segment_Some[OF ef[OF i], of ?store "fst (entries ! i)"] show ?thesis by simp
  qed
  have "map (segment h ?store) entries = map (\<lambda>i. [Shared i]) [0..<?n]"
    by (rule nth_equalityI) (simp_all add: len_es seg)
  then have refs: "?refs = map Shared [0..<?n]"
    by simp
  have final_len: "length ?final = ?n"
    using store_len by simp
  have final_entry: "b_entry (?final ! i) = Some (entries ! i)" if i: "i < ?n" for i
  proof (rule b_entry_foldl_unique)
    show "i < length ?store" using i store_len by simp
    show "entries ! i \<in> set entries" using i len_es by simp
    show "entryFile h (snd (entries ! i)) = handlerFile (?store ! i)"
      by (simp only: store_nth[OF i] ef[OF i]) simp
    show "handlerFile (?store ! i) \<noteq> None"
      by (simp only: store_nth[OF i]) simp
    show "\<forall>x \<in> set entries. entryFile h (snd x) = handlerFile (?store ! i) \<longrightarrow> x = entries ! i"
    proof (intro ballI impI)
      fix x assume "x \<in> set entries" and x: "entryFile h (snd x) = handlerFile (?store ! i)"
      then obtain j where j: "j < ?n" and xj: "x = entries ! j"
        using len_es by (auto simp: in_set_conv_nth)
      from x xj ef[OF j] have "?rel (bs ! j) = ?rel (bs ! i)"
        by (simp only: store_nth[OF i]) simp
      with i j have "j = i" by (rule rel_inj)
      with xj show "x = entries ! i" by simp
    qed
  qed
  have final_name: "funcName (?final ! i) = Some (fst (?fns ! i))" if i: "i < ?n" for i
  proof -
    have "map funcName ?final ! i = map funcName ?store ! i" by (simp only: foldl_write_entry_kept)
    with i final_len store_len have "funcName (?final ! i) = funcName (?store ! i)"
      by (simp only: nth_map)
    then show ?thesis by (simp only: store_nth[OF i]) simp
  qed
  have efs: "map (deref ?final) ?refs = ?final"
    unfolding refs using final_len
    by (intro nth_equalityI) (simp_all add: deref_def)
  let ?cfgs = "map (\<lambda>i. ?cfg\<lparr>cfg_entry := Some (JObj (fmap_of_list [(bs ! i, JStr (snd (entries ! i)))])),
                            cfg_output := Some (?out\<lparr>out_path :=
                              Some (JStr (path_join base (fst (?fns ! i))))\<rparr>)\<rparr>) [0..<?n]"
  have "list_all2 (\<lambda>b c. compileConfig h ?cfg b = Inr c) ?final ?cfgs"
    unfolding list_all2_conv_all_nth
  proof (intro conjI allI impI)
    show "length ?final = length ?cfgs" using final_len by simp
    fix i assume "i < length ?final"
    then have i: "i < ?n" using final_len by simp
    have e: "b_entry (?final ! i) = Some (bs ! i, snd (entries ! i))"
      using final_entry[OF i] key[OF i] by (metis prod.collapse)
    from compileConfig_named[OF e final_name[OF i] nm[OF i] defaulted_output outp, of h] i
    show "compileConfig h ?cfg (?final ! i) = Inr (?cfgs ! i)" by simp
  qed
  then have mc: "map_compileConfig h ?cfg (map (deref ?final) ?refs) = Inr ?cfgs"
    unfolding efs by (rule map_compileConfig_total)
  let ?S = "removeOutput
              (this2\<lparr>lib := \<lparr>lib_serverless = Some ?sls, lib_options = Some (options this),
                               lib_entries = Some entries\<rparr>,
                      webpackConfig := Some (Config_object ?cfg)\<rparr>) ?out"
  have sls: "serverless ?S = ?sls"
    using resolveEntries_kept(1)[OF re] by simp
  have entry': "\<not> (truthy_opt (cfg_entry ?cfg)
                    \<and> \<not> isEqual (cfg_entry ?cfg) (Some (entries_object entries)))"
    using entry by simp
  from individually_total[OF entry', of h ?S ?store ?final ?refs ?cfgs] st fm mc sls
  obtain this' where ind: "individually h ?S ?cfg entries = (Resolved, this')"
    and w: "webpackConfig this' = Some (Config_list ?cfgs)" and l: "lib this' = lib ?S"
    by auto
  have "validate h this = (Resolved, this')"
    using ind iso sls by (simp add: validate_loaded[OF re sup] finalize_def)
  moreover have "lib_entries (lib this') = Some entries"
    using l by simp
  moreover have "configurations this' = ?cfgs"
    using w by (simp add: configurations_def)
  ultimately show ?thesis
    using keys by auto
qed

theorem C3_one_configuration_per_function_witness:
  "package_individually (serverless clone_module)
   \<and> \<not> truthy_string (opt_function (options clone_module))
   \<and> distinct (map fst (all_functions (serverless clone_module)))
   \<and> list_all (\<lambda>(name, f). name \<noteq> []) (all_functions (serverless clone_module))
   \<and> list_all (\<lambda>(name, f). \<not> isArrayIndex name) (all_functions (serverless clone_module))
   \<and> map (\<lambda>(name, f). getHandlerFile (handler f)) (all_functions (serverless clone_module))
       = map Some (map fst testEntries)
   \<and> list_all (\<lambda>b. b \<noteq> []) (map fst testEntries)
   \<and> distinct (map (relative (process_cwd (test_host stub_js)) ''.'') (map fst testEntries))
   \<and> list_all (\<lambda>b. \<not> isArrayIndex b) (map fst testEntries)
   \<and> resolveEntries (test_host stub_js)
         (clone_module\<lparr>webpackConfig :=
            Some (as_webpackConfig (configured (serverless clone_module)))\<rparr>)
       = (Inr testEntries, clone_module\<lparr>webpackConfig := Some (Config_object clone_config)\<rparr>)
   \<and> list_all (\<lambda>(k, v). entryFile (test_host stub_js) v
                          = Some (relative (process_cwd (test_host stub_js)) ''.'' k)) testEntries
   \<and> suppliedConfig (test_host stub_js) (serverless clone_module) = Some clone_config
   \<and> \<not> (truthy_opt (cfg_entry clone_config)
          \<and> \<not> isEqual (cfg_entry clone_config) (Some (entries_object testEntries)))
   \<and> out_path (snd (defaulted (serverless clone_module) (options clone_module) clone_config))
       = Some (JStr ''output'')
   \<and> fst (validate (test_host stub_js) clone_module) = Resolved
   \<and> length (configurations (snd (validate (test_host stub_js) clone_module))) = 4
   \<and> map cfg_entry (configurations (snd (validate (test_host stub_js) clone_module)))
       = map (\<lambda>(k, v). Some (JObj (fmap_of_list [(k, JStr v)]))) testEntries
   \<and> map cfg_output (configurations (snd (validate (test_host stub_js) clone_module)))
       = map (\<lambda>name. Some \<lparr>out_libraryTarget = Some (JStr ''commonjs''),
                              out_path = Some (JStr (''output/'' @ name)),
                              out_filename = None, out_others = fmempty\<rparr>)
           [''func1'', ''func2'', ''func3'', ''func4'']
   \<and> map cfg_context (configurations (snd (validate (test_host stub_js) clone_module)))
       = [Some (JStr ''some context''), Some (JStr ''some context''),
          Some (JStr ''some context''), Some (JStr ''some context'')]
   \<and> map cfg_others (configurations (snd (validate (test_host stub_js) clone_module)))
       = [fmap_of_list [(''devtool'', JStr ''source-map'')], fmap_of_list [(''devtool'', JStr ''source-map'')],
          fmap_of_list [(''devtool'', JStr ''source-map'')], fmap_of_list [(''devtool'', JStr ''source-map'')]]"
proof -
  have iso: "package_individually (serverless clone_module)"
    and all: "\<not> truthy_string (opt_function (options clone_module))"
    and names: "distinct (map fst (all_functions (serverless clone_module)))"
    and named: "list_all (\<lambda>(name, f). name \<noteq> []) (all_functions (serverless clone_module))"
    and nameidx: "list_all (\<lambda>(name, f). \<not> isArrayIndex name) (all_functions (serverless clone_module))"
    by (simp_all add: clone_module_def fixture_defs truthy_string_def isArrayIndex_def)
  have bases: "map (\<lambda>(name, f). getHandlerFile (handler f)) (all_functions (serverless clone_module))
       = map Some (map fst testEntries)"
    by (simp add: clone_module_def testEntries_def fixture_defs getHandlerFile_def line_terminator_def)
  have nonempty: "list_all (\<lambda>b. b \<noteq> []) (map fst testEntries)"
    by (simp add: testEntries_def)
  have dist: "distinct (map (relative (process_cwd (test_host stub_js)) ''.'') (map fst testEntries))"
    by (simp add: testEntries_def test_host_def relative_def resolve_def isAbsolute_def)
  have noidx: "list_all (\<lambda>b. \<not> isArrayIndex b) (map fst testEntries)"
    by (simp add: testEntries_def isArrayIndex_def)
  have re: "resolveEntries (test_host stub_js)
         (clone_module\<lparr>webpackConfig :=
            Some (as_webpackConfig (configured (serverless clone_module)))\<rparr>)
       = (Inr testEntries, clone_module\<lparr>webpackConfig := Some (Config_object clone_config)\<rparr>)"
    by (simp add: clone_module_def testEntries_def fixture_defs validate_defs)
  have match: "list_all (\<lambda>(k, v). entryFile (test_host stub_js) v
                          = Some (relative (process_cwd (test_host stub_js)) ''.'' k)) testEntries"
    by (simp add: testEntries_def test_host_def entryFile_def relative_def resolve_def
        stripExtension_def syntaxCharacter_def line_terminator_def extname_def basename_part_def
        isAbsolute_def Let_def)
  have sup: "suppliedConfig (test_host stub_js) (serverless clone_module) = Some clone_config"
    by (simp add: clone_module_def fixture_defs suppliedConfig_def configured_def)
  have entry: "\<not> (truthy_opt (cfg_entry clone_config)
          \<and> \<not> isEqual (cfg_entry clone_config) (Some (entries_object testEntries)))"
    by (simp add: clone_config_def truthy_opt_def)
  have outp: "out_path (snd (defaulted (serverless clone_module) (options clone_module) clone_config))
       = Some (JStr ''output'')"
    by (simp add: clone_module_def clone_config_def fixture_defs defaulted_def defaultOutput_def
        defaultTarget_def defaultContext_def truthy_opt_def customOutputPath_def
        isEmpty_output_def Let_def)
  from C3_one_configuration_per_function[OF iso all names named nameidx bases nonempty dist noidx re
      match sup entry outp]
  obtain this' where v: "validate (test_host stub_js) clone_module = (Resolved, this')"
    and len: "length (configurations this') = length (all_functions (serverless clone_module))"
    and nth: "\<forall>i < length (all_functions (serverless clone_module)).
                 configurations this' ! i
                 = (fst (defaulted (serverless clone_module) (options clone_module) clone_config))
                     \<lparr>cfg_entry := Some (JObj (fmap_of_list
                        [(map fst testEntries ! i, JStr (snd (testEntries ! i)))])),
                      cfg_output := Some ((snd (defaulted (serverless clone_module) (options clone_module) clone_config))
                        \<lparr>out_path := Some (JStr (path_join ''output''
                                       (fst (all_functions (serverless clone_module) ! i))))\<rparr>)\<rparr>"
    by blast
  have four: "length (all_functions (serverless clone_module)) = 4"
    by (simp add: clone_module_def fixture_defs)
  have resolved: "fst (validate (test_host stub_js) clone_module) = Resolved"
    and this': "snd (validate (test_host stub_js) clone_module) = this'"
    using v by simp_all
  have cfgs: "configurations this'
              = map (\<lambda>i. configurations this' ! i) [0, 1, 2, 3]"
    using len four by (intro nth_equalityI) (auto simp: less_Suc_eq numeral_eq_Suc)
  have c0: "configurations this' ! 0 = clone_config
      \<lparr>cfg_entry := Some (JObj (fmap_of_list [(''module1'', JStr ''./module1.js'')])),
       cfg_target := Some (JStr ''node''),
       cfg_output := Some \<lparr>out_libraryTarget = Some (JStr ''commonjs''),
                              out_path = Some (JStr ''output/func1''),
                              out_filename = None, out_others = fmempty\<rparr>\<rparr>"
    and c1: "configurations this' ! Suc 0 = clone_config
      \<lparr>cfg_entry := Some (JObj (fmap_of_list [(''module2'', JStr ''./module2.js'')])),
       cfg_target := Some (JStr ''node''),
       cfg_output := Some \<lparr>out_libraryTarget = Some (JStr ''commonjs''),
                              out_path = Some (JStr ''output/func2''),
                              out_filename = None, out_others = fmempty\<rparr>\<rparr>"
    and c2: "configurations this' ! 2 = clone_config
      \<lparr>cfg_entry := Some (JObj (fmap_of_list
         [(''handlers/func3/module2'', JStr ''./handlers/func3/module2.js'')])),
       cfg_target := Some (JStr ''node''),
       cfg_output := Some \<lparr>out_libraryTarget = Some (JStr ''commonjs''),
                              out_path = Some (JStr ''output/func3''),
                              out_filename = None, out_others = fmempty\<rparr>\<rparr>"
    and c3: "configurations this' ! 3 = clone_config
      \<lparr>cfg_entry := Some (JObj (fmap_of_list
         [(''handlers/module2/func3/module2'', JStr ''./handlers/module2/func3/module2.js'')])),
       cfg_target := Some (JStr ''node''),
       cfg_output := Some \<lparr>out_libraryTarget = Some (JStr ''commonjs''),
                              out_path = Some (JStr ''output/func4''),
                              out_filename = None, out_others = fmempty\<rparr>\<rparr>"
    using nth four
    by (simp_all add: clone_module_def clone_config_def testEntries_def fixture_defs defaulted_def
        defaultOutput_def defaultTarget_def defaultContext_def customOutputPath_def
        isEmpty_output_def truthy_opt_def path_join_def normalize_def isAbsolute_def Let_def)
  have "map (\<lambda>i. configurations this' ! i) [0, 1, 2, 3]
        = [configurations this' ! 0, configurations this' ! Suc 0,
           configurations this' ! 2, configurations this' ! 3]"
    by simp
  with cfgs have list: "configurations this'
        = [configurations this' ! 0, configurations this' ! Suc 0,
           configurations this' ! 2, configurations this' ! 3]"
    by (rule trans)
  have e: "map cfg_entry (configurations this')
       = map (\<lambda>(k, v). Some (JObj (fmap_of_list [(k, JStr v)]))) testEntries"
    by (subst list) (simp add: c0 c1 c2 c3 testEntries_def)
  have o: "map cfg_output (configurations this')
       = map (\<lambda>name. Some \<lparr>out_libraryTarget = Some (JStr ''commonjs''),
                              out_path = Some (JStr (''output/'' @ name)),
                              out_filename = None, out_others = fmempty\<rparr>)
           [''func1'', ''func2'', ''func3'', ''func4'']"
    by (subst list) (simp add: c0 c1 c2 c3)
  have c: "map cfg_context (configurations this') = [Some (JStr ''some context''), Some (JStr ''some context''),
          Some (JStr ''some context''), Some (JStr ''some context'')]"
    by (subst list) (simp add: c0 c1 c2 c3 clone_config_def)
  have d: "map cfg_others (configurations this')
       = [fmap_of_list [(''devtool'', JStr ''source-map'')], fmap_of_list [(''devtool'', JStr ''source-map'')],
          fmap_of_list [(''devtool'', JStr ''source-map'')], fmap_of_list [(''devtool'', JStr ''source-map'')]]"
    by (subst list) (simp add: c0 c1 c2 c3 clone_config_def)
  from iso all names named nameidx bases nonempty dist noidx re match sup entry outp resolved
    len four e o c d
  show ?thesis unfolding this' by simp
qed


text \<open>
  Claim C3, as the specification has it, fails in the order of the configurations. An
  object enumerates its array-index keys first, in ascending order. For four functions
  whose handlers resolve to the four distinct base paths \<open>2\<close>, \<open>1\<close>, \<open>module3\<close>
  and \<open>module4\<close>, the entries are created in this order and visited in the order
  \<open>1\<close>, \<open>2\<close>, \<open>module3\<close>, \<open>module4\<close>, and the first configuration is the
  one of the function declared second. For four functions declared under the names
  \<open>2\<close>, \<open>1\<close>, \<open>third\<close> and \<open>fourth\<close>, the host lists the names in the order
  \<open>1\<close>, \<open>2\<close>, \<open>third\<close>, \<open>fourth\<close>, and again the first configuration is the
  one of the function declared second.
\<close>

theorem C3_declaration_order_counterexample:
  "map fst (all_functions (serverless numbered_module)) = [''first'', ''second'', ''third'', ''fourth'']
   \<and> map (\<lambda>(name, f). getHandlerFile (handler f)) (all_functions (serverless numbered_module))
       = [Some ''2'', Some ''1'', Some ''module3'', Some ''module4'']
   \<and> fst (validate (test_host stub_js) numbered_module) = Resolved
   \<and> lib_entries (lib (snd (validate (test_host stub_js) numbered_module)))
       = Some [(''2'', ''./2.js''), (''1'', ''./1.js''),
               (''module3'', ''./module3.js''), (''module4'', ''./module4.js'')]
   \<and> map cfg_entry (configurations (snd (validate (test_host stub_js) numbered_module)))
       = [Some (JObj (fmap_of_list [(''1'', JStr ''./1.js'')])),
          Some (JObj (fmap_of_list [(''2'', JStr ''./2.js'')])),
          Some (JObj (fmap_of_list [(''module3'', JStr ''./module3.js'')])),
          Some (JObj (fmap_of_list [(''module4'', JStr ''./module4.js'')]))]
   \<and> map cfg_output (configurations (snd (validate (test_host stub_js) numbered_module)))
       = [Some \<lparr>out_libraryTarget = None, out_path = Some (JStr ''output/second''),
                out_filename = None, out_others = fmempty\<rparr>,
          Some \<lparr>out_libraryTarget = None, out_path = Some (JStr ''output/first''),
                out_filename = None, out_others = fmempty\<rparr>,
          Some \<lparr>out_libraryTarget = None, out_path = Some (JStr ''output/third''),
                out_filename = None, out_others = fmempty\<rparr>,
          Some \<lparr>out_libraryTarget = None, out_path = Some (JStr ''output/fourth''),
                out_filename = None, out_others = fmempty\<rparr>]
   \<and> map fst (all_functions (serverless numbered_names_module)) = [''2'', ''1'', ''third'', ''fourth'']
   \<and> map (\<lambda>(name, f). getHandlerFile (handler f)) (all_functions (serverless numbered_names_module))
       = [Some ''module1'', Some ''module2'', Some ''module3'', Some ''module4'']
   \<and> fst (validate (test_host stub_js) numbered_names_module) = Resolved
   \<and> map cfg_entry (configurations (snd (validate (test_host stub_js) numbered_names_module)))
       = [Some (JObj (fmap_of_list [(''module2'', JStr ''./module2.js'')])),
          Some (JObj (fmap_of_list [(''module1'', JStr ''./module1.js'')])),
          Some (JObj (fmap_of_list [(''module3'', JStr ''./module3.js'')])),
          Some (JObj (fmap_of_list [(''module4'', JStr ''./module4.js'')]))]
   \<and> map out_path (map (\<lambda>c. the (cfg_output c))
         (configurations (snd (validate (test_host stub_js) numbered_names_module))))
       = [Some (JStr ''output/1''), Some (JStr ''output/2''),
          Some (JStr ''output/third''), Some (JStr ''output/fourth'')]"
proof -
  have a: "map fst (all_functions (serverless numbered_module)) = [''first'', ''second'', ''third'', ''fourth'']"
    and b: "map (\<lambda>(name, f). getHandlerFile (handler f)) (all_functions (serverless numbered_module))
       = [Some ''2'', Some ''1'', Some ''module3'', Some ''module4'']"
    by (simp_all add: numbered_module_def fixture_defs getHandlerFile_def line_terminator_def)
  have c: "fst (validate (test_host stub_js) numbered_module) = Resolved"
    by (simp add: numbered_module_def fixture_defs validate_defs individually_defs)
  have d: "lib_entries (lib (snd (validate (test_host stub_js) numbered_module)))
       = Some [(''2'', ''./2.js''), (''1'', ''./1.js''),
               (''module3'', ''./module3.js''), (''module4'', ''./module4.js'')]"
    by (simp add: numbered_module_def fixture_defs validate_defs individually_defs)
  have e: "map cfg_entry (configurations (snd (validate (test_host stub_js) numbered_module)))
       = [Some (JObj (fmap_of_list [(''1'', JStr ''./1.js'')])),
          Some (JObj (fmap_of_list [(''2'', JStr ''./2.js'')])),
          Some (JObj (fmap_of_list [(''module3'', JStr ''./module3.js'')])),
          Some (JObj (fmap_of_list [(''module4'', JStr ''./module4.js'')]))]"
    by (simp add: numbered_module_def configurations_def fixture_defs validate_defs individually_defs)
  have f: "map cfg_output (configurations (snd (validate (test_host stub_js) numbered_module)))
       = [Some \<lparr>out_libraryTarget = None, out_path = Some (JStr ''output/second''),
                out_filename = None, out_others = fmempty\<rparr>,
          Some \<lparr>out_libraryTarget = None, out_path = Some (JStr ''output/first''),
                out_filename = None, out_others = fmempty\<rparr>,
          Some \<lparr>out_libraryTarget = None, out_path = Some (JStr ''output/third''),
                out_filename = None, out_others = fmempty\<rparr>,
          Some \<lparr>out_libraryTarget = None, out_path = Some (JStr ''output/fourth''),
                out_filename = None, out_others = fmempty\<rparr>]"
    by (simp add: numbered_module_def configurations_def fixture_defs validate_defs individually_defs)
  have g: "map fst (all_functions (serverless numbered_names_module)) = [''2'', ''1'', ''third'', ''fourth'']"
    and h: "map (\<lambda>(name, f). getHandlerFile (handler f)) (all_functions (serverless numbered_names_module))
       = [Some ''module1'', Some ''module2'', Some ''module3'', Some ''module4'']"
    by (simp_all add: numbered_names_module_def fixture_defs getHandlerFile_def line_terminator_def)
  have i: "fst (validate (test_host stub_js) numbered_names_module) = Resolved"
    by (simp add: numbered_names_module_def fixture_defs validate_defs individually_defs)
  have j: "map cfg_entry (configurations (snd (validate (test_host stub_js) numbered_names_module)))
       = [Some (JObj (fmap_of_list [(''module2'', JStr ''./module2.js'')])),
          Some (JObj (fmap_of_list [(''module1'', JStr ''./module1.js'')])),
          Some (JObj (fmap_of_list [(''module3'', JStr ''./module3.js'')])),
          Some (JObj (fmap_of_list [(''module4'', JStr ''./module4.js'')]))]"
    by (simp add: numbered_names_module_def configurations_def fixture_defs validate_defs
        individually_defs)
  have k: "map out_path (map (\<lambda>c. the (cfg_output c))
         (configurations (snd (validate (test_host stub_js) numbered_names_module))))
       = [Some (JStr ''output/1''), Some (JStr ''output/2''),
          Some (JStr ''output/third''), Some (JStr ''output/fourth'')]"
    by (simp add: numbered_names_module_def configurations_def fixture_defs validate_defs
        individually_defs)
  from a b c d e f g h i j k show ?thesis by blast
qed

end
